theory Spec2Isabelle
  imports Complex_Main "HOL-Library.Word" "HOL-Library.Char_ord" "HOL-Library.List_Lexorder"
    "HOL-Library.Product_Lexorder"
begin

section \<open>The marching band database: tables and statements of band.cpp\<close>

text \<open>
  band.cpp is a console program over one SQLite database. Every operation of the program is
  a handful of SQL statements; the rules of the system (one holder per item kind, fresh item
  numbers, the both-or-neither creation of a student) live in the schema that
  \<open>ensureTables\<close> creates and in the \<open>WHERE\<close> clauses of the statements. The embedding
  therefore has two layers: the tables with the constraints of the schema, and the
  functions of band.cpp written over them, statement by statement.

  Conventions.
  \<^item> A table is the list of its rows; a nullable column is an \<open>option\<close>, \<open>None\<close> being
    SQL's \<open>NULL\<close>.
  \<^item> A statement either completes or is rejected by a constraint of the schema
    (\<open>PRIMARY KEY\<close>, \<open>UNIQUE\<close>, \<open>CHECK\<close>, \<open>FOREIGN KEY\<close> with
    \<open>PRAGMA foreign_keys = ON\<close>); a rejected statement changes nothing. Where the
    program tests the result of a statement, a fault of the storage (a failing
    \<open>sqlite3_prepare_v2\<close>, a busy or full database file) is one more way for the statement
    to be rejected, with the same message and nothing changed, and is not modelled apart.
    The one statement whose result the program never tests, the second \<open>INSERT\<close> of
    \<open>addStudent\<close>, has its fault in the model: see \<open>statement\<close>.
  \<^item> The values typed at the prompts are the arguments of the functions; \<open>date('now')\<close>
    is the argument \<open>today\<close>.
  \<^item> \<open>GPA\<close> is a C \<open>double\<close> and an SQLite \<open>REAL\<close>. The program only stores it and
    compares it with \<open>3.0\<close>; a finite double is taken as the real number it denotes, for
    which both are exact.
  \<^item> \<open>TEXT\<close> is compared bytewise (SQLite's \<open>BINARY\<close> collation): the lexicographic
    order on \<open>string\<close> over the order of character codes.
\<close>

subsection \<open>Rows\<close>

record student =
  STUDENT_ID :: int
  FNAME :: string
  LNAME :: string
  CLASSIFICATION :: "string option"
  SECTION :: string
  SHIRT_SIZE :: "string option"
  SHOE_SIZE :: "string option"

record compliance =
  C_STUDENT_ID :: int
  CREDIT_HOURS :: int
  GPA :: real
  DUES_PAID :: int
  LAST_VERIFIED_DATE :: "string option"

record instrument_type =
  TYPE_ID :: int
  TYPE_NAME :: string
  T_SECTION :: string

text \<open>
  \<open>INSTRUMENTS\<close>, \<open>UNIFORMS\<close> and \<open>SHAKOS\<close> have the same shape: the
  \<open>INTEGER PRIMARY KEY AUTOINCREMENT\<close> column, the columns that describe the item,
  \<open>CONDITION_NOTES\<close>, and the checkout slot \<open>CHECKED_OUT_TO INTEGER UNIQUE\<close> (a foreign
  key into \<open>STUDENTS\<close>) with \<open>CHECKED_OUT_DATE\<close>. The describing columns are the
  parameter \<open>'d\<close>.
\<close>

record 'd item =
  ITEM_ID :: int
  DESCR :: 'd
  CONDITION_NOTES :: "string option"
  CHECKED_OUT_TO :: "int option"
  CHECKED_OUT_DATE :: "string option"

record instrument_descr =
  I_TYPE_ID :: int
  SERIAL :: "string option"

record uniform_descr =
  COAT_SIZE :: "string option"
  PANT_SIZE :: "string option"
  COAT_NUMBER :: "string option"
  PANT_NUMBER :: "string option"

record shako_descr =
  SIZE :: "string option"

text \<open>
  An \<open>AUTOINCREMENT\<close> table is its rows together with its entry in \<open>sqlite_sequence\<close>,
  the largest row id the table has ever held (0 while there is no entry).
\<close>

record 'd itable =
  ROWS :: "'d item list"
  SEQ :: int

record db =
  STUDENTS :: "student list"
  COMPLIANCE :: "compliance list"
  INSTRUMENT_TYPES :: "instrument_type list"
  INSTRUMENTS :: "instrument_descr itable"
  UNIFORMS :: "uniform_descr itable"
  SHAKOS :: "shako_descr itable"
  SECTION_LEADERS :: "(string \<times> int) list"

subsection \<open>What the program prints after a statement\<close>

datatype message =
    Student_added
  | Insert_failed
  | Student_ID_does_not_exist
  | Section_leader_saved
  | Set_leader_failed
  | Instrument_added
  | Add_failed
  | No_instruments_available
  | Checkout_failed
  | Invalid_already_checked_out_or_no_such_ID
  | Item_checked_out
  | None_checked_out
  | Item_returned
  | No_item_with_that_ID
  | Compliance_saved
  | Update_failed

subsection \<open>Helpers of band.cpp and of SQL\<close>

definition allowed :: "string list" where
  "allowed = [''WOODWIND'', ''BRASS'', ''PERCUSSION'', ''AUXILIARY'', ''DM'']"

text \<open>\<open>if (x.empty()) sqlite3_bind_null(...) else sqlite3_bind_text(...)\<close>\<close>

definition bind_text_or_null :: "string \<Rightarrow> string option" where
  "bind_text_or_null x = (if x = [] then None else Some x)"

text \<open>\<open>trim\<close> of band.cpp, with \<open>isspace\<close> of the C locale.\<close>

definition isspace :: "char \<Rightarrow> bool" where
  "isspace c = (c \<in> set [CHR '' '', CHR 0x09, CHR 0x0A, CHR 0x0B, CHR 0x0C, CHR 0x0D])"

definition trim :: "string \<Rightarrow> string" where
  "trim x = rev (dropWhile isspace (rev (dropWhile isspace x)))"

definition coalesce :: "'a option \<Rightarrow> 'a \<Rightarrow> 'a" where
  "coalesce v d = (case v of None \<Rightarrow> d | Some x \<Rightarrow> x)"

text \<open>The integer value of an SQL comparison or \<open>AND\<close> of non-null operands.\<close>

definition sql_bool :: "bool \<Rightarrow> int" where
  "sql_bool b = (if b then 1 else 0)"

text \<open>\<open>sqlite3_column_int\<close> returns the low 32 bits of the stored 64-bit integer as a C int.\<close>

definition sqlite3_column_int :: "int \<Rightarrow> int" where
  "sqlite3_column_int v = sint (word_of_int v :: 32 word)"

definition studentExists :: "db \<Rightarrow> int \<Rightarrow> bool" where
  "studentExists s studentId = (studentId \<in> set (map STUDENT_ID (STUDENTS s)))"

definition getStudentSection :: "db \<Rightarrow> int \<Rightarrow> string option" where
  "getStudentSection s studentId =
     (case filter (\<lambda>st. STUDENT_ID st = studentId) (STUDENTS s) of
        [] \<Rightarrow> None
      | st # _ \<Rightarrow> Some (SECTION st))"

text \<open>
  The row id an \<open>AUTOINCREMENT\<close> table gives to an inserted row: one more than the largest
  row id the table holds or has ever held.
\<close>

definition next_rowid :: "'d itable \<Rightarrow> int" where
  "next_rowid t = fold max (map ITEM_ID (ROWS t)) (SEQ t) + 1"

text \<open>
  \<open>INSERT INTO <items> (..., CHECKED_OUT_TO, CHECKED_OUT_DATE) VALUES (...)\<close> into one of the
  three item tables. \<open>UNIQUE (CHECKED_OUT_TO)\<close> rejects a student who is already in the
  column (\<open>NULL\<close>s never collide), the foreign key rejects a student who is not in
  \<open>STUDENTS\<close>. \<open>None\<close> is the rejected statement.
\<close>

definition insert_item ::
  "student list \<Rightarrow> 'd \<Rightarrow> string option \<Rightarrow> int option \<Rightarrow> string option \<Rightarrow> 'd itable
    \<Rightarrow> 'd itable option" where
  "insert_item studs d notes holder date t =
     (if (case holder of
            None \<Rightarrow> False
          | Some sid \<Rightarrow> Some sid \<in> set (map CHECKED_OUT_TO (ROWS t))
                        \<or> sid \<notin> set (map STUDENT_ID studs))
      then None
      else Some \<lparr>ROWS = ROWS t @ [\<lparr>ITEM_ID = next_rowid t, DESCR = d, CONDITION_NOTES = notes,
                                   CHECKED_OUT_TO = holder, CHECKED_OUT_DATE = date\<rparr>],
                 SEQ = next_rowid t\<rparr>)"

text \<open>
  \<open>UPDATE <items> SET CHECKED_OUT_TO=?, CHECKED_OUT_DATE=date('now')
     WHERE <id>=? AND CHECKED_OUT_TO IS NULL\<close>.
  The result is the new rows and \<open>sqlite3_changes\<close>, or \<open>None\<close> when the statement is
  rejected: by \<open>UNIQUE (CHECKED_OUT_TO)\<close> when another row already holds the student, by
  the foreign key when the student is not in \<open>STUDENTS\<close>.
\<close>

definition update_checkout ::
  "student list \<Rightarrow> string \<Rightarrow> int \<Rightarrow> int \<Rightarrow> 'd item list \<Rightarrow> ('d item list \<times> nat) option" where
  "update_checkout studs today studentId itemId rs =
     (let hit = (\<lambda>r. ITEM_ID r = itemId \<and> CHECKED_OUT_TO r = None) in
      if filter hit rs = [] then Some (rs, 0)
      else if filter (\<lambda>r. ITEM_ID r \<noteq> itemId \<and> CHECKED_OUT_TO r = Some studentId) rs \<noteq> []
              \<or> studentId \<notin> set (map STUDENT_ID studs)
      then None
      else Some (map (\<lambda>r. if hit r
                           then r\<lparr>CHECKED_OUT_TO := Some studentId, CHECKED_OUT_DATE := Some today\<rparr>
                           else r) rs,
                 length (filter hit rs)))"

text \<open>
  \<open>UPDATE <items> SET CHECKED_OUT_TO=NULL, CHECKED_OUT_DATE=NULL WHERE <id>=?\<close>:
  no constraint can reject it. The result is the new rows and \<open>sqlite3_changes\<close>.
\<close>

definition update_return :: "int \<Rightarrow> 'd item list \<Rightarrow> 'd item list \<times> nat" where
  "update_return itemId rs =
     (map (\<lambda>r. if ITEM_ID r = itemId
               then r\<lparr>CHECKED_OUT_TO := None, CHECKED_OUT_DATE := None\<rparr>
               else r) rs,
      length (filter (\<lambda>r. ITEM_ID r = itemId) rs))"

subsection \<open>\<open>ensureTables\<close>\<close>

text \<open>
  The database after \<open>ensureTables\<close> has run on a new file: every table empty, except the
  catalogue of instrument types, whose nine rows get the row ids 1 to 9.
\<close>

definition ensureTables :: db where
  "ensureTables =
     \<lparr>STUDENTS = [],
      COMPLIANCE = [],
      INSTRUMENT_TYPES =
        [\<lparr>TYPE_ID = 1, TYPE_NAME = ''PICCOLO'', T_SECTION = ''WOODWIND''\<rparr>,
         \<lparr>TYPE_ID = 2, TYPE_NAME = ''CLARINET'', T_SECTION = ''WOODWIND''\<rparr>,
         \<lparr>TYPE_ID = 3, TYPE_NAME = ''SAXOPHONE'', T_SECTION = ''WOODWIND''\<rparr>,
         \<lparr>TYPE_ID = 4, TYPE_NAME = ''TRUMPET'', T_SECTION = ''BRASS''\<rparr>,
         \<lparr>TYPE_ID = 5, TYPE_NAME = ''TROMBONE'', T_SECTION = ''BRASS''\<rparr>,
         \<lparr>TYPE_ID = 6, TYPE_NAME = ''SOUSAPHONE'', T_SECTION = ''BRASS''\<rparr>,
         \<lparr>TYPE_ID = 7, TYPE_NAME = ''MELLOPHONE'', T_SECTION = ''BRASS''\<rparr>,
         \<lparr>TYPE_ID = 8, TYPE_NAME = ''PERCUSSION'', T_SECTION = ''PERCUSSION''\<rparr>,
         \<lparr>TYPE_ID = 9, TYPE_NAME = ''COLOR_GUARD'', T_SECTION = ''AUXILIARY''\<rparr>],
      INSTRUMENTS = \<lparr>ROWS = [], SEQ = 0\<rparr>,
      UNIFORMS = \<lparr>ROWS = [], SEQ = 0\<rparr>,
      SHAKOS = \<lparr>ROWS = [], SEQ = 0\<rparr>,
      SECTION_LEADERS = []\<rparr>"

subsection \<open>Students\<close>

text \<open>
  \<open>INSERT INTO STUDENTS (...) VALUES (?, ?, ?, ?, ?, ?, ?)\<close>: rejected when the id is
  already a primary key or the section fails the \<open>CHECK\<close>.
\<close>

definition insert_student :: "student \<Rightarrow> student list \<Rightarrow> student list option" where
  "insert_student st studs =
     (if STUDENT_ID st \<in> set (map STUDENT_ID studs) \<or> SECTION st \<notin> set allowed
      then None
      else Some (studs @ [st]))"

text \<open>
  \<open>INSERT OR IGNORE INTO COMPLIANCE (...) VALUES (?, 0, 0.0, 0, date('now'))\<close>.
  An existing row with the key is kept (\<open>OR IGNORE\<close>); a missing parent is rejected by the
  foreign key. \<open>addStudent\<close> does not look at the result of the step, so both leave the
  table as it was.
\<close>

definition insert_or_ignore_compliance ::
  "student list \<Rightarrow> int \<Rightarrow> string \<Rightarrow> compliance list \<Rightarrow> compliance list" where
  "insert_or_ignore_compliance studs i today cs =
     (if i \<in> set (map C_STUDENT_ID cs) then cs
      else if i \<notin> set (map STUDENT_ID studs) then cs
      else cs @ [\<lparr>C_STUDENT_ID = i, CREDIT_HOURS = 0, GPA = 0, DUES_PAID = 0,
                  LAST_VERIFIED_DATE = Some today\<rparr>])"

text \<open>
  \<open>addStudent\<close> runs its two \<open>INSERT\<close> statements one after the other, outside any
  transaction. When the first is rejected it prints "Insert failed" and returns. The second
  is run only \<open>if (sqlite3_prepare_v2(...) == SQLITE_OK)\<close>, the result of its
  \<open>sqlite3_step\<close> is dropped, and "Student added." is printed in every case. Whether the
  second statement runs to completion is therefore an input of the function: \<open>Runs\<close>, or
  \<open>Fails\<close> when the storage fails at that moment.
\<close>

datatype statement = Runs | Fails

definition addStudent ::
  "string \<Rightarrow> statement \<Rightarrow> int \<Rightarrow> string \<Rightarrow> string \<Rightarrow> string \<Rightarrow> string \<Rightarrow> string \<Rightarrow> string
    \<Rightarrow> db \<Rightarrow> db \<times> message" where
  "addStudent today second i fname lname classification section shirtSize shoeSize s =
     (case insert_student
             \<lparr>STUDENT_ID = i, FNAME = fname, LNAME = lname,
              CLASSIFICATION = Some (trim classification), SECTION = section,
              SHIRT_SIZE = bind_text_or_null (trim shirtSize),
              SHOE_SIZE = bind_text_or_null (trim shoeSize)\<rparr> (STUDENTS s) of
        None \<Rightarrow> (s, Insert_failed)
      | Some studs \<Rightarrow>
          (s\<lparr>STUDENTS := studs,
             COMPLIANCE :=
               (case second of
                  Runs \<Rightarrow> insert_or_ignore_compliance studs i today (COMPLIANCE s)
                | Fails \<Rightarrow> COMPLIANCE s)\<rparr>,
           Student_added))"

text \<open>
  \<open>FROM STUDENTS s LEFT JOIN COMPLIANCE c ON c.STUDENT_ID = s.STUDENT_ID\<close>: every student
  once with each of its compliance rows, or once with \<open>NULL\<close>s when it has none.
\<close>

definition left_join_compliance :: "db \<Rightarrow> (student \<times> compliance option) list" where
  "left_join_compliance s =
     concat (map (\<lambda>st. case filter (\<lambda>c. C_STUDENT_ID c = STUDENT_ID st) (COMPLIANCE s) of
                          [] \<Rightarrow> [(st, None)]
                        | cs \<Rightarrow> map (\<lambda>c. (st, Some c)) cs) (STUDENTS s))"

text \<open>The columns \<open>COALESCE(c.CREDIT_HOURS,0)\<close>, \<open>COALESCE(c.GPA,0.0)\<close>, \<open>COALESCE(c.DUES_PAID,0)\<close>.\<close>

definition col_hours :: "compliance option \<Rightarrow> int" where
  "col_hours c = coalesce (map_option CREDIT_HOURS c) 0"

definition col_gpa :: "compliance option \<Rightarrow> real" where
  "col_gpa c = coalesce (map_option GPA c) 0"

definition col_dues :: "compliance option \<Rightarrow> int" where
  "col_dues c = coalesce (map_option DUES_PAID c) 0"

text \<open>
  \<open>(COALESCE(c.CREDIT_HOURS,0) >= 12 AND COALESCE(c.GPA,0.0) >= 3.0 AND COALESCE(c.DUES_PAID,0)=1)\<close>,
  the column \<open>ELIGIBLE\<close> of \<open>viewAllStudents\<close> and \<open>ELIG\<close> of \<open>showEligibilityReport\<close>.
\<close>

definition col_elig :: "compliance option \<Rightarrow> int" where
  "col_elig c = sql_bool (col_hours c \<ge> 12 \<and> col_gpa c \<ge> 3 \<and> col_dues c = 1)"

definition yes_no :: "int \<Rightarrow> string" where
  "yes_no x = (if x \<noteq> 0 then ''YES'' else ''NO'')"

definition y_n :: "int \<Rightarrow> string" where
  "y_n x = (if x \<noteq> 0 then ''Y'' else ''N'')"

record student_line =
  V_ID :: int
  V_NAME :: string
  V_CLASS :: string
  V_SECTION :: string
  V_SHIRT :: string
  V_SHOE :: string
  V_HRS :: int
  V_GPA :: real
  V_DUES :: string
  V_ELIG :: string

text \<open>
  \<open>ORDER BY\<close> is \<open>sort_key\<close>. SQL leaves the order of rows with equal keys open;
  no statement below depends on it.
\<close>

definition viewAllStudents_rows :: "db \<Rightarrow> (student \<times> compliance option) list" where
  "viewAllStudents_rows s =
     sort_key (\<lambda>(st, c). (SECTION st, LNAME st, FNAME st)) (left_join_compliance s)"

definition viewAllStudents_line :: "student \<times> compliance option \<Rightarrow> student_line" where
  "viewAllStudents_line r =
     (case r of (st, c) \<Rightarrow>
        \<lparr>V_ID = sqlite3_column_int (STUDENT_ID st),
         V_NAME = FNAME st @ '' '' @ LNAME st,
         V_CLASS = coalesce (CLASSIFICATION st) [],
         V_SECTION = SECTION st,
         V_SHIRT = coalesce (SHIRT_SIZE st) [],
         V_SHOE = coalesce (SHOE_SIZE st) [],
         V_HRS = sqlite3_column_int (col_hours c),
         V_GPA = col_gpa c,
         V_DUES = yes_no (sqlite3_column_int (col_dues c)),
         V_ELIG = yes_no (sqlite3_column_int (col_elig c))\<rparr>)"

definition viewAllStudents :: "db \<Rightarrow> student_line list" where
  "viewAllStudents s = map viewAllStudents_line (viewAllStudents_rows s)"

record student_profile =
  P_ID :: int
  P_NAME :: string
  P_CLASS :: string
  P_SECTION :: string
  P_SHIRT :: string
  P_SHOE :: string
  P_HRS :: int
  P_GPA :: real
  P_DUES :: string
  P_ELIGIBLE :: string
  P_VERIFIED :: string

text \<open>
  \<open>findStudentById\<close> computes the flag in C++, from the values it has read with
  \<open>sqlite3_column_int\<close> and \<open>sqlite3_column_double\<close>:
  \<open>bool eligible = (hrs >= 12 && gpa >= 3.0 && dues == 1)\<close>.
\<close>

definition findStudentById_line :: "student \<times> compliance option \<Rightarrow> student_profile" where
  "findStudentById_line r =
     (case r of (st, c) \<Rightarrow>
        (let hrs = sqlite3_column_int (col_hours c);
             gpa = col_gpa c;
             dues = sqlite3_column_int (col_dues c);
             eligible = (hrs \<ge> 12 \<and> gpa \<ge> 3 \<and> dues = 1)
         in \<lparr>P_ID = sqlite3_column_int (STUDENT_ID st),
             P_NAME = FNAME st @ '' '' @ LNAME st,
             P_CLASS = coalesce (CLASSIFICATION st) [],
             P_SECTION = SECTION st,
             P_SHIRT = coalesce (SHIRT_SIZE st) [],
             P_SHOE = coalesce (SHOE_SIZE st) [],
             P_HRS = hrs,
             P_GPA = gpa,
             P_DUES = yes_no dues,
             P_ELIGIBLE = (if eligible then ''YES'' else ''NO''),
             P_VERIFIED = coalesce (Option.bind c LAST_VERIFIED_DATE) []\<rparr>))"

text \<open>\<open>None\<close> is "No student found with that ID."; the program reads the first row only.\<close>

definition findStudentById :: "int \<Rightarrow> db \<Rightarrow> student_profile option" where
  "findStudentById i s =
     (case filter (\<lambda>(st, c). STUDENT_ID st = i) (left_join_compliance s) of
        [] \<Rightarrow> None
      | r # _ \<Rightarrow> Some (findStudentById_line r))"

text \<open>
  \<open>INSERT INTO SECTION_LEADERS (SECTION, LEADER_STUDENT_ID) VALUES (?, ?)
     ON CONFLICT(SECTION) DO UPDATE SET LEADER_STUDENT_ID=excluded.LEADER_STUDENT_ID\<close>
\<close>

definition upsert_leader ::
  "student list \<Rightarrow> string \<Rightarrow> int \<Rightarrow> (string \<times> int) list \<Rightarrow> (string \<times> int) list option" where
  "upsert_leader studs section leaderId ls =
     (if section \<notin> set allowed \<or> leaderId \<notin> set (map STUDENT_ID studs) then None
      else if section \<in> set (map fst ls)
      then Some (map (\<lambda>(k, v). if k = section then (k, leaderId) else (k, v)) ls)
      else Some (ls @ [(section, leaderId)]))"

definition setSectionLeader :: "string \<Rightarrow> int \<Rightarrow> db \<Rightarrow> db \<times> message" where
  "setSectionLeader section leaderId s =
     (if \<not> studentExists s leaderId then (s, Student_ID_does_not_exist)
      else (case upsert_leader (STUDENTS s) section leaderId (SECTION_LEADERS s) of
              None \<Rightarrow> (s, Set_leader_failed)
            | Some ls \<Rightarrow> (s\<lparr>SECTION_LEADERS := ls\<rparr>, Section_leader_saved)))"

subsection \<open>Instruments\<close>

text \<open>
  \<open>INSERT INTO INSTRUMENTS (TYPE_ID, SERIAL, CONDITION_NOTES) VALUES (?, ?, ?)\<close>: rejected
  when \<open>TYPE_ID\<close> is not in the catalogue (foreign key) or the serial, if not \<open>NULL\<close>,
  is already in the table (\<open>SERIAL TEXT UNIQUE\<close>).
\<close>

definition insert_instrument ::
  "instrument_type list \<Rightarrow> student list \<Rightarrow> instrument_descr \<Rightarrow> string option
    \<Rightarrow> instrument_descr itable \<Rightarrow> instrument_descr itable option" where
  "insert_instrument types studs d notes t =
     (if I_TYPE_ID d \<notin> set (map TYPE_ID types)
         \<or> (SERIAL d \<noteq> None \<and> SERIAL d \<in> set (map (\<lambda>r. SERIAL (DESCR r)) (ROWS t)))
      then None
      else insert_item studs d notes None None t)"

definition addInstrumentToInventory :: "int \<Rightarrow> string \<Rightarrow> string \<Rightarrow> db \<Rightarrow> db \<times> message" where
  "addInstrumentToInventory typeId serial notes s =
     (case insert_instrument (INSTRUMENT_TYPES s) (STUDENTS s)
             \<lparr>I_TYPE_ID = typeId, SERIAL = bind_text_or_null serial\<rparr>
             (bind_text_or_null notes) (INSTRUMENTS s) of
        None \<Rightarrow> (s, Add_failed)
      | Some t \<Rightarrow> (s\<lparr>INSTRUMENTS := t\<rparr>, Instrument_added))"

text \<open>\<open>FROM INSTRUMENTS i JOIN INSTRUMENT_TYPES t ON t.TYPE_ID = i.TYPE_ID\<close>\<close>

definition join_types :: "db \<Rightarrow> (instrument_descr item \<times> instrument_type) list" where
  "join_types s =
     concat (map (\<lambda>i. map (\<lambda>t. (i, t))
                         (filter (\<lambda>t. TYPE_ID t = I_TYPE_ID (DESCR i)) (INSTRUMENT_TYPES s)))
                 (ROWS (INSTRUMENTS s)))"

text \<open>The two lists of \<open>checkoutInstrument\<close>: \<open>sqlFiltered\<close> and \<open>sqlAll\<close>.\<close>

definition sqlFiltered :: "db \<Rightarrow> string \<Rightarrow> (instrument_descr item \<times> instrument_type) list" where
  "sqlFiltered s section =
     sort_key (\<lambda>(i, t). (TYPE_NAME t, ITEM_ID i))
       (filter (\<lambda>(i, t). CHECKED_OUT_TO i = None \<and> T_SECTION t = section) (join_types s))"

definition sqlAll :: "db \<Rightarrow> (instrument_descr item \<times> instrument_type) list" where
  "sqlAll s =
     sort_key (\<lambda>(i, t). (T_SECTION t, TYPE_NAME t, ITEM_ID i))
       (filter (\<lambda>(i, t). CHECKED_OUT_TO i = None) (join_types s))"

text \<open>
  \<open>checkoutInstrument\<close>: the student must exist; the list of available instruments (of the
  student's section when \<open>filt = 1\<close>) must not be empty, otherwise the function returns
  before it asks for an instrument; then the \<open>UPDATE\<close>.
\<close>

definition checkoutInstrument :: "string \<Rightarrow> int \<Rightarrow> int \<Rightarrow> int \<Rightarrow> db \<Rightarrow> db \<times> message" where
  "checkoutInstrument today studentId filt instrumentId s =
     (case getStudentSection s studentId of
        None \<Rightarrow> (s, Student_ID_does_not_exist)
      | Some studentSection \<Rightarrow>
          if (if filt = 1 then sqlFiltered s studentSection else sqlAll s) = []
          then (s, No_instruments_available)
          else (case update_checkout (STUDENTS s) today studentId instrumentId
                       (ROWS (INSTRUMENTS s)) of
                  None \<Rightarrow> (s, Checkout_failed)
                | Some (rs, changes) \<Rightarrow>
                    (s\<lparr>INSTRUMENTS := (INSTRUMENTS s)\<lparr>ROWS := rs\<rparr>\<rparr>,
                     if changes = 0 then Invalid_already_checked_out_or_no_such_ID
                     else Item_checked_out)))"

text \<open>
  \<open>returnInstrument\<close>: when no instrument is checked out the function prints "None." and
  returns; otherwise it asks for an id and runs the \<open>UPDATE\<close>, whose \<open>WHERE\<close> clause is
  the id alone.
\<close>

definition checked_out_instruments ::
  "db \<Rightarrow> (instrument_descr item \<times> instrument_type) list" where
  "checked_out_instruments s =
     sort_key (\<lambda>(i, t). ITEM_ID i) (filter (\<lambda>(i, t). CHECKED_OUT_TO i \<noteq> None) (join_types s))"

definition returnInstrument :: "int \<Rightarrow> db \<Rightarrow> db \<times> message" where
  "returnInstrument instrumentId s =
     (if checked_out_instruments s = [] then (s, None_checked_out)
      else (case update_return instrumentId (ROWS (INSTRUMENTS s)) of
              (rs, changes) \<Rightarrow>
                (s\<lparr>INSTRUMENTS := (INSTRUMENTS s)\<lparr>ROWS := rs\<rparr>\<rparr>,
                 if changes \<noteq> 0 then Item_returned else No_item_with_that_ID)))"

text \<open>
  A line of an assignments view: the id, the describing columns, and
  \<open>COALESCE(CHECKED_OUT_TO,0)\<close>, \<open>COALESCE(CHECKED_OUT_DATE,'')\<close>, \<open>COALESCE(CONDITION_NOTES,'')\<close>.
\<close>

record assignment_line =
  A_ID :: int
  A_COLUMNS :: "string list"
  A_STUDENT :: int
  A_DATE :: string
  A_NOTES :: string

definition assignment_line :: "'d item \<Rightarrow> string list \<Rightarrow> assignment_line" where
  "assignment_line r cols =
     \<lparr>A_ID = sqlite3_column_int (ITEM_ID r),
      A_COLUMNS = cols,
      A_STUDENT = sqlite3_column_int (coalesce (CHECKED_OUT_TO r) 0),
      A_DATE = coalesce (CHECKED_OUT_DATE r) [],
      A_NOTES = coalesce (CONDITION_NOTES r) []\<rparr>"

text \<open>
  \<open>ORDER BY (i.CHECKED_OUT_TO IS NULL) DESC, t.SECTION, t.TYPE_NAME, i.INSTRUMENT_ID\<close>:
  descending in the first key is ascending in its negation.
\<close>

definition viewInstrumentAssignments_rows ::
  "db \<Rightarrow> (instrument_descr item \<times> instrument_type) list" where
  "viewInstrumentAssignments_rows s =
     sort_key (\<lambda>(i, t). (- sql_bool (CHECKED_OUT_TO i = None), T_SECTION t, TYPE_NAME t, ITEM_ID i))
       (join_types s)"

definition viewInstrumentAssignments :: "db \<Rightarrow> assignment_line list" where
  "viewInstrumentAssignments s =
     map (\<lambda>(i, t). assignment_line i [TYPE_NAME t, coalesce (SERIAL (DESCR i)) []])
       (viewInstrumentAssignments_rows s)"

subsection \<open>Uniforms and shakos\<close>

text \<open>
  There is no function that adds a uniform or a shako to the inventory, and none that checks
  an existing one out: \<open>checkoutUniform\<close> and \<open>checkoutShako\<close> insert a new row that is
  checked out from the start.
\<close>

definition checkoutUniform ::
  "string \<Rightarrow> int \<Rightarrow> string \<Rightarrow> string \<Rightarrow> string \<Rightarrow> string \<Rightarrow> string \<Rightarrow> db \<Rightarrow> db \<times> message" where
  "checkoutUniform today studentId coatSize pantSize coatNumber pantNumber notes s =
     (if \<not> studentExists s studentId then (s, Student_ID_does_not_exist)
      else (case insert_item (STUDENTS s)
                   \<lparr>COAT_SIZE = bind_text_or_null coatSize, PANT_SIZE = bind_text_or_null pantSize,
                    COAT_NUMBER = bind_text_or_null coatNumber,
                    PANT_NUMBER = bind_text_or_null pantNumber\<rparr>
                   (bind_text_or_null notes) (Some studentId) (Some today) (UNIFORMS s) of
              None \<Rightarrow> (s, Checkout_failed)
            | Some t \<Rightarrow> (s\<lparr>UNIFORMS := t\<rparr>, Item_checked_out)))"

text \<open>\<open>SELECT ... WHERE CHECKED_OUT_TO IS NOT NULL ORDER BY <id>\<close>\<close>

definition checked_out_items :: "'d itable \<Rightarrow> 'd item list" where
  "checked_out_items t = sort_key ITEM_ID (filter (\<lambda>r. CHECKED_OUT_TO r \<noteq> None) (ROWS t))"

definition returnUniform :: "int \<Rightarrow> db \<Rightarrow> db \<times> message" where
  "returnUniform uniformId s =
     (if checked_out_items (UNIFORMS s) = [] then (s, None_checked_out)
      else (case update_return uniformId (ROWS (UNIFORMS s)) of
              (rs, changes) \<Rightarrow>
                (s\<lparr>UNIFORMS := (UNIFORMS s)\<lparr>ROWS := rs\<rparr>\<rparr>,
                 if changes \<noteq> 0 then Item_returned else No_item_with_that_ID)))"

text \<open>\<open>ORDER BY (CHECKED_OUT_TO IS NULL) DESC, <id>\<close>\<close>

definition assignments_rows :: "'d itable \<Rightarrow> 'd item list" where
  "assignments_rows t =
     sort_key (\<lambda>r. (- sql_bool (CHECKED_OUT_TO r = None), ITEM_ID r)) (ROWS t)"

definition viewUniformAssignments :: "db \<Rightarrow> assignment_line list" where
  "viewUniformAssignments s =
     map (\<lambda>r. assignment_line r
                [coalesce (COAT_SIZE (DESCR r)) [], coalesce (PANT_SIZE (DESCR r)) [],
                 coalesce (COAT_NUMBER (DESCR r)) [], coalesce (PANT_NUMBER (DESCR r)) []])
       (assignments_rows (UNIFORMS s))"

definition checkoutShako :: "string \<Rightarrow> int \<Rightarrow> string \<Rightarrow> string \<Rightarrow> db \<Rightarrow> db \<times> message" where
  "checkoutShako today studentId sz notes s =
     (if \<not> studentExists s studentId then (s, Student_ID_does_not_exist)
      else (case insert_item (STUDENTS s) \<lparr>SIZE = bind_text_or_null sz\<rparr>
                   (bind_text_or_null notes) (Some studentId) (Some today) (SHAKOS s) of
              None \<Rightarrow> (s, Checkout_failed)
            | Some t \<Rightarrow> (s\<lparr>SHAKOS := t\<rparr>, Item_checked_out)))"

definition returnShako :: "int \<Rightarrow> db \<Rightarrow> db \<times> message" where
  "returnShako shakoId s =
     (if checked_out_items (SHAKOS s) = [] then (s, None_checked_out)
      else (case update_return shakoId (ROWS (SHAKOS s)) of
              (rs, changes) \<Rightarrow>
                (s\<lparr>SHAKOS := (SHAKOS s)\<lparr>ROWS := rs\<rparr>\<rparr>,
                 if changes \<noteq> 0 then Item_returned else No_item_with_that_ID)))"

definition viewShakoAssignments :: "db \<Rightarrow> assignment_line list" where
  "viewShakoAssignments s =
     map (\<lambda>r. assignment_line r [coalesce (SIZE (DESCR r)) []]) (assignments_rows (SHAKOS s))"

subsection \<open>Compliance\<close>

text \<open>
  \<open>INSERT INTO COMPLIANCE (...) VALUES (?, ?, ?, ?, date('now'))
     ON CONFLICT(STUDENT_ID) DO UPDATE SET CREDIT_HOURS=excluded.CREDIT_HOURS, ...\<close>:
  rejected by \<open>CHECK (CREDIT_HOURS >= 0)\<close>, by \<open>CHECK (DUES_PAID IN (0,1))\<close> and by the
  foreign key; otherwise the row with the key is overwritten, or the new row is inserted.
\<close>

definition upsert_compliance ::
  "student list \<Rightarrow> compliance \<Rightarrow> compliance list \<Rightarrow> compliance list option" where
  "upsert_compliance studs c cs =
     (if CREDIT_HOURS c < 0 \<or> DUES_PAID c \<notin> set [0, 1]
         \<or> C_STUDENT_ID c \<notin> set (map STUDENT_ID studs)
      then None
      else if C_STUDENT_ID c \<in> set (map C_STUDENT_ID cs)
      then Some (map (\<lambda>r. if C_STUDENT_ID r = C_STUDENT_ID c
                          then r\<lparr>CREDIT_HOURS := CREDIT_HOURS c, GPA := GPA c,
                                DUES_PAID := DUES_PAID c,
                                LAST_VERIFIED_DATE := LAST_VERIFIED_DATE c\<rparr>
                          else r) cs)
      else Some (cs @ [c]))"

text \<open>
  The three values come from \<open>readIntInRange(0, 30)\<close>, \<open>readDoubleInRange(0.0, 4.0)\<close> and
  \<open>readBool01\<close>, which return nothing outside their range; see \<open>validated\<close> below.
\<close>

definition updateStudentCompliance ::
  "string \<Rightarrow> int \<Rightarrow> int \<Rightarrow> real \<Rightarrow> int \<Rightarrow> db \<Rightarrow> db \<times> message" where
  "updateStudentCompliance today i hours gpa dues s =
     (if \<not> studentExists s i then (s, Student_ID_does_not_exist)
      else (case upsert_compliance (STUDENTS s)
                   \<lparr>C_STUDENT_ID = i, CREDIT_HOURS = hours, GPA = gpa, DUES_PAID = dues,
                    LAST_VERIFIED_DATE = Some today\<rparr> (COMPLIANCE s) of
              None \<Rightarrow> (s, Update_failed)
            | Some cs \<Rightarrow> (s\<lparr>COMPLIANCE := cs\<rparr>, Compliance_saved)))"

record eligibility_line =
  E_ID :: int
  E_NAME :: string
  E_CLASS :: string
  E_SECTION :: string
  E_HRS :: int
  E_GPA :: real
  E_DUES :: string
  E_OK_H :: string
  E_OK_G :: string
  E_OK_D :: string
  E_ELIG :: string
  E_VERIFIED :: string

definition showEligibilityReport_rows :: "db \<Rightarrow> (student \<times> compliance option) list" where
  "showEligibilityReport_rows s =
     sort_key (\<lambda>(st, c). (col_elig c, SECTION st, LNAME st, FNAME st)) (left_join_compliance s)"

definition showEligibilityReport_line :: "student \<times> compliance option \<Rightarrow> eligibility_line" where
  "showEligibilityReport_line r =
     (case r of (st, c) \<Rightarrow>
        \<lparr>E_ID = sqlite3_column_int (STUDENT_ID st),
         E_NAME = FNAME st @ '' '' @ LNAME st,
         E_CLASS = coalesce (CLASSIFICATION st) [],
         E_SECTION = SECTION st,
         E_HRS = sqlite3_column_int (col_hours c),
         E_GPA = col_gpa c,
         E_DUES = yes_no (sqlite3_column_int (col_dues c)),
         E_OK_H = y_n (sqlite3_column_int (sql_bool (col_hours c \<ge> 12))),
         E_OK_G = y_n (sqlite3_column_int (sql_bool (col_gpa c \<ge> 3))),
         E_OK_D = y_n (sqlite3_column_int (sql_bool (col_dues c = 1))),
         E_ELIG = yes_no (sqlite3_column_int (col_elig c)),
         E_VERIFIED = coalesce (Option.bind c LAST_VERIFIED_DATE) []\<rparr>)"

definition showEligibilityReport :: "db \<Rightarrow> eligibility_line list" where
  "showEligibilityReport s = map showEligibilityReport_line (showEligibilityReport_rows s)"

subsection \<open>The menu: one command after the other\<close>

text \<open>
  A command is a function of band.cpp with the values typed at its prompts (for
  \<open>addStudent\<close> also the fate of its second statement). The views and reports run
  \<open>SELECT\<close> statements only and leave the database as it is.
\<close>

datatype command =
    AddStudent statement int string string string string string string
  | ViewAllStudents
  | FindStudentById int
  | SetSectionLeader string int
  | CheckoutInstrument int int int
  | ReturnInstrument int
  | ViewInstrumentAssignments
  | AddInstrumentToInventory int string string
  | CheckoutUniform int string string string string string
  | ReturnUniform int
  | ViewUniformAssignments
  | CheckoutShako int string string
  | ReturnShako int
  | ViewShakoAssignments
  | UpdateStudentCompliance int int real int
  | ShowEligibilityReport

fun exec :: "string \<Rightarrow> command \<Rightarrow> db \<Rightarrow> db" where
  "exec today (AddStudent second i f l c sec sh so) s =
     fst (addStudent today second i f l c sec sh so s)"
| "exec today ViewAllStudents s = s"
| "exec today (FindStudentById i) s = s"
| "exec today (SetSectionLeader sec i) s = fst (setSectionLeader sec i s)"
| "exec today (CheckoutInstrument sid filt iid) s = fst (checkoutInstrument today sid filt iid s)"
| "exec today (ReturnInstrument iid) s = fst (returnInstrument iid s)"
| "exec today ViewInstrumentAssignments s = s"
| "exec today (AddInstrumentToInventory ty ser notes) s =
     fst (addInstrumentToInventory ty ser notes s)"
| "exec today (CheckoutUniform sid cs ps cn pn notes) s =
     fst (checkoutUniform today sid cs ps cn pn notes s)"
| "exec today (ReturnUniform uid) s = fst (returnUniform uid s)"
| "exec today ViewUniformAssignments s = s"
| "exec today (CheckoutShako sid sz notes) s = fst (checkoutShako today sid sz notes s)"
| "exec today (ReturnShako kid) s = fst (returnShako kid s)"
| "exec today ViewShakoAssignments s = s"
| "exec today (UpdateStudentCompliance i h g d) s = fst (updateStudentCompliance today i h g d s)"
| "exec today ShowEligibilityReport s = s"

text \<open>
  What the input of band.cpp lets through: \<open>readSectionValidated\<close> only a section of
  \<open>allowed\<close>, \<open>readIntInRange(lo, hi)\<close> and \<open>readDoubleInRange(lo, hi)\<close> only values of the
  range, \<open>readBool01\<close> only 0 and 1; the student id of \<open>addStudent\<close> is read into a C
  \<open>int\<close>.
\<close>

fun validated :: "command \<Rightarrow> bool" where
  "validated (AddStudent second i f l c sec sh so) =
     (sec \<in> set allowed \<and> - 2147483648 \<le> i \<and> i \<le> 2147483647)"
| "validated (SetSectionLeader sec i) = (sec \<in> set allowed)"
| "validated (CheckoutInstrument sid filt iid) = (filt \<in> set [1, 2])"
| "validated (UpdateStudentCompliance i h g d) =
     (0 \<le> h \<and> h \<le> 30 \<and> 0 \<le> g \<and> g \<le> 4 \<and> d \<in> set [0, 1])"
| "validated _ = True"

text \<open>
  A session: the commands of the operator, each with the date of its day, run from a
  database in the given state.
\<close>

fun run :: "(string \<times> command) list \<Rightarrow> db \<Rightarrow> db" where
  "run [] s = s"
| "run ((today, c) # cs) s = run cs (exec today c s)"

section \<open>Properties\<close>

subsection \<open>Definitions used in the statements\<close>

text \<open>
  The eligibility rule in the words of the specification:
  \<open>eligible = (creditHours >= 12) AND (gpa >= 3.0) AND (duesPaid == true)\<close>.
\<close>

definition spec_eligible :: "int \<Rightarrow> real \<Rightarrow> bool \<Rightarrow> bool" where
  "spec_eligible creditHours gpa duesPaid = (creditHours \<ge> 12 \<and> gpa \<ge> 3.0 \<and> duesPaid = True)"

text \<open>
  The compliance facts of a student are the fields of its stored \<open>ComplianceRecord\<close>,
  the row of \<open>COMPLIANCE\<close> with the student's id. The eligibility of a student is the
  rule on these stored fields; a student without a record is not eligible.
\<close>

definition stored_facts :: "db \<Rightarrow> student \<Rightarrow> compliance option" where
  "stored_facts s st = find (\<lambda>r. C_STUDENT_ID r = STUDENT_ID st) (COMPLIANCE s)"

definition spec_flag :: "db \<Rightarrow> student \<Rightarrow> string" where
  "spec_flag s st =
     (case stored_facts s st of
        None \<Rightarrow> ''NO''
      | Some r \<Rightarrow>
          if spec_eligible (CREDIT_HOURS r) (GPA r) (DUES_PAID r = 1) then ''YES'' else ''NO'')"

definition full_name :: "student \<Rightarrow> string" where
  "full_name st = FNAME st @ '' '' @ LNAME st"

text \<open>The commands that only read.\<close>

fun is_read :: "command \<Rightarrow> bool" where
  "is_read ViewAllStudents = True"
| "is_read (FindStudentById i) = True"
| "is_read ShowEligibilityReport = True"
| "is_read ViewInstrumentAssignments = True"
| "is_read ViewUniformAssignments = True"
| "is_read ViewShakoAssignments = True"
| "is_read _ = False"

text \<open>Every stored compliance row holds what the input loops let through.\<close>

definition compliance_in_range :: "db \<Rightarrow> bool" where
  "compliance_in_range s =
     list_all (\<lambda>r. 0 \<le> CREDIT_HOURS r \<and> CREDIT_HOURS r \<le> 30 \<and> DUES_PAID r \<in> set [0, 1])
       (COMPLIANCE s)"

text \<open>Every student id has been read into a C \<open>int\<close>.\<close>

definition student_ids_in_range :: "db \<Rightarrow> bool" where
  "student_ids_in_range s =
     list_all (\<lambda>st. - 2147483648 \<le> STUDENT_ID st \<and> STUDENT_ID st \<le> 2147483647) (STUDENTS s)"

text \<open>\<open>STUDENT_ID\<close> is the primary key of \<open>STUDENTS\<close> and of \<open>COMPLIANCE\<close>.\<close>

definition primary_keys :: "db \<Rightarrow> bool" where
  "primary_keys s =
     (distinct (map STUDENT_ID (STUDENTS s)) \<and> distinct (map C_STUDENT_ID (COMPLIANCE s)))"

subsection \<open>Example databases\<close>

text \<open>A session of seven commands on a new database, and the database it leaves.\<close>

definition session :: "(string \<times> command) list" where
  "session =
     [(''2024-01-01'', AddStudent Runs 101 ''Ann'' ''Lee'' ''Junior'' ''BRASS'' ''M'' ''''),
      (''2024-01-01'', AddStudent Runs 102 ''Bob'' ''Ray'' ''Senior'' ''WOODWIND'' '''' ''9''),
      (''2024-01-02'', AddInstrumentToInventory 4 ''T1'' ''''),
      (''2024-01-02'', AddInstrumentToInventory 2 ''C1'' ''ok''),
      (''2024-01-03'', CheckoutInstrument 101 2 1),
      (''2024-01-03'', CheckoutUniform 101 ''40'' ''32'' ''7'' ''8'' ''''),
      (''2024-01-04'', UpdateStudentCompliance 101 12 3 1)]"

definition band :: db where
  "band = run session ensureTables"

text \<open>
  A database written by an earlier version of the program: a student without a row in
  \<open>COMPLIANCE\<close>.
\<close>

definition ida :: student where
  "ida = \<lparr>STUDENT_ID = 7, FNAME = ''Ida'', LNAME = ''May'', CLASSIFICATION = None,
          SECTION = ''DM'', SHIRT_SIZE = None, SHOE_SIZE = None\<rparr>"

definition legacy :: db where
  "legacy = ensureTables\<lparr>STUDENTS := [ida]\<rparr>"

subsection \<open>Creating a student\<close>

text \<open>The row \<open>addStudent\<close> inserts into \<open>COMPLIANCE\<close>, and the row it inserts into \<open>STUDENTS\<close>.\<close>

definition zero_compliance :: "int \<Rightarrow> string \<Rightarrow> compliance" where
  "zero_compliance i today =
     \<lparr>C_STUDENT_ID = i, CREDIT_HOURS = 0, GPA = 0, DUES_PAID = 0, LAST_VERIFIED_DATE = Some today\<rparr>"

definition new_student ::
  "int \<Rightarrow> string \<Rightarrow> string \<Rightarrow> string \<Rightarrow> string \<Rightarrow> string \<Rightarrow> string \<Rightarrow> student" where
  "new_student i fname lname classification section shirtSize shoeSize =
     \<lparr>STUDENT_ID = i, FNAME = fname, LNAME = lname,
      CLASSIFICATION = Some (trim classification), SECTION = section,
      SHIRT_SIZE = bind_text_or_null (trim shirtSize),
      SHOE_SIZE = bind_text_or_null (trim shoeSize)\<rparr>"

text \<open>
  The foreign key of \<open>COMPLIANCE\<close>: every row belongs to a student. SQLite enforces it
  on every statement; \<open>run_has_parent\<close> shows it for every session.
\<close>

definition compliance_has_parent :: "db \<Rightarrow> bool" where
  "compliance_has_parent s =
     list_all (\<lambda>r. C_STUDENT_ID r \<in> set (map STUDENT_ID (STUDENTS s))) (COMPLIANCE s)"

text \<open>
  Every read path shows the student, with its id, name and section, as not eligible.
\<close>

definition shown_not_eligible :: "db \<Rightarrow> student \<Rightarrow> bool" where
  "shown_not_eligible s st =
     ((\<exists>l \<in> set (viewAllStudents s).
         V_ID l = sqlite3_column_int (STUDENT_ID st) \<and> V_NAME l = full_name st
       \<and> V_SECTION l = SECTION st \<and> V_ELIG l = ''NO'')
      \<and> (\<exists>p. findStudentById (STUDENT_ID st) s = Some p
           \<and> P_ID p = sqlite3_column_int (STUDENT_ID st) \<and> P_NAME p = full_name st
           \<and> P_SECTION p = SECTION st \<and> P_ELIGIBLE p = ''NO'')
      \<and> (\<exists>l \<in> set (showEligibilityReport s).
           E_ID l = sqlite3_column_int (STUDENT_ID st) \<and> E_NAME l = full_name st
         \<and> E_SECTION l = SECTION st \<and> E_ELIG l = ''NO''))"

subsection \<open>Items and their state\<close>

text \<open>
  An item is AVAILABLE: it is in the table, and its checkout slot is empty (\<open>CHECKED_OUT_TO\<close>
  and \<open>CHECKED_OUT_DATE\<close> both \<open>NULL\<close>).
\<close>

definition item_available :: "int \<Rightarrow> 'd itable \<Rightarrow> bool" where
  "item_available itemId t =
     (itemId \<in> set (map ITEM_ID (ROWS t))
      \<and> list_all (\<lambda>r. ITEM_ID r = itemId \<longrightarrow> CHECKED_OUT_TO r = None \<and> CHECKED_OUT_DATE r = None)
           (ROWS t))"

text \<open>
  The session continued: a second uniform checked out and returned, two shakos checked out,
  the first returned, a third student added.
\<close>

definition session2 :: "(string \<times> command) list" where
  "session2 = session @
     [(''2024-01-05'', CheckoutUniform 102 ''38'' ''30'' ''9'' ''9'' ''new''),
      (''2024-01-06'', ReturnUniform 2),
      (''2024-01-06'', CheckoutShako 101 ''L'' ''''),
      (''2024-01-06'', CheckoutShako 102 ''M'' ''''),
      (''2024-01-07'', ReturnShako 1),
      (''2024-01-08'', AddStudent Runs 103 ''Cy'' ''Poe'' ''Freshman'' ''DM'' ''L'' ''10'')]"

definition band2 :: db where
  "band2 = run session2 ensureTables"

text \<open>
  The conditions of the \<open>UPDATE\<close> of \<open>checkoutInstrument\<close>: a row with the id and an
  empty \<open>CHECKED_OUT_TO\<close> (the \<open>WHERE\<close> clause); another row that already holds the
  student (the conflict with \<open>UNIQUE\<close>).
\<close>

definition item_free :: "int \<Rightarrow> 'd itable \<Rightarrow> bool" where
  "item_free itemId t =
     (filter (\<lambda>r. ITEM_ID r = itemId \<and> CHECKED_OUT_TO r = None) (ROWS t) \<noteq> [])"

definition holds_other :: "int \<Rightarrow> int \<Rightarrow> 'd itable \<Rightarrow> bool" where
  "holds_other studentId itemId t =
     (filter (\<lambda>r. ITEM_ID r \<noteq> itemId \<and> CHECKED_OUT_TO r = Some studentId) (ROWS t) \<noteq> [])"

text \<open>The list \<open>checkoutInstrument\<close> shows before it asks for an instrument.\<close>

definition shown_instruments ::
  "db \<Rightarrow> int \<Rightarrow> int \<Rightarrow> (instrument_descr item \<times> instrument_type) list" where
  "shown_instruments s studentId filt =
     (case getStudentSection s studentId of
        None \<Rightarrow> []
      | Some studentSection \<Rightarrow> if filt = 1 then sqlFiltered s studentSection else sqlAll s)"

text \<open>The rows after a checkout: the free row with the id gets the holder and the date.\<close>

definition check_out :: "string \<Rightarrow> int \<Rightarrow> int \<Rightarrow> 'd item list \<Rightarrow> 'd item list" where
  "check_out today studentId itemId rs =
     map (\<lambda>r. if ITEM_ID r = itemId \<and> CHECKED_OUT_TO r = None
               then r\<lparr>CHECKED_OUT_TO := Some studentId, CHECKED_OUT_DATE := Some today\<rparr>
               else r) rs"

text \<open>
  The foreign key of \<open>INSTRUMENTS\<close>: the type of every instrument is in the catalogue.
\<close>

definition instruments_have_types :: "db \<Rightarrow> bool" where
  "instruments_have_types s =
     list_all (\<lambda>r. I_TYPE_ID (DESCR r) \<in> set (map TYPE_ID (INSTRUMENT_TYPES s)))
       (ROWS (INSTRUMENTS s))"

text \<open>
  A student who can be given an instrument: exists, is shown a non-empty list, and holds no
  instrument.
\<close>

definition can_take :: "db \<Rightarrow> int \<Rightarrow> int \<Rightarrow> bool" where
  "can_take s studentId filt =
     (studentExists s studentId \<and> shown_instruments s studentId filt \<noteq> []
      \<and> Some studentId \<notin> set (map CHECKED_OUT_TO (ROWS (INSTRUMENTS s))))"

text \<open>Checkout and return of one instrument, once for every entry of a list.\<close>

definition cycle_commands :: "int \<Rightarrow> (string \<times> int \<times> int) list \<Rightarrow> (string \<times> command) list" where
  "cycle_commands itemId xs =
     concat (map (\<lambda>(today, studentId, filt).
                    [(today, CheckoutInstrument studentId filt itemId),
                     (today, ReturnInstrument itemId)]) xs)"

text \<open>The row \<open>checkoutUniform\<close> and \<open>checkoutShako\<close> insert.\<close>

definition new_item :: "'d itable \<Rightarrow> 'd \<Rightarrow> string \<Rightarrow> int \<Rightarrow> string \<Rightarrow> 'd item" where
  "new_item t d notes studentId today =
     \<lparr>ITEM_ID = next_rowid t, DESCR = d, CONDITION_NOTES = bind_text_or_null notes,
      CHECKED_OUT_TO = Some studentId, CHECKED_OUT_DATE = Some today\<rparr>"

text \<open>
  The single-holder rule of one item table: every \<open>CHECKED_OUT_TO\<close> that is not \<open>NULL\<close> is the
  id of a row of \<open>STUDENTS\<close> (the foreign key), and no student id stands in \<open>CHECKED_OUT_TO\<close>
  of two rows of the table (\<open>CHECKED_OUT_TO INTEGER UNIQUE\<close>). \<open>kind_ok\<close> adds the primary key of
  the table, and \<open>kinds_ok\<close> asks it of \<open>INSTRUMENTS\<close>, \<open>UNIFORMS\<close> and \<open>SHAKOS\<close>, each on its own.
\<close>

definition holders :: "'d item list \<Rightarrow> int option list" where
  "holders rs = filter (\<lambda>h. h \<noteq> None) (map CHECKED_OUT_TO rs)"

definition single_holder :: "student list \<Rightarrow> 'd itable \<Rightarrow> bool" where
  "single_holder studs t =
     (list_all (\<lambda>r. case CHECKED_OUT_TO r of
                       None \<Rightarrow> True
                     | Some studentId \<Rightarrow> studentId \<in> set (map STUDENT_ID studs)) (ROWS t)
      \<and> distinct (holders (ROWS t)))"

definition item_ids_distinct :: "'d itable \<Rightarrow> bool" where
  "item_ids_distinct t = distinct (map ITEM_ID (ROWS t))"

definition kind_ok :: "student list \<Rightarrow> 'd itable \<Rightarrow> bool" where
  "kind_ok studs t = (item_ids_distinct t \<and> single_holder studs t)"

definition kinds_ok :: "db \<Rightarrow> bool" where
  "kinds_ok s =
     (kind_ok (STUDENTS s) (INSTRUMENTS s) \<and> kind_ok (STUDENTS s) (UNIFORMS s)
      \<and> kind_ok (STUDENTS s) (SHAKOS s))"

text \<open>
  The serials in \<open>INSTRUMENTS\<close>, and the row a successful \<open>addInstrumentToInventory\<close> is
  expected to add: the next row id, the type, the serial and the notes (\<open>NULL\<close> when left
  empty), checked out to nobody.
\<close>

definition serials :: "instrument_descr itable \<Rightarrow> string option list" where
  "serials t = map (\<lambda>r. SERIAL (DESCR r)) (ROWS t)"

definition new_instrument :: "instrument_descr itable \<Rightarrow> int \<Rightarrow> string \<Rightarrow> string \<Rightarrow> instrument_descr item" where
  "new_instrument t typeId serial notes =
     \<lparr>ITEM_ID = next_rowid t,
      DESCR = \<lparr>I_TYPE_ID = typeId, SERIAL = if serial = [] then None else Some serial\<rparr>,
      CONDITION_NOTES = if notes = [] then None else Some notes,
      CHECKED_OUT_TO = None, CHECKED_OUT_DATE = None\<rparr>"

text \<open>
  A listing with the available items first and the checked-out items after them, each group
  in the given order. For instruments the order is by the section and the name of the type of
  the instrument in the catalogue, then by id. \<open>id_and_holder\<close> is what a line shows of an item
  in its first column and in its holder column (0 for nobody); \<open>catalogue_ok\<close> is the foreign
  key of \<open>INSTRUMENTS\<close> with the primary key of \<open>INSTRUMENT_TYPES\<close>.
\<close>

definition available_first :: "('d item \<Rightarrow> 'k::linorder) \<Rightarrow> 'd item list \<Rightarrow> 'd item list" where
  "available_first order rs =
     sort_key order (filter (\<lambda>r. CHECKED_OUT_TO r = None) rs)
     @ sort_key order (filter (\<lambda>r. CHECKED_OUT_TO r \<noteq> None) rs)"

definition instrument_type_of :: "db \<Rightarrow> instrument_descr item \<Rightarrow> instrument_type" where
  "instrument_type_of s i =
     (case find (\<lambda>t. TYPE_ID t = I_TYPE_ID (DESCR i)) (INSTRUMENT_TYPES s) of
        Some t \<Rightarrow> t
      | None \<Rightarrow> \<lparr>TYPE_ID = I_TYPE_ID (DESCR i), TYPE_NAME = [], T_SECTION = []\<rparr>)"

definition instrument_order :: "db \<Rightarrow> instrument_descr item \<Rightarrow> string \<times> string \<times> int" where
  "instrument_order s i =
     (T_SECTION (instrument_type_of s i), TYPE_NAME (instrument_type_of s i), ITEM_ID i)"

definition id_and_holder :: "'d item \<Rightarrow> int \<times> int" where
  "id_and_holder r =
     (sqlite3_column_int (ITEM_ID r),
      sqlite3_column_int (case CHECKED_OUT_TO r of None \<Rightarrow> 0 | Some studentId \<Rightarrow> studentId))"

definition catalogue_ok :: "db \<Rightarrow> bool" where
  "catalogue_ok s = (instruments_have_types s \<and> distinct (map TYPE_ID (INSTRUMENT_TYPES s)))"

subsection \<open>Reading columns and the join with COMPLIANCE\<close>

lemma sqlite3_column_int_id:
  "- 2147483648 \<le> v \<Longrightarrow> v < 2147483648 \<Longrightarrow> sqlite3_column_int v = v"
  by (simp add: sqlite3_column_int_def signed_of_int signed_take_bit_int_eq_self)

lemma sqlite3_column_int_sql_bool [simp]:
  "sqlite3_column_int (sql_bool b) = sql_bool b"
  by (simp add: sqlite3_column_int_def sql_bool_def)

lemma sqlite3_column_int_0 [simp]: "sqlite3_column_int 0 = 0"
  by (simp add: sqlite3_column_int_def)

lemma yes_no_sql_bool [simp]: "yes_no (sql_bool b) = (if b then ''YES'' else ''NO'')"
  by (simp add: yes_no_def sql_bool_def)

lemma col_None [simp]: "col_hours None = 0" "col_gpa None = 0" "col_dues None = 0" "col_elig None = 0"
  by (simp_all add: col_hours_def col_gpa_def col_dues_def col_elig_def coalesce_def sql_bool_def)

lemma in_left_join_compliance:
  "(st, c) \<in> set (left_join_compliance s) \<longleftrightarrow>
     st \<in> set (STUDENTS s) \<and>
     (case c of
        None \<Rightarrow> STUDENT_ID st \<notin> set (map C_STUDENT_ID (COMPLIANCE s))
      | Some r \<Rightarrow> r \<in> set (COMPLIANCE s) \<and> C_STUDENT_ID r = STUDENT_ID st)"
proof -
  have none: "filter (\<lambda>c. C_STUDENT_ID c = i) cs = [] \<longleftrightarrow> i \<notin> set (map C_STUDENT_ID cs)" for i cs
    by (auto simp: filter_empty_conv)
  have "(st, c) \<in> set (case filter (\<lambda>c. C_STUDENT_ID c = STUDENT_ID st') cs of
                          [] \<Rightarrow> [(st', None)]
                        | cs \<Rightarrow> map (\<lambda>c. (st', Some c)) cs) \<longleftrightarrow>
        st = st' \<and> (case c of None \<Rightarrow> STUDENT_ID st \<notin> set (map C_STUDENT_ID cs)
                     | Some r \<Rightarrow> r \<in> set cs \<and> C_STUDENT_ID r = STUDENT_ID st)" for st' cs
  proof (cases "filter (\<lambda>c. C_STUDENT_ID c = STUDENT_ID st') cs")
    case Nil
    then show ?thesis using none[of "STUDENT_ID st'" cs]
      by (cases c) (auto simp: filter_empty_conv)
  next
    case (Cons a as)
    have "set (a # as) = {r \<in> set cs. C_STUDENT_ID r = STUDENT_ID st'}"
      using Cons[symmetric] by simp
    moreover have "STUDENT_ID st' \<in> set (map C_STUDENT_ID cs)"
      using none[of "STUDENT_ID st'" cs] Cons by simp
    ultimately show ?thesis using Cons
      by (cases c) auto
  qed
  then show ?thesis
    by (auto simp: left_join_compliance_def)
qed


lemma find_first_row:
  assumes "(st, None) \<in> set (left_join_compliance s)"
  shows "\<exists>st'. findStudentById (STUDENT_ID st) s = Some (findStudentById_line (st', None))"
proof -
  let ?hits = "filter (\<lambda>(st', c). STUDENT_ID st' = STUDENT_ID st) (left_join_compliance s)"
  from assms have "(st, None) \<in> set ?hits" by simp
  then obtain r rs where hits: "?hits = r # rs"
    by (cases ?hits) auto
  then have "r \<in> set ?hits" by simp
  then have r: "r \<in> set (left_join_compliance s)" "STUDENT_ID (fst r) = STUDENT_ID st"
    by (simp_all only: set_filter mem_Collect_eq case_prod_unfold)
  from assms have no: "STUDENT_ID st \<notin> set (map C_STUDENT_ID (COMPLIANCE s))"
    by (simp add: in_left_join_compliance)
  have "snd r = None"
  proof (cases "snd r")
    case (Some a)
    then have "(fst r, Some a) \<in> set (left_join_compliance s)"
      using r(1) by (metis prod.collapse)
    then have "a \<in> set (COMPLIANCE s)" "C_STUDENT_ID a = STUDENT_ID st"
      using r(2) by (simp_all add: in_left_join_compliance)
    then have "STUDENT_ID st \<in> set (map C_STUDENT_ID (COMPLIANCE s))"
      by force
    with no show ?thesis by contradiction
  qed simp
  then obtain st' where "r = (st', None)" by (cases r) simp
  with hits have "findStudentById (STUDENT_ID st) s = Some (findStudentById_line (st', None))"
    by (simp add: findStudentById_def)
  then show ?thesis ..
qed

lemma line_None_fields:
  "V_ID (viewAllStudents_line (st, c)) = sqlite3_column_int (STUDENT_ID st)"
  "V_NAME (viewAllStudents_line (st, c)) = full_name st"
  "V_SECTION (viewAllStudents_line (st, c)) = SECTION st"
  "V_HRS (viewAllStudents_line (st, None)) = 0"
  "V_GPA (viewAllStudents_line (st, None)) = 0"
  "V_DUES (viewAllStudents_line (st, None)) = ''NO''"
  "V_ELIG (viewAllStudents_line (st, None)) = ''NO''"
  by (simp_all add: viewAllStudents_line_def yes_no_def full_name_def)

lemma report_None_fields:
  "E_ID (showEligibilityReport_line (st, c)) = sqlite3_column_int (STUDENT_ID st)"
  "E_NAME (showEligibilityReport_line (st, c)) = full_name st"
  "E_SECTION (showEligibilityReport_line (st, c)) = SECTION st"
  "E_HRS (showEligibilityReport_line (st, None)) = 0"
  "E_GPA (showEligibilityReport_line (st, None)) = 0"
  "E_DUES (showEligibilityReport_line (st, None)) = ''NO''"
  "E_ELIG (showEligibilityReport_line (st, None)) = ''NO''"
  by (simp_all add: showEligibilityReport_line_def yes_no_def full_name_def)

lemma profile_None_fields:
  "P_ID (findStudentById_line (st, c)) = sqlite3_column_int (STUDENT_ID st)"
  "P_NAME (findStudentById_line (st, c)) = full_name st"
  "P_SECTION (findStudentById_line (st, c)) = SECTION st"
  "P_HRS (findStudentById_line (st, None)) = 0"
  "P_GPA (findStudentById_line (st, None)) = 0"
  "P_DUES (findStudentById_line (st, None)) = ''NO''"
  "P_ELIGIBLE (findStudentById_line (st, None)) = ''NO''"
  "P_VERIFIED (findStudentById_line (st, None)) = []"
  by (simp_all add: findStudentById_line_def yes_no_def full_name_def Let_def coalesce_def)

lemma find_first_row_student:
  assumes "(st, None) \<in> set (left_join_compliance s)"
  shows "\<exists>st' \<in> set (STUDENTS s). STUDENT_ID st' = STUDENT_ID st
           \<and> findStudentById (STUDENT_ID st) s = Some (findStudentById_line (st', None))"
proof -
  let ?hits = "filter (\<lambda>(st', c). STUDENT_ID st' = STUDENT_ID st) (left_join_compliance s)"
  from assms have "(st, None) \<in> set ?hits" by simp
  then obtain r rs where hits: "?hits = r # rs"
    by (cases ?hits) auto
  then have "r \<in> set ?hits" by simp
  then have r: "r \<in> set (left_join_compliance s)" "STUDENT_ID (fst r) = STUDENT_ID st"
    by (simp_all only: set_filter mem_Collect_eq case_prod_unfold)
  from assms have no: "STUDENT_ID st \<notin> set (map C_STUDENT_ID (COMPLIANCE s))"
    by (simp add: in_left_join_compliance)
  have "snd r = None"
  proof (cases "snd r")
    case (Some a)
    then have "(fst r, Some a) \<in> set (left_join_compliance s)"
      using r(1) by (metis prod.collapse)
    then have "a \<in> set (COMPLIANCE s)" "C_STUDENT_ID a = STUDENT_ID st"
      using r(2) by (simp_all add: in_left_join_compliance)
    then have "STUDENT_ID st \<in> set (map C_STUDENT_ID (COMPLIANCE s))"
      by force
    with no show ?thesis by contradiction
  qed simp
  then obtain st' where st': "r = (st', None)" by (cases r) simp
  with r have "st' \<in> set (STUDENTS s)" "STUDENT_ID st' = STUDENT_ID st"
    by (simp_all add: in_left_join_compliance)
  moreover from st' hits
  have "findStudentById (STUDENT_ID st) s = Some (findStudentById_line (st', None))"
    by (simp add: findStudentById_def)
  ultimately show ?thesis by blast
qed

lemma same_id_same_student:
  assumes "distinct (map STUDENT_ID studs)" and "a \<in> set studs" and "b \<in> set studs"
    and "STUDENT_ID a = STUDENT_ID b"
  shows "a = b"
  using assms by (meson distinct_map inj_onD)

text \<open>
  Claim C9. For every student that is in the roster but has no row in \<open>COMPLIANCE\<close>,
  \<open>viewAllStudents\<close>, \<open>findStudentById\<close> and \<open>showEligibilityReport\<close> all succeed and
  present that student (its id, name and section) with 0 credit hours, GPA 0.0, dues unpaid
  and eligibility "NO"; the student is not omitted, and no row of the join shows the student
  with other values. (\<open>findStudentById\<close> reads the first row with the id; that it is this
  student's row is the primary key of \<open>STUDENTS\<close>.)
\<close>

theorem missing_compliance_reads_as_zero:
  assumes "st \<in> set (STUDENTS s)"
    and "STUDENT_ID st \<notin> set (map C_STUDENT_ID (COMPLIANCE s))"
  shows "(\<exists>l \<in> set (viewAllStudents s).
            V_ID l = sqlite3_column_int (STUDENT_ID st) \<and> V_NAME l = full_name st
          \<and> V_SECTION l = SECTION st
          \<and> V_HRS l = 0 \<and> V_GPA l = 0 \<and> V_DUES l = ''NO'' \<and> V_ELIG l = ''NO'')
       \<and> (\<exists>p. findStudentById (STUDENT_ID st) s = Some p
          \<and> P_ID p = sqlite3_column_int (STUDENT_ID st)
          \<and> (distinct (map STUDENT_ID (STUDENTS s)) \<longrightarrow>
                p = findStudentById_line (st, None)
              \<and> P_NAME p = full_name st \<and> P_SECTION p = SECTION st)
          \<and> P_HRS p = 0 \<and> P_GPA p = 0 \<and> P_DUES p = ''NO'' \<and> P_ELIGIBLE p = ''NO''
          \<and> P_VERIFIED p = [])
       \<and> (\<exists>l \<in> set (showEligibilityReport s).
            E_ID l = sqlite3_column_int (STUDENT_ID st) \<and> E_NAME l = full_name st
          \<and> E_SECTION l = SECTION st
          \<and> E_HRS l = 0 \<and> E_GPA l = 0 \<and> E_DUES l = ''NO'' \<and> E_ELIG l = ''NO'')
       \<and> (\<forall>(st', c) \<in> set (left_join_compliance s). STUDENT_ID st' = STUDENT_ID st \<longrightarrow> c = None)"
proof -
  from assms have row: "(st, None) \<in> set (left_join_compliance s)"
    by (simp add: in_left_join_compliance)
  have v: "viewAllStudents_line (st, None) \<in> set (viewAllStudents s)"
    using row by (simp add: viewAllStudents_def viewAllStudents_rows_def)
  have e: "showEligibilityReport_line (st, None) \<in> set (showEligibilityReport s)"
    using row by (simp add: showEligibilityReport_def showEligibilityReport_rows_def)
  obtain st' where st': "st' \<in> set (STUDENTS s)" "STUDENT_ID st' = STUDENT_ID st"
    "findStudentById (STUDENT_ID st) s = Some (findStudentById_line (st', None))"
    using find_first_row_student[OF row] by blast
  have same: "st' = st" if "distinct (map STUDENT_ID (STUDENTS s))"
    using same_id_same_student[OF that st'(1) assms(1) st'(2)] .
  have 1: "\<exists>l \<in> set (viewAllStudents s).
            V_ID l = sqlite3_column_int (STUDENT_ID st) \<and> V_NAME l = full_name st
          \<and> V_SECTION l = SECTION st
          \<and> V_HRS l = 0 \<and> V_GPA l = 0 \<and> V_DUES l = ''NO'' \<and> V_ELIG l = ''NO''"
    by (rule bexI[OF _ v]) (simp only: line_None_fields simp_thms)
  have 3: "\<exists>l \<in> set (showEligibilityReport s).
            E_ID l = sqlite3_column_int (STUDENT_ID st) \<and> E_NAME l = full_name st
          \<and> E_SECTION l = SECTION st
          \<and> E_HRS l = 0 \<and> E_GPA l = 0 \<and> E_DUES l = ''NO'' \<and> E_ELIG l = ''NO''"
    by (rule bexI[OF _ e]) (simp only: report_None_fields simp_thms)
  have 2: "\<exists>p. findStudentById (STUDENT_ID st) s = Some p
          \<and> P_ID p = sqlite3_column_int (STUDENT_ID st)
          \<and> (distinct (map STUDENT_ID (STUDENTS s)) \<longrightarrow>
                p = findStudentById_line (st, None)
              \<and> P_NAME p = full_name st \<and> P_SECTION p = SECTION st)
          \<and> P_HRS p = 0 \<and> P_GPA p = 0 \<and> P_DUES p = ''NO'' \<and> P_ELIGIBLE p = ''NO''
          \<and> P_VERIFIED p = []"
    using st'(2,3) same by (intro exI[of _ "findStudentById_line (st', None)"])
      (simp add: profile_None_fields)
  have 4: "\<forall>(st', c) \<in> set (left_join_compliance s). STUDENT_ID st' = STUDENT_ID st \<longrightarrow> c = None"
    using assms(2) by (force simp: in_left_join_compliance split: option.splits)
  from 1 2 3 4 show ?thesis by (intro conjI)
qed

theorem missing_compliance_reads_as_zero_witness:
  "ida \<in> set (STUDENTS legacy)
   \<and> STUDENT_ID ida \<notin> set (map C_STUDENT_ID (COMPLIANCE legacy))
   \<and> distinct (map STUDENT_ID (STUDENTS legacy))
   \<and> (\<exists>p. findStudentById (STUDENT_ID ida) legacy = Some p
          \<and> P_ID p = sqlite3_column_int (STUDENT_ID ida)
          \<and> P_NAME p = full_name ida \<and> P_SECTION p = SECTION ida
          \<and> P_HRS p = 0 \<and> P_GPA p = 0 \<and> P_DUES p = ''NO'' \<and> P_ELIGIBLE p = ''NO'')"
proof -
  have 1: "ida \<in> set (STUDENTS legacy)"
    by (simp add: legacy_def)
  have 2: "STUDENT_ID ida \<notin> set (map C_STUDENT_ID (COMPLIANCE legacy))"
    by (simp add: legacy_def ensureTables_def)
  have 3: "distinct (map STUDENT_ID (STUDENTS legacy))"
    by (simp add: legacy_def)
  from missing_compliance_reads_as_zero[OF 1 2] 1 2 3 show ?thesis by blast
qed

subsection \<open>Eligibility on the read paths\<close>

lemma filter_unique_key:
  assumes "distinct (map k cs)"
  shows "filter (\<lambda>r. k r = i) cs = (case find (\<lambda>r. k r = i) cs of None \<Rightarrow> [] | Some r \<Rightarrow> [r])"
  using assms
proof (induction cs)
  case Nil
  then show ?case by simp
next
  case (Cons a cs)
  show ?case
  proof (cases "k a = i")
    case True
    with Cons.prems have "i \<notin> k ` set cs" by simp
    then have "\<forall>r \<in> set cs. k r \<noteq> i" by (metis imageI)
    then have "filter (\<lambda>r. k r = i) cs = []" by (simp add: filter_empty_conv)
    with True show ?thesis by simp
  next
    case False
    with Cons show ?thesis by simp
  qed
qed

lemma left_join_as_map:
  assumes "distinct (map C_STUDENT_ID (COMPLIANCE s))"
  shows "left_join_compliance s = map (\<lambda>st. (st, stored_facts s st)) (STUDENTS s)"
proof -
  have "(case filter (\<lambda>c. C_STUDENT_ID c = STUDENT_ID st) (COMPLIANCE s) of
           [] \<Rightarrow> [(st, None)]
         | cs \<Rightarrow> map (\<lambda>c. (st, Some c)) cs) = [(st, stored_facts s st)]" for st
    unfolding filter_unique_key[OF assms] stored_facts_def
    by (cases "find (\<lambda>r. C_STUDENT_ID r = STUDENT_ID st) (COMPLIANCE s)") simp_all
  then show ?thesis
    by (simp add: left_join_compliance_def) (induction "STUDENTS s", simp_all)?
qed

lemma insort_key_map:
  "insort_key k (f x) (map f ys) = map f (insort_key (\<lambda>x. k (f x)) x ys)"
  by (induction ys) simp_all

lemma sort_key_map:
  "sort_key k (map f xs) = map f (sort_key (\<lambda>x. k (f x)) xs)"
  by (induction xs) (simp_all add: insort_key_map)

lemma insort_key_cong:
  "f x = g x \<Longrightarrow> \<forall>y \<in> set ys. f y = g y \<Longrightarrow> insort_key f x ys = insort_key g x ys"
  by (induction ys) simp_all

lemma sort_key_cong:
  "\<forall>x \<in> set xs. f x = g x \<Longrightarrow> sort_key f xs = sort_key g xs"
proof (induction xs)
  case Nil
  then show ?case by simp
next
  case (Cons x xs)
  then have "sort_key f xs = sort_key g xs" by simp
  moreover have "insort_key f x (sort_key g xs) = insort_key g x (sort_key g xs)"
    using Cons.prems by (intro insort_key_cong) simp_all
  ultimately show ?case by simp
qed

lemma stored_facts_Some:
  assumes "stored_facts s st = Some r"
  shows "r \<in> set (COMPLIANCE s)" "C_STUDENT_ID r = STUDENT_ID st"
  using assms unfolding stored_facts_def find_Some_iff by auto

lemma col_Some [simp]:
  "col_hours (Some r) = CREDIT_HOURS r" "col_gpa (Some r) = GPA r" "col_dues (Some r) = DUES_PAID r"
  by (simp_all add: col_hours_def col_gpa_def col_dues_def coalesce_def)

lemma col_elig_spec:
  "col_elig (stored_facts s st) = (if spec_flag s st = ''YES'' then 1 else 0)"
  by (cases "stored_facts s st")
    (simp_all add: col_elig_def spec_flag_def spec_eligible_def sql_bool_def)

lemma sqlite3_column_int_1 [simp]: "sqlite3_column_int 1 = 1"
  by (simp add: sqlite3_column_int_def)

lemma spec_flag_cases: "spec_flag s st = ''YES'' \<or> spec_flag s st = ''NO''"
  by (simp add: spec_flag_def split: option.splits)

lemma yes_no_col_elig:
  "yes_no (sqlite3_column_int (col_elig (stored_facts s st))) = spec_flag s st"
proof (cases "spec_flag s st = ''YES''")
  case True
  then show ?thesis by (simp add: col_elig_spec yes_no_def)
next
  case False
  with spec_flag_cases[of s st] have "spec_flag s st = ''NO''" by blast
  then show ?thesis by (simp add: col_elig_spec yes_no_def)
qed

lemma V_ELIG_spec: "V_ELIG (viewAllStudents_line (st, stored_facts s st)) = spec_flag s st"
  by (simp add: viewAllStudents_line_def yes_no_col_elig)

lemma E_ELIG_spec: "E_ELIG (showEligibilityReport_line (st, stored_facts s st)) = spec_flag s st"
  by (simp add: showEligibilityReport_line_def yes_no_col_elig)

lemma P_ELIGIBLE_spec:
  assumes "compliance_in_range s"
  shows "P_ELIGIBLE (findStudentById_line (st, stored_facts s st)) = spec_flag s st"
proof (cases "stored_facts s st")
  case None
  then show ?thesis by (simp add: profile_None_fields spec_flag_def)
next
  case (Some r)
  from stored_facts_Some(1)[OF Some] assms
  have "0 \<le> CREDIT_HOURS r \<and> CREDIT_HOURS r \<le> 30 \<and> (DUES_PAID r = 0 \<or> DUES_PAID r = 1)"
    by (auto simp: compliance_in_range_def list_all_iff)
  then have "sqlite3_column_int (CREDIT_HOURS r) = CREDIT_HOURS r"
    "sqlite3_column_int (DUES_PAID r) = DUES_PAID r"
    by (auto intro: sqlite3_column_int_id)
  then show ?thesis
    by (simp add: Some findStudentById_line_def spec_flag_def spec_eligible_def Let_def)
qed

lemma find_filter_head:
  "find P xs = (case filter P xs of [] \<Rightarrow> None | x # _ \<Rightarrow> Some x)"
  by (induction xs) simp_all

lemma COMPLIANCE_unchanged [simp]:
  "COMPLIANCE (fst (setSectionLeader sec i s)) = COMPLIANCE s"
  "COMPLIANCE (fst (checkoutInstrument today sid filt iid s)) = COMPLIANCE s"
  "COMPLIANCE (fst (returnInstrument iid s)) = COMPLIANCE s"
  "COMPLIANCE (fst (addInstrumentToInventory ty ser notes s)) = COMPLIANCE s"
  "COMPLIANCE (fst (checkoutUniform today sid cs ps cn pn notes s)) = COMPLIANCE s"
  "COMPLIANCE (fst (returnUniform iid s)) = COMPLIANCE s"
  "COMPLIANCE (fst (checkoutShako today sid sz notes s)) = COMPLIANCE s"
  "COMPLIANCE (fst (returnShako iid s)) = COMPLIANCE s"
  by (simp_all add: setSectionLeader_def checkoutInstrument_def returnInstrument_def
      addInstrumentToInventory_def checkoutUniform_def returnUniform_def checkoutShako_def
      returnShako_def split: option.splits prod.splits)

lemma STUDENTS_unchanged [simp]:
  "STUDENTS (fst (setSectionLeader sec i s)) = STUDENTS s"
  "STUDENTS (fst (checkoutInstrument today sid filt iid s)) = STUDENTS s"
  "STUDENTS (fst (returnInstrument iid s)) = STUDENTS s"
  "STUDENTS (fst (addInstrumentToInventory ty ser notes s)) = STUDENTS s"
  "STUDENTS (fst (checkoutUniform today sid cs ps cn pn notes s)) = STUDENTS s"
  "STUDENTS (fst (returnUniform iid s)) = STUDENTS s"
  "STUDENTS (fst (checkoutShako today sid sz notes s)) = STUDENTS s"
  "STUDENTS (fst (returnShako iid s)) = STUDENTS s"
  "STUDENTS (fst (updateStudentCompliance today i h g d s)) = STUDENTS s"
  by (simp_all add: setSectionLeader_def checkoutInstrument_def returnInstrument_def
      addInstrumentToInventory_def checkoutUniform_def returnUniform_def checkoutShako_def
      returnShako_def updateStudentCompliance_def split: option.splits prod.splits)

text \<open>What \<open>addStudent\<close> does to the two tables it writes.\<close>

lemma addStudent_tables:
  "STUDENTS (fst (addStudent today second i f l c sec sh so s)) =
     (if i \<in> set (map STUDENT_ID (STUDENTS s)) \<or> sec \<notin> set allowed then STUDENTS s
      else STUDENTS s @ [new_student i f l c sec sh so])"
  "COMPLIANCE (fst (addStudent today second i f l c sec sh so s)) =
     (if i \<in> set (map STUDENT_ID (STUDENTS s)) \<or> sec \<notin> set allowed \<or> second = Fails
         \<or> i \<in> set (map C_STUDENT_ID (COMPLIANCE s))
      then COMPLIANCE s
      else COMPLIANCE s @ [zero_compliance i today])"
  by (cases second;
      simp add: addStudent_def insert_student_def insert_or_ignore_compliance_def
        new_student_def zero_compliance_def)+

lemma updateStudentCompliance_table:
  "COMPLIANCE (fst (updateStudentCompliance today i h g d s)) =
     (case (if studentExists s i
            then upsert_compliance (STUDENTS s)
                   \<lparr>C_STUDENT_ID = i, CREDIT_HOURS = h, GPA = g, DUES_PAID = d,
                    LAST_VERIFIED_DATE = Some today\<rparr> (COMPLIANCE s)
            else None) of
        None \<Rightarrow> COMPLIANCE s
      | Some cs \<Rightarrow> cs)"
  by (simp add: updateStudentCompliance_def split: option.splits)

lemma upsert_compliance_keys:
  assumes "upsert_compliance studs c cs = Some cs'"
  shows "map C_STUDENT_ID cs' =
     (if C_STUDENT_ID c \<in> set (map C_STUDENT_ID cs) then map C_STUDENT_ID cs
      else map C_STUDENT_ID cs @ [C_STUDENT_ID c])"
proof -
  have "map C_STUDENT_ID (map (\<lambda>r. if C_STUDENT_ID r = C_STUDENT_ID c
                          then r\<lparr>CREDIT_HOURS := CREDIT_HOURS c, GPA := GPA c,
                                DUES_PAID := DUES_PAID c,
                                LAST_VERIFIED_DATE := LAST_VERIFIED_DATE c\<rparr>
                          else r) cs) = map C_STUDENT_ID cs"
    by (induction cs) simp_all
  with assms show ?thesis
    by (auto simp: upsert_compliance_def split: if_splits)
qed

lemma upsert_compliance_rows:
  assumes "upsert_compliance studs c cs = Some cs'" and "r' \<in> set cs'"
  shows "r' \<in> set cs \<or> (CREDIT_HOURS r' = CREDIT_HOURS c \<and> DUES_PAID r' = DUES_PAID c)"
proof (cases "C_STUDENT_ID c \<in> set (map C_STUDENT_ID cs)")
  case True
  with assms(1) have "cs' = map (\<lambda>r. if C_STUDENT_ID r = C_STUDENT_ID c
                          then r\<lparr>CREDIT_HOURS := CREDIT_HOURS c, GPA := GPA c,
                                DUES_PAID := DUES_PAID c,
                                LAST_VERIFIED_DATE := LAST_VERIFIED_DATE c\<rparr>
                          else r) cs"
    by (simp add: upsert_compliance_def split: if_splits)
  with assms(2) obtain r where "r \<in> set cs"
    "r' = (if C_STUDENT_ID r = C_STUDENT_ID c
                          then r\<lparr>CREDIT_HOURS := CREDIT_HOURS c, GPA := GPA c,
                                DUES_PAID := DUES_PAID c,
                                LAST_VERIFIED_DATE := LAST_VERIFIED_DATE c\<rparr>
                          else r)"
    by auto
  then show ?thesis by (cases "C_STUDENT_ID r = C_STUDENT_ID c") simp_all
next
  case False
  with assms(1) have "cs' = cs @ [c]"
    by (simp add: upsert_compliance_def split: if_splits)
  with assms(2) show ?thesis by auto
qed

lemma exec_compliance_in_range:
  assumes "validated c" and "compliance_in_range s"
  shows "compliance_in_range (exec today c s)"
proof (cases c)
  case (AddStudent second i f l cl sec sh so)
  from assms(2) show ?thesis
    unfolding AddStudent exec.simps compliance_in_range_def addStudent_tables
    by (simp add: zero_compliance_def)
next
  case (UpdateStudentCompliance i h g d)
  show ?thesis
  proof (cases "if studentExists s i
            then upsert_compliance (STUDENTS s)
                   \<lparr>C_STUDENT_ID = i, CREDIT_HOURS = h, GPA = g, DUES_PAID = d,
                    LAST_VERIFIED_DATE = Some today\<rparr> (COMPLIANCE s)
            else None")
    case None
    with assms(2) show ?thesis
      unfolding UpdateStudentCompliance exec.simps compliance_in_range_def
        updateStudentCompliance_table by simp
  next
    case (Some cs)
    then have up: "upsert_compliance (STUDENTS s)
                   \<lparr>C_STUDENT_ID = i, CREDIT_HOURS = h, GPA = g, DUES_PAID = d,
                    LAST_VERIFIED_DATE = Some today\<rparr> (COMPLIANCE s) = Some cs"
      by (simp split: if_splits)
    have "0 \<le> CREDIT_HOURS r \<and> CREDIT_HOURS r \<le> 30 \<and> DUES_PAID r \<in> set [0, 1]"
      if "r \<in> set cs" for r
      using upsert_compliance_rows[OF up that] assms unfolding UpdateStudentCompliance
      by (auto simp: compliance_in_range_def list_all_iff)
    then have "list_all (\<lambda>r. 0 \<le> CREDIT_HOURS r \<and> CREDIT_HOURS r \<le> 30 \<and> DUES_PAID r \<in> set [0, 1]) cs"
      unfolding list_all_iff by blast
    with Some show ?thesis
      unfolding UpdateStudentCompliance exec.simps compliance_in_range_def
        updateStudentCompliance_table by simp
  qed
qed (use assms(2) in \<open>simp_all add: compliance_in_range_def\<close>)

lemma exec_primary_keys:
  assumes "primary_keys s"
  shows "primary_keys (exec today c s)"
proof (cases c)
  case (AddStudent second i f l cl sec sh so)
  from assms show ?thesis
    unfolding AddStudent exec.simps primary_keys_def addStudent_tables
    by (simp add: zero_compliance_def new_student_def)
next
  case (UpdateStudentCompliance i h g d)
  show ?thesis
  proof (cases "if studentExists s i
            then upsert_compliance (STUDENTS s)
                   \<lparr>C_STUDENT_ID = i, CREDIT_HOURS = h, GPA = g, DUES_PAID = d,
                    LAST_VERIFIED_DATE = Some today\<rparr> (COMPLIANCE s)
            else None")
    case None
    with assms show ?thesis
      unfolding UpdateStudentCompliance exec.simps primary_keys_def
        updateStudentCompliance_table by simp
  next
    case (Some cs)
    then have up: "upsert_compliance (STUDENTS s)
                   \<lparr>C_STUDENT_ID = i, CREDIT_HOURS = h, GPA = g, DUES_PAID = d,
                    LAST_VERIFIED_DATE = Some today\<rparr> (COMPLIANCE s) = Some cs"
      by (simp split: if_splits)
    from upsert_compliance_keys[OF up] assms have "distinct (map C_STUDENT_ID cs)"
      by (simp add: primary_keys_def split: if_splits)
    with Some assms show ?thesis
      unfolding UpdateStudentCompliance exec.simps primary_keys_def
        updateStudentCompliance_table by simp
  qed
qed (use assms in \<open>simp_all add: primary_keys_def\<close>)

lemma exec_student_ids_in_range:
  assumes "validated c" and "student_ids_in_range s"
  shows "student_ids_in_range (exec today c s)"
proof (cases c)
  case (AddStudent second i f l cl sec sh so)
  from assms show ?thesis
    unfolding AddStudent exec.simps student_ids_in_range_def addStudent_tables
    by (simp add: new_student_def)
qed (use assms(2) in \<open>simp_all add: student_ids_in_range_def\<close>)

lemma run_kept:
  assumes "list_all (\<lambda>(today, c). validated c) cs"
    and "compliance_in_range s" and "primary_keys s" and "student_ids_in_range s"
  shows "compliance_in_range (run cs s) \<and> primary_keys (run cs s)
       \<and> student_ids_in_range (run cs s)"
  using assms
proof (induction cs arbitrary: s)
  case Nil
  then show ?case by simp
next
  case (Cons x cs)
  obtain today c where x: "x = (today, c)" by (cases x)
  with Cons.prems have v: "validated c" and rest: "list_all (\<lambda>(today, c). validated c) cs"
    by simp_all
  from Cons.IH[OF rest exec_compliance_in_range[OF v Cons.prems(2)]
      exec_primary_keys[OF Cons.prems(3)] exec_student_ids_in_range[OF v Cons.prems(4)]]
  show ?case by (simp add: x)
qed

lemma ensureTables_kept:
  "compliance_in_range ensureTables" "primary_keys ensureTables"
  "student_ids_in_range ensureTables"
  by (simp_all add: compliance_in_range_def primary_keys_def student_ids_in_range_def
      ensureTables_def)

lemma reads_change_nothing: "is_read c \<Longrightarrow> exec today c s = s"
  by (cases c) simp_all

lemma run_without_reads:
  "run (filter (\<lambda>(today, c). \<not> is_read c) cs) s = run cs s"
proof (induction cs arbitrary: s)
  case Nil
  then show ?case by simp
next
  case (Cons x cs)
  obtain today c where x: "x = (today, c)" by (cases x)
  show ?case
    by (cases "is_read c") (simp_all add: x Cons.IH reads_change_nothing)
qed

lemma V_ID_in_range:
  assumes "student_ids_in_range s" and "st \<in> set (STUDENTS s)"
  shows "sqlite3_column_int (STUDENT_ID st) = STUDENT_ID st"
  using assms by (intro sqlite3_column_int_id) (auto simp: student_ids_in_range_def list_all_iff)

text \<open>
  Claim C2. In every database the program can produce (any session of commands with
  validated input, from a new database), every read path shows each student with the flag
  that the rule \<open>(creditHours >= 12) AND (gpa >= 3.0) AND (duesPaid == true)\<close> gives on the
  stored fields of that student's compliance record: \<open>viewAllStudents\<close> and
  \<open>showEligibilityReport\<close> list every student once, with its id, its name and that flag
  (the report with the students that are not eligible first), and \<open>findStudentById\<close> shows
  the student with the id, its name and that flag. The flag is computed from the stored
  fields at each read; and no read changes the database: a session leaves the same database
  with its reads as without them.
\<close>

theorem eligibility_flag_on_every_read_path:
  assumes "list_all (\<lambda>(today, c). validated c) cs" and "s = run cs ensureTables"
  shows "map (\<lambda>l. (V_ID l, V_NAME l, V_ELIG l)) (viewAllStudents s)
           = map (\<lambda>st. (STUDENT_ID st, full_name st, spec_flag s st))
               (sort_key (\<lambda>st. (SECTION st, LNAME st, FNAME st)) (STUDENTS s))
       \<and> map_option (\<lambda>p. (P_ID p, P_NAME p, P_ELIGIBLE p)) (findStudentById i s)
           = map_option (\<lambda>st. (STUDENT_ID st, full_name st, spec_flag s st))
               (find (\<lambda>st. STUDENT_ID st = i) (STUDENTS s))
       \<and> map (\<lambda>l. (E_ID l, E_NAME l, E_ELIG l)) (showEligibilityReport s)
           = map (\<lambda>st. (STUDENT_ID st, full_name st, spec_flag s st))
               (sort_key (\<lambda>st. (if spec_flag s st = ''YES'' then 1 else 0 :: int,
                                 SECTION st, LNAME st, FNAME st)) (STUDENTS s))
       \<and> run (filter (\<lambda>(today, c). \<not> is_read c) cs') s' = run cs' s'"
proof -
  from run_kept[OF assms(1) ensureTables_kept] assms(2)
  have range: "compliance_in_range s" and pk: "primary_keys s" and ids: "student_ids_in_range s"
    by simp_all
  from pk have join: "left_join_compliance s = map (\<lambda>st. (st, stored_facts s st)) (STUDENTS s)"
    by (intro left_join_as_map) (simp add: primary_keys_def)
  have view: "viewAllStudents s = map (\<lambda>st. viewAllStudents_line (st, stored_facts s st))
      (sort_key (\<lambda>st. (SECTION st, LNAME st, FNAME st)) (STUDENTS s))"
    by (simp add: viewAllStudents_def viewAllStudents_rows_def join sort_key_map comp_def)
  have 1: "map (\<lambda>l. (V_ID l, V_NAME l, V_ELIG l)) (viewAllStudents s)
           = map (\<lambda>st. (STUDENT_ID st, full_name st, spec_flag s st))
               (sort_key (\<lambda>st. (SECTION st, LNAME st, FNAME st)) (STUDENTS s))"
    unfolding view map_map comp_def
    by (intro map_cong refl) (simp add: line_None_fields V_ELIG_spec V_ID_in_range[OF ids])
  have report: "showEligibilityReport s = map (\<lambda>st. showEligibilityReport_line (st, stored_facts s st))
      (sort_key (\<lambda>st. (if spec_flag s st = ''YES'' then 1 else 0 :: int,
                        SECTION st, LNAME st, FNAME st)) (STUDENTS s))"
    by (simp add: showEligibilityReport_def showEligibilityReport_rows_def join sort_key_map
        comp_def col_elig_spec)
  have 3: "map (\<lambda>l. (E_ID l, E_NAME l, E_ELIG l)) (showEligibilityReport s)
           = map (\<lambda>st. (STUDENT_ID st, full_name st, spec_flag s st))
               (sort_key (\<lambda>st. (if spec_flag s st = ''YES'' then 1 else 0 :: int,
                                 SECTION st, LNAME st, FNAME st)) (STUDENTS s))"
    unfolding report map_map comp_def
    by (intro map_cong refl) (simp add: report_None_fields E_ELIG_spec V_ID_in_range[OF ids])
  have hits: "filter (\<lambda>(st, c). STUDENT_ID st = i) (left_join_compliance s)
      = map (\<lambda>st. (st, stored_facts s st)) (filter (\<lambda>st. STUDENT_ID st = i) (STUDENTS s))"
    unfolding join by (induction "STUDENTS s") (simp_all add: filter_map comp_def)
  have 2: "map_option (\<lambda>p. (P_ID p, P_NAME p, P_ELIGIBLE p)) (findStudentById i s)
           = map_option (\<lambda>st. (STUDENT_ID st, full_name st, spec_flag s st))
               (find (\<lambda>st. STUDENT_ID st = i) (STUDENTS s))"
  proof (cases "filter (\<lambda>st. STUDENT_ID st = i) (STUDENTS s)")
    case Nil
    then show ?thesis
      by (simp add: findStudentById_def hits find_filter_head)
  next
    case (Cons st sts)
    then have "st \<in> set (filter (\<lambda>st. STUDENT_ID st = i) (STUDENTS s))" by simp
    then have "st \<in> set (STUDENTS s)" by simp
    from V_ID_in_range[OF ids this] Cons show ?thesis
      by (simp add: findStudentById_def hits find_filter_head profile_None_fields
          P_ELIGIBLE_spec[OF range])
  qed
  from 1 2 3 run_without_reads[of cs' s'] show ?thesis by (intro conjI)
qed

theorem eligibility_flag_on_every_read_path_witness:
  "list_all (\<lambda>(today, c). validated c) session
   \<and> map (\<lambda>l. (V_ID l, V_NAME l, V_ELIG l)) (viewAllStudents band)
       = map (\<lambda>st. (STUDENT_ID st, full_name st, spec_flag band st))
           (sort_key (\<lambda>st. (SECTION st, LNAME st, FNAME st)) (STUDENTS band))
   \<and> map (\<lambda>l. (V_ID l, V_NAME l, V_ELIG l)) (viewAllStudents band)
       = [(101, ''Ann Lee'', ''YES''), (102, ''Bob Ray'', ''NO'')]
   \<and> map_option (\<lambda>p. (P_ID p, P_NAME p, P_ELIGIBLE p)) (findStudentById 101 band)
       = Some (101, ''Ann Lee'', ''YES'')
   \<and> map (\<lambda>l. (E_ID l, E_NAME l, E_ELIG l)) (showEligibilityReport band)
       = [(102, ''Bob Ray'', ''NO''), (101, ''Ann Lee'', ''YES'')]"
proof -
  have 1: "list_all (\<lambda>(today, c). validated c) session"
    by (simp add: session_def allowed_def)
  note t = eligibility_flag_on_every_read_path[OF 1 band_def, of 101]
  have a: "map (\<lambda>st. (STUDENT_ID st, full_name st, spec_flag band st))
           (sort_key (\<lambda>st. (SECTION st, LNAME st, FNAME st)) (STUDENTS band))
       = [(101, ''Ann Lee'', ''YES''), (102, ''Bob Ray'', ''NO'')]"
    by code_simp
  have b: "map_option (\<lambda>st. (STUDENT_ID st, full_name st, spec_flag band st))
               (find (\<lambda>st. STUDENT_ID st = 101) (STUDENTS band))
       = Some (101, ''Ann Lee'', ''YES'')"
    by code_simp
  have c: "map (\<lambda>st. (STUDENT_ID st, full_name st, spec_flag band st))
               (sort_key (\<lambda>st. (if spec_flag band st = ''YES'' then 1 else 0 :: int,
                                 SECTION st, LNAME st, FNAME st)) (STUDENTS band))
       = [(102, ''Bob Ray'', ''NO''), (101, ''Ann Lee'', ''YES'')]"
    by code_simp
  from t a b c 1 show ?thesis by (intro conjI) simp_all
qed

subsection \<open>Updating compliance\<close>

lemma filter_key_map_upd:
  assumes "distinct (map k cs)" and "i \<in> set (map k cs)"
    and "\<And>r. k r = i \<Longrightarrow> g r = c" and "k c = i"
  shows "filter (\<lambda>r. k r = i) (map (\<lambda>r. if k r = i then g r else r) cs) = [c]"
  using assms(1,2)
proof (induction cs)
  case Nil
  then show ?case by simp
next
  case (Cons a cs)
  show ?case
  proof (cases "k a = i")
    case True
    with Cons.prems have "i \<notin> set (map k cs)" by auto
    then have "\<forall>r \<in> set cs. k r \<noteq> i" by auto
    then have "filter (\<lambda>r. k r = i) (map (\<lambda>r. if k r = i then g r else r) cs) = []"
      by (simp add: filter_empty_conv)
    with True assms(3)[OF True] assms(4) show ?thesis by simp
  next
    case False
    with Cons.prems have "distinct (map k cs)" "i \<in> set (map k cs)" by auto
    from Cons.IH[OF this] False show ?thesis by simp
  qed
qed

lemma overwrite_compliance:
  "C_STUDENT_ID r = i \<Longrightarrow>
   r\<lparr>CREDIT_HOURS := h, GPA := g, DUES_PAID := d, LAST_VERIFIED_DATE := v\<rparr>
   = \<lparr>C_STUDENT_ID = i, CREDIT_HOURS = h, GPA = g, DUES_PAID = d, LAST_VERIFIED_DATE = v\<rparr>"
  by (cases r) simp


text \<open>
  Claim C10. For every existing student and validated input, \<open>updateStudentCompliance\<close>
  succeeds, also when the student has no row in \<open>COMPLIANCE\<close>: then the row is
  inserted. Afterwards the student has exactly one compliance row, holding the supplied
  credit hours, GPA and dues flag, with the current date as \<open>LAST_VERIFIED_DATE\<close>.
  (\<open>STUDENT_ID\<close> is the primary key of \<open>COMPLIANCE\<close>: no two rows of the table share
  one.)
\<close>

theorem updateStudentCompliance_inserts_or_overwrites:
  assumes "studentExists s i"
    and "validated (UpdateStudentCompliance i hours gpa dues)"
    and "distinct (map C_STUDENT_ID (COMPLIANCE s))"
  shows "snd (updateStudentCompliance today i hours gpa dues s) = Compliance_saved
       \<and> filter (\<lambda>r. C_STUDENT_ID r = i)
           (COMPLIANCE (fst (updateStudentCompliance today i hours gpa dues s)))
         = [\<lparr>C_STUDENT_ID = i, CREDIT_HOURS = hours, GPA = gpa, DUES_PAID = dues,
             LAST_VERIFIED_DATE = Some today\<rparr>]
       \<and> (i \<notin> set (map C_STUDENT_ID (COMPLIANCE s)) \<longrightarrow>
            COMPLIANCE (fst (updateStudentCompliance today i hours gpa dues s))
            = COMPLIANCE s @ [\<lparr>C_STUDENT_ID = i, CREDIT_HOURS = hours, GPA = gpa,
                                DUES_PAID = dues, LAST_VERIFIED_DATE = Some today\<rparr>])"
proof -
  define c where "c = \<lparr>C_STUDENT_ID = i, CREDIT_HOURS = hours, GPA = gpa, DUES_PAID = dues,
             LAST_VERIFIED_DATE = Some today\<rparr>"
  define g where "g = (\<lambda>r::compliance. r\<lparr>CREDIT_HOURS := hours, GPA := gpa, DUES_PAID := dues,
             LAST_VERIFIED_DATE := Some today\<rparr>)"
  have sel: "C_STUDENT_ID c = i" "CREDIT_HOURS c = hours" "GPA c = gpa" "DUES_PAID c = dues"
    "LAST_VERIFIED_DATE c = Some today"
    by (simp_all add: c_def)
  have g: "g r = c" if "C_STUDENT_ID r = i" for r
    unfolding g_def c_def using that by (rule overwrite_compliance)
  from assms(1,2) have ok: "\<not> (hours < 0 \<or> dues \<notin> set [0, 1]
         \<or> i \<notin> set (map STUDENT_ID (STUDENTS s)))"
    by (simp add: studentExists_def)
  have up: "upsert_compliance (STUDENTS s) c (COMPLIANCE s) =
      (if i \<in> set (map C_STUDENT_ID (COMPLIANCE s))
       then Some (map (\<lambda>r. if C_STUDENT_ID r = i then g r else r) (COMPLIANCE s))
       else Some (COMPLIANCE s @ [c]))"
    unfolding upsert_compliance_def sel g_def using ok by (simp only: if_False)
  have res: "updateStudentCompliance today i hours gpa dues s =
      (case upsert_compliance (STUDENTS s) c (COMPLIANCE s) of
              None \<Rightarrow> (s, Update_failed)
            | Some cs \<Rightarrow> (s\<lparr>COMPLIANCE := cs\<rparr>, Compliance_saved))"
    unfolding updateStudentCompliance_def c_def using assms(1) by (simp only: not_True_eq_False if_False)
  show ?thesis
  proof (cases "i \<in> set (map C_STUDENT_ID (COMPLIANCE s))")
    case True
    have "filter (\<lambda>r. C_STUDENT_ID r = i)
            (map (\<lambda>r. if C_STUDENT_ID r = i then g r else r) (COMPLIANCE s)) = [c]"
      using assms(3) True g sel(1) by (rule filter_key_map_upd)
    with True show ?thesis
      unfolding res up c_def[symmetric] by simp
  next
    case False
    then have "filter (\<lambda>r. C_STUDENT_ID r = i) (COMPLIANCE s) = []"
      by (auto simp: filter_empty_conv)
    with False sel(1) show ?thesis
      unfolding res up c_def[symmetric] by simp
  qed
qed

theorem updateStudentCompliance_inserts_or_overwrites_witness:
  "studentExists legacy 7
   \<and> validated (UpdateStudentCompliance 7 15 3.5 1)
   \<and> distinct (map C_STUDENT_ID (COMPLIANCE legacy))
   \<and> 7 \<notin> set (map C_STUDENT_ID (COMPLIANCE legacy))
   \<and> snd (updateStudentCompliance ''2024-02-01'' 7 15 3.5 1 legacy) = Compliance_saved
   \<and> COMPLIANCE (fst (updateStudentCompliance ''2024-02-01'' 7 15 3.5 1 legacy))
       = [\<lparr>C_STUDENT_ID = 7, CREDIT_HOURS = 15, GPA = 3.5, DUES_PAID = 1,
           LAST_VERIFIED_DATE = Some ''2024-02-01''\<rparr>]"
proof -
  have 1: "studentExists legacy 7"
    by (simp add: studentExists_def legacy_def ida_def)
  have 2: "validated (UpdateStudentCompliance 7 15 3.5 1)"
    by simp
  have 3: "distinct (map C_STUDENT_ID (COMPLIANCE legacy))"
    and 4: "COMPLIANCE legacy = []"
    by (simp_all add: legacy_def ensureTables_def)
  from updateStudentCompliance_inserts_or_overwrites[OF 1 2 3, of "''2024-02-01''"] 1 2 3 4 show ?thesis by simp
qed

subsection \<open>Creating a student: the two rows\<close>

lemma addStudent_cases:
  "addStudent today second i f l c sec sh so s =
     (if i \<in> set (map STUDENT_ID (STUDENTS s)) \<or> sec \<notin> set allowed then (s, Insert_failed)
      else (s\<lparr>STUDENTS := STUDENTS s @ [new_student i f l c sec sh so],
              COMPLIANCE :=
                (if second = Runs \<and> i \<notin> set (map C_STUDENT_ID (COMPLIANCE s))
                 then COMPLIANCE s @ [zero_compliance i today] else COMPLIANCE s)\<rparr>,
            Student_added))"
  by (cases second)
    (simp_all add: addStudent_def insert_student_def insert_or_ignore_compliance_def
      new_student_def zero_compliance_def)

lemma no_row_without_student:
  assumes "compliance_has_parent s" and "i \<notin> set (map STUDENT_ID (STUDENTS s))"
  shows "i \<notin> set (map C_STUDENT_ID (COMPLIANCE s))"
  using assms by (auto simp: compliance_has_parent_def list_all_iff)

lemma join_rows_of_new_student:
  assumes "i \<notin> set (map STUDENT_ID (STUDENTS s))" and "compliance_has_parent s"
    and "STUDENTS s' = STUDENTS s @ [st]" and "STUDENT_ID st = i"
    and "COMPLIANCE s' = COMPLIANCE s @ [zero_compliance i today]"
    and "r \<in> set (left_join_compliance s')" and "STUDENT_ID (fst r) = i"
  shows "r = (st, Some (zero_compliance i today))"
proof -
  obtain st' c where r: "r = (st', c)" by (cases r)
  have old: "x \<in> set (COMPLIANCE s) \<Longrightarrow> C_STUDENT_ID x \<noteq> i" for x
    using no_row_without_student[OF assms(2,1)] by auto
  from assms(6,7) r have "st' \<in> set (STUDENTS s')" "STUDENT_ID st' = i"
    by (simp_all add: in_left_join_compliance)
  with assms(1,3) have st': "st' = st" by auto
  have "c = Some (zero_compliance i today)"
  proof (cases c)
    case None
    with assms(6) r have "i \<notin> set (map C_STUDENT_ID (COMPLIANCE s'))"
      using \<open>STUDENT_ID st' = i\<close> by (simp add: in_left_join_compliance)
    then show ?thesis by (simp add: assms(5) zero_compliance_def)
  next
    case (Some x)
    with assms(6) r have "x \<in> set (COMPLIANCE s')" "C_STUDENT_ID x = i"
      using \<open>STUDENT_ID st' = i\<close> by (simp_all add: in_left_join_compliance)
    with old Some show ?thesis by (auto simp: assms(5))
  qed
  with r st' show ?thesis by simp
qed

lemma join_rows_of_new_student_without_row:
  assumes "i \<notin> set (map STUDENT_ID (STUDENTS s))" and "compliance_has_parent s"
    and "STUDENTS s' = STUDENTS s @ [st]" and "STUDENT_ID st = i"
    and "COMPLIANCE s' = COMPLIANCE s"
    and "r \<in> set (left_join_compliance s')" and "STUDENT_ID (fst r) = i"
  shows "r = (st, None)"
proof -
  obtain st' c where r: "r = (st', c)" by (cases r)
  have no: "i \<notin> set (map C_STUDENT_ID (COMPLIANCE s'))"
    using no_row_without_student[OF assms(2,1)] by (simp add: assms(5))
  from assms(6,7) r have "st' \<in> set (STUDENTS s')" "STUDENT_ID st' = i"
    by (simp_all add: in_left_join_compliance)
  with assms(1,3) have st': "st' = st" by auto
  have "c = None"
  proof (cases c)
    case (Some x)
    with assms(6) r have "x \<in> set (COMPLIANCE s')" "C_STUDENT_ID x = i"
      using \<open>STUDENT_ID st' = i\<close> by (simp_all add: in_left_join_compliance)
    then have "i \<in> set (map C_STUDENT_ID (COMPLIANCE s'))" by force
    with no show ?thesis by contradiction
  qed simp
  with r st' show ?thesis by simp
qed

text \<open>
  When every row of the join with the id is the row \<open>(st, c)\<close>, and that row is in the join,
  the three read paths show the student \<open>st\<close> with what they compute from \<open>c\<close>.
\<close>

lemma reads_of_single_row:
  assumes "(st, c) \<in> set (left_join_compliance s)"
    and "\<And>r. r \<in> set (left_join_compliance s) \<Longrightarrow> STUDENT_ID (fst r) = STUDENT_ID st \<Longrightarrow> r = (st, c)"
  shows "viewAllStudents_line (st, c) \<in> set (viewAllStudents s)"
    and "findStudentById (STUDENT_ID st) s = Some (findStudentById_line (st, c))"
    and "showEligibilityReport_line (st, c) \<in> set (showEligibilityReport s)"
proof -
  show "viewAllStudents_line (st, c) \<in> set (viewAllStudents s)"
    using assms(1) by (simp add: viewAllStudents_def viewAllStudents_rows_def)
  show "showEligibilityReport_line (st, c) \<in> set (showEligibilityReport s)"
    using assms(1) by (simp add: showEligibilityReport_def showEligibilityReport_rows_def)
  let ?hits = "filter (\<lambda>(st', c). STUDENT_ID st' = STUDENT_ID st) (left_join_compliance s)"
  from assms(1) have "(st, c) \<in> set ?hits" by simp
  then obtain r rs where hits: "?hits = r # rs" by (cases ?hits) auto
  then have "r \<in> set ?hits" by simp
  then have "r \<in> set (left_join_compliance s)" "STUDENT_ID (fst r) = STUDENT_ID st"
    by (simp_all only: set_filter mem_Collect_eq case_prod_unfold)
  then have "r = (st, c)" by (rule assms(2))
  with hits show "findStudentById (STUDENT_ID st) s = Some (findStudentById_line (st, c))"
    by (simp add: findStudentById_def)
qed

lemma zero_fields:
  "V_ELIG (viewAllStudents_line (st, Some (zero_compliance i today))) = ''NO''"
  "P_ELIGIBLE (findStudentById_line (st, Some (zero_compliance i today))) = ''NO''"
  "E_ELIG (showEligibilityReport_line (st, Some (zero_compliance i today))) = ''NO''"
  by (simp_all add: viewAllStudents_line_def findStudentById_line_def
      showEligibilityReport_line_def col_elig_def sql_bool_def yes_no_def zero_compliance_def
      Let_def)

lemma new_student_fields:
  "STUDENT_ID (new_student i f l c sec sh so) = i"
  "SECTION (new_student i f l c sec sh so) = sec"
  by (simp_all add: new_student_def)

lemma shown_not_eligibleI:
  assumes "(st, c) \<in> set (left_join_compliance s)"
    and "\<And>r. r \<in> set (left_join_compliance s) \<Longrightarrow> STUDENT_ID (fst r) = STUDENT_ID st \<Longrightarrow> r = (st, c)"
    and "c = None \<or> c = Some (zero_compliance i today)"
  shows "shown_not_eligible s st"
proof -
  note rd = reads_of_single_row[OF assms(1,2)]
  from assms(3) have no: "V_ELIG (viewAllStudents_line (st, c)) = ''NO''"
    "P_ELIGIBLE (findStudentById_line (st, c)) = ''NO''"
    "E_ELIG (showEligibilityReport_line (st, c)) = ''NO''"
    by (auto simp: zero_fields line_None_fields profile_None_fields report_None_fields)
  have 1: "\<exists>l \<in> set (viewAllStudents s).
         V_ID l = sqlite3_column_int (STUDENT_ID st) \<and> V_NAME l = full_name st
       \<and> V_SECTION l = SECTION st \<and> V_ELIG l = ''NO''"
    by (rule bexI[OF _ rd(1)]) (simp add: line_None_fields no)
  have 2: "\<exists>p. findStudentById (STUDENT_ID st) s = Some p
           \<and> P_ID p = sqlite3_column_int (STUDENT_ID st) \<and> P_NAME p = full_name st
           \<and> P_SECTION p = SECTION st \<and> P_ELIGIBLE p = ''NO''"
    by (rule exI[of _ "findStudentById_line (st, c)"]) (simp add: rd(2) profile_None_fields no)
  have 3: "\<exists>l \<in> set (showEligibilityReport s).
           E_ID l = sqlite3_column_int (STUDENT_ID st) \<and> E_NAME l = full_name st
         \<and> E_SECTION l = SECTION st \<and> E_ELIG l = ''NO''"
    by (rule bexI[OF _ rd(3)]) (simp add: report_None_fields no)
  from 1 2 3 show ?thesis unfolding shown_not_eligible_def by (intro conjI)
qed

lemma find_append_None:
  "find P xs = None \<Longrightarrow> find P (xs @ ys) = find P ys"
  by (induction xs) (simp_all split: if_splits)

lemma exec_has_parent:
  assumes "compliance_has_parent s"
  shows "compliance_has_parent (exec today c s)"
proof (cases c)
  case (AddStudent second i f l cl sec sh so)
  from assms show ?thesis
    unfolding AddStudent exec.simps compliance_has_parent_def addStudent_tables list_all_iff
    by (auto simp: zero_compliance_def new_student_def)
next
  case (UpdateStudentCompliance i h g d)
  show ?thesis
  proof (cases "if studentExists s i
            then upsert_compliance (STUDENTS s)
                   \<lparr>C_STUDENT_ID = i, CREDIT_HOURS = h, GPA = g, DUES_PAID = d,
                    LAST_VERIFIED_DATE = Some today\<rparr> (COMPLIANCE s)
            else None")
    case None
    with assms show ?thesis
      unfolding UpdateStudentCompliance exec.simps compliance_has_parent_def
        updateStudentCompliance_table by simp
  next
    case (Some cs)
    then have up: "upsert_compliance (STUDENTS s)
                   \<lparr>C_STUDENT_ID = i, CREDIT_HOURS = h, GPA = g, DUES_PAID = d,
                    LAST_VERIFIED_DATE = Some today\<rparr> (COMPLIANCE s) = Some cs"
      and ex: "studentExists s i"
      by (simp_all split: if_splits)
    from upsert_compliance_keys[OF up] assms ex
    have "set (map C_STUDENT_ID cs) \<subseteq> set (map STUDENT_ID (STUDENTS s))"
      by (auto simp: compliance_has_parent_def list_all_iff studentExists_def split: if_splits)
    then have "list_all (\<lambda>r. C_STUDENT_ID r \<in> set (map STUDENT_ID (STUDENTS s))) cs"
      unfolding list_all_iff by auto
    with Some show ?thesis
      unfolding UpdateStudentCompliance exec.simps compliance_has_parent_def
        updateStudentCompliance_table by simp
  qed
qed (use assms in \<open>simp_all add: compliance_has_parent_def\<close>)

lemma run_has_parent:
  "compliance_has_parent s \<Longrightarrow> compliance_has_parent (run cs s)"
  by (induction cs arbitrary: s) (auto simp: exec_has_parent)

lemma ensureTables_has_parent: "compliance_has_parent ensureTables"
  by (simp add: compliance_has_parent_def ensureTables_def)

text \<open>
  Claim C4, amended. For every call of \<open>addStudent\<close> on a database whose compliance rows
  all belong to students: when the first \<open>INSERT\<close> is rejected (the id is taken, or the
  section is not one of the five) neither row is created and nothing changes. Otherwise the
  student is created and "Student added." is printed; when the second \<open>INSERT\<close> runs, the
  compliance record of the student is created with it, with 0 credit hours, GPA 0.0, dues
  unpaid and the current date; when it fails, the student is left without a record. In both
  cases the new student's eligibility is false right after the call: by the rule on its
  stored facts, and on every read path, which shows the student with its id, name and
  section and the flag "NO".
\<close>

theorem addStudent_rows_created:
  assumes "compliance_has_parent s"
    and "addStudent today second i f l c sec sh so s = (s', m)"
  shows "(m = Insert_failed
          \<and> (i \<in> set (map STUDENT_ID (STUDENTS s)) \<or> sec \<notin> set allowed)
          \<and> s' = s)
       \<or> (m = Student_added \<and> second = Runs
          \<and> i \<notin> set (map STUDENT_ID (STUDENTS s)) \<and> sec \<in> set allowed
          \<and> s' = s\<lparr>STUDENTS := STUDENTS s @ [new_student i f l c sec sh so],
                    COMPLIANCE := COMPLIANCE s @ [zero_compliance i today]\<rparr>
          \<and> stored_facts s' (new_student i f l c sec sh so) = Some (zero_compliance i today)
          \<and> spec_flag s' (new_student i f l c sec sh so) = ''NO''
          \<and> shown_not_eligible s' (new_student i f l c sec sh so))
       \<or> (m = Student_added \<and> second = Fails
          \<and> i \<notin> set (map STUDENT_ID (STUDENTS s)) \<and> sec \<in> set allowed
          \<and> s' = s\<lparr>STUDENTS := STUDENTS s @ [new_student i f l c sec sh so]\<rparr>
          \<and> stored_facts s' (new_student i f l c sec sh so) = None
          \<and> spec_flag s' (new_student i f l c sec sh so) = ''NO''
          \<and> shown_not_eligible s' (new_student i f l c sec sh so))"
proof (cases "i \<in> set (map STUDENT_ID (STUDENTS s)) \<or> sec \<notin> set allowed")
  case True
  with assms(2) show ?thesis by (simp add: addStudent_cases)
next
  case False
  then have fresh: "i \<notin> set (map STUDENT_ID (STUDENTS s))" and sec: "sec \<in> set allowed"
    by simp_all
  let ?st = "new_student i f l c sec sh so"
  note nokey = no_row_without_student[OF assms(1) fresh]
  have id: "STUDENT_ID ?st = i" by (simp add: new_student_def)
  have nofacts: "find (\<lambda>r. C_STUDENT_ID r = i) (COMPLIANCE s) = None"
    using nokey unfolding find_None_iff by (metis image_eqI set_map)
  from assms(2) False have m: "m = Student_added" by (simp add: addStudent_cases)
  show ?thesis
  proof (cases second)
    case Runs
    with assms(2) fresh sec nokey
    have s': "s' = s\<lparr>STUDENTS := STUDENTS s @ [?st],
                    COMPLIANCE := COMPLIANCE s @ [zero_compliance i today]\<rparr>"
      by (simp add: addStudent_cases)
    have S: "STUDENTS s' = STUDENTS s @ [?st]"
      and C: "COMPLIANCE s' = COMPLIANCE s @ [zero_compliance i today]"
      by (simp_all add: s')
    have facts: "stored_facts s' ?st = Some (zero_compliance i today)"
      unfolding stored_facts_def C id find_append_None[OF nofacts]
      by (simp add: zero_compliance_def)
    have flag: "spec_flag s' ?st = ''NO''"
      unfolding spec_flag_def facts by (simp add: zero_compliance_def spec_eligible_def)
    have row: "(?st, Some (zero_compliance i today)) \<in> set (left_join_compliance s')"
      by (simp add: in_left_join_compliance S C id zero_compliance_def)
    have only: "r = (?st, Some (zero_compliance i today))"
      if "r \<in> set (left_join_compliance s')" "STUDENT_ID (fst r) = STUDENT_ID ?st" for r
      using join_rows_of_new_student[OF fresh assms(1) S id C that(1)] that(2)
      by (simp add: id)
    have "shown_not_eligible s' ?st"
      by (rule shown_not_eligibleI[OF row only]) simp_all
    with m Runs fresh sec s' facts flag show ?thesis by blast
  next
    case Fails
    with assms(2) fresh sec
    have s': "s' = s\<lparr>STUDENTS := STUDENTS s @ [?st]\<rparr>"
      by (simp add: addStudent_cases)
    have S: "STUDENTS s' = STUDENTS s @ [?st]"
      and C: "COMPLIANCE s' = COMPLIANCE s"
      by (simp_all add: s')
    have facts: "stored_facts s' ?st = None"
      unfolding stored_facts_def C id by (rule nofacts)
    have flag: "spec_flag s' ?st = ''NO''"
      unfolding spec_flag_def facts by simp
    have row: "(?st, None) \<in> set (left_join_compliance s')"
      using nokey by (simp add: in_left_join_compliance S C id)
    have only: "r = (?st, None)"
      if "r \<in> set (left_join_compliance s')" "STUDENT_ID (fst r) = STUDENT_ID ?st" for r
      using join_rows_of_new_student_without_row[OF fresh assms(1) S id C that(1)] that(2)
      by (simp add: id)
    have "shown_not_eligible s' ?st"
      by (rule shown_not_eligibleI[OF row only, where i = i and today = today]) simp_all
    with m Fails fresh sec s' facts flag show ?thesis by blast
  qed
qed

text \<open>
  The claim as stated fails: the two statements are not one transaction, and when the second
  fails the student 103 is in \<open>STUDENTS\<close>, reported as added, with no row in
  \<open>COMPLIANCE\<close>.
\<close>

theorem addStudent_can_leave_student_without_record:
  "snd (addStudent ''2024-02-01'' Fails 103 ''Cy'' ''Poe'' ''Freshman'' ''DM'' ''L'' ''10'' band)
     = Student_added
   \<and> 103 \<in> set (map STUDENT_ID
       (STUDENTS (fst (addStudent ''2024-02-01'' Fails 103 ''Cy'' ''Poe'' ''Freshman'' ''DM'' ''L'' ''10'' band))))
   \<and> 103 \<notin> set (map C_STUDENT_ID
       (COMPLIANCE (fst (addStudent ''2024-02-01'' Fails 103 ''Cy'' ''Poe'' ''Freshman'' ''DM'' ''L'' ''10'' band))))"
  by code_simp

theorem addStudent_rows_created_witness:
  "compliance_has_parent band
   \<and> snd (addStudent ''2024-02-01'' Runs 103 ''Cy'' ''Poe'' ''Freshman'' ''DM'' ''L'' ''10'' band)
       = Student_added
   \<and> COMPLIANCE (fst (addStudent ''2024-02-01'' Runs 103 ''Cy'' ''Poe'' ''Freshman'' ''DM'' ''L'' ''10'' band))
       = COMPLIANCE band @ [zero_compliance 103 ''2024-02-01'']
   \<and> shown_not_eligible
        (fst (addStudent ''2024-02-01'' Runs 103 ''Cy'' ''Poe'' ''Freshman'' ''DM'' ''L'' ''10'' band))
        (new_student 103 ''Cy'' ''Poe'' ''Freshman'' ''DM'' ''L'' ''10'')"
proof -
  let ?r = "addStudent ''2024-02-01'' Runs 103 ''Cy'' ''Poe'' ''Freshman'' ''DM'' ''L'' ''10'' band"
  have 1: "compliance_has_parent band"
    unfolding band_def by (rule run_has_parent[OF ensureTables_has_parent])
  have 2: "?r = (fst ?r, snd ?r)" by simp
  have 3: "103 \<notin> set (map STUDENT_ID (STUDENTS band))" by code_simp
  have 4: "''DM'' \<in> set allowed"
    by (simp add: allowed_def)
  from addStudent_rows_created[OF 1 2] 1 3 4 show ?thesis by auto
qed

subsection \<open>Returning an item that is not checked out\<close>

lemma update_return_available:
  assumes "item_available itemId t"
  shows "update_return itemId (ROWS t) = (ROWS t, length (filter (\<lambda>r. ITEM_ID r = itemId) (ROWS t)))"
    and "length (filter (\<lambda>r. ITEM_ID r = itemId) (ROWS t)) \<noteq> 0"
proof -
  have "r\<lparr>CHECKED_OUT_TO := None, CHECKED_OUT_DATE := None\<rparr> = r"
    if "r \<in> set (ROWS t)" "ITEM_ID r = itemId" for r
  proof -
    from assms that have "CHECKED_OUT_TO r = None" "CHECKED_OUT_DATE r = None"
      by (simp_all add: item_available_def list_all_iff)
    then show ?thesis by (cases r) simp
  qed
  then have "map (\<lambda>r. if ITEM_ID r = itemId
               then r\<lparr>CHECKED_OUT_TO := None, CHECKED_OUT_DATE := None\<rparr>
               else r) (ROWS t) = map (\<lambda>r. r) (ROWS t)"
    by (intro map_cong) simp_all
  then show "update_return itemId (ROWS t) =
      (ROWS t, length (filter (\<lambda>r. ITEM_ID r = itemId) (ROWS t)))"
    by (simp add: update_return_def)
  from assms have "\<exists>r \<in> set (ROWS t). ITEM_ID r = itemId"
    by (auto simp: item_available_def)
  then have "filter (\<lambda>r. ITEM_ID r = itemId) (ROWS t) \<noteq> []"
    by (simp add: filter_empty_conv)
  then show "length (filter (\<lambda>r. ITEM_ID r = itemId) (ROWS t)) \<noteq> 0" by simp
qed

lemma table_rows_same [simp]: "t\<lparr>ROWS := ROWS t\<rparr> = t"
  by (cases t) simp

lemma db_tables_same [simp]:
  "s\<lparr>INSTRUMENTS := INSTRUMENTS s\<rparr> = s" "s\<lparr>UNIFORMS := UNIFORMS s\<rparr> = s"
  "s\<lparr>SHAKOS := SHAKOS s\<rparr> = s"
  by (cases s; simp)+

text \<open>
  Claim C6, amended. For every kind, a return of an item that exists and is AVAILABLE changes
  nothing: the database after the call is the database before it, so the item stays
  AVAILABLE with empty \<open>CHECKED_OUT_TO\<close> and \<open>CHECKED_OUT_DATE\<close>. The program does not
  report an error for it: it prints "None." when no item of the kind is checked out (it
  then returns before asking for an id), and otherwise reports the return as done.
\<close>

theorem return_of_available_item_changes_nothing:
  "(item_available itemId (INSTRUMENTS s) \<longrightarrow>
      returnInstrument itemId s =
        (s, if checked_out_instruments s = [] then None_checked_out else Item_returned))
   \<and> (item_available itemId (UNIFORMS s) \<longrightarrow>
      returnUniform itemId s =
        (s, if checked_out_items (UNIFORMS s) = [] then None_checked_out else Item_returned))
   \<and> (item_available itemId (SHAKOS s) \<longrightarrow>
      returnShako itemId s =
        (s, if checked_out_items (SHAKOS s) = [] then None_checked_out else Item_returned))"
proof (intro conjI impI)
  assume "item_available itemId (INSTRUMENTS s)"
  from update_return_available[OF this] show "returnInstrument itemId s =
        (s, if checked_out_instruments s = [] then None_checked_out else Item_returned)"
    unfolding returnInstrument_def by simp
next
  assume "item_available itemId (UNIFORMS s)"
  from update_return_available[OF this] show "returnUniform itemId s =
        (s, if checked_out_items (UNIFORMS s) = [] then None_checked_out else Item_returned)"
    unfolding returnUniform_def by simp
next
  assume "item_available itemId (SHAKOS s)"
  from update_return_available[OF this] show "returnShako itemId s =
        (s, if checked_out_items (SHAKOS s) = [] then None_checked_out else Item_returned)"
    unfolding returnShako_def by simp
qed

text \<open>
  The claim as stated fails: instrument 2 of \<open>band\<close> is AVAILABLE, and returning it is
  reported as a return ("Instrument returned."), not as an error.
\<close>

theorem return_of_available_item_reports_success:
  "item_available 2 (INSTRUMENTS band) \<and> returnInstrument 2 band = (band, Item_returned)"
  by code_simp

theorem return_of_available_item_changes_nothing_witness:
  "item_available 2 (INSTRUMENTS band2) \<and> item_available 2 (UNIFORMS band2)
   \<and> item_available 1 (SHAKOS band2)
   \<and> returnInstrument 2 band2 = (band2, Item_returned)
   \<and> returnUniform 2 band2 = (band2, Item_returned)
   \<and> returnShako 1 band2 = (band2, Item_returned)"
proof -
  have 1: "item_available 2 (INSTRUMENTS band2)" by code_simp
  have 2: "item_available 2 (UNIFORMS band2)" by code_simp
  have 3: "item_available 1 (SHAKOS band2)" by code_simp
  have 4: "checked_out_instruments band2 \<noteq> []" by code_simp
  have 5: "checked_out_items (UNIFORMS band2) \<noteq> []" by code_simp
  have 6: "checked_out_items (SHAKOS band2) \<noteq> []" by code_simp
  from return_of_available_item_changes_nothing[of 2 band2]
    return_of_available_item_changes_nothing[of 1 band2] 1 2 3 4 5 6 show ?thesis by simp
qed

subsection \<open>Checking out an instrument\<close>

lemma getStudentSection_None:
  "getStudentSection s i = None \<longleftrightarrow> \<not> studentExists s i"
proof -
  have "filter (\<lambda>st. STUDENT_ID st = i) (STUDENTS s) = [] \<longleftrightarrow> \<not> studentExists s i"
    by (auto simp: filter_empty_conv studentExists_def)
  then show ?thesis
    by (cases "filter (\<lambda>st. STUDENT_ID st = i) (STUDENTS s)")
      (simp_all add: getStudentSection_def)
qed

lemma update_checkout_cases:
  "update_checkout (STUDENTS s) today studentId itemId (ROWS t) =
     (if \<not> item_free itemId t then Some (ROWS t, 0)
      else if holds_other studentId itemId t \<or> \<not> studentExists s studentId then None
      else Some (check_out today studentId itemId (ROWS t),
                 length (filter (\<lambda>r. ITEM_ID r = itemId \<and> CHECKED_OUT_TO r = None) (ROWS t))))"
  by (simp add: update_checkout_def item_free_def holds_other_def studentExists_def
      check_out_def Let_def)

lemma checkoutInstrument_cases:
  "checkoutInstrument today studentId filt itemId s =
     (if studentExists s studentId \<and> shown_instruments s studentId filt \<noteq> []
         \<and> item_free itemId (INSTRUMENTS s) \<and> \<not> holds_other studentId itemId (INSTRUMENTS s)
      then (s\<lparr>INSTRUMENTS := (INSTRUMENTS s)
                \<lparr>ROWS := check_out today studentId itemId (ROWS (INSTRUMENTS s))\<rparr>\<rparr>,
            Item_checked_out)
      else (s, if \<not> studentExists s studentId then Student_ID_does_not_exist
               else if shown_instruments s studentId filt = [] then No_instruments_available
               else if \<not> item_free itemId (INSTRUMENTS s)
               then Invalid_already_checked_out_or_no_such_ID
               else Checkout_failed))"
proof (cases "getStudentSection s studentId")
  case None
  then have "\<not> studentExists s studentId" by (simp add: getStudentSection_None)
  with None show ?thesis by (simp add: checkoutInstrument_def)
next
  case (Some sec)
  then have ex: "studentExists s studentId"
    using getStudentSection_None[of s studentId] by simp
  have shown: "shown_instruments s studentId filt = (if filt = 1 then sqlFiltered s sec else sqlAll s)"
    by (simp add: shown_instruments_def Some)
  show ?thesis
  proof (cases "shown_instruments s studentId filt = []")
    case True
    with Some ex shown show ?thesis by (simp add: checkoutInstrument_def)
  next
    case False
    then have co: "checkoutInstrument today studentId filt itemId s =
      (case update_checkout (STUDENTS s) today studentId itemId (ROWS (INSTRUMENTS s)) of
                  None \<Rightarrow> (s, Checkout_failed)
                | Some (rs, changes) \<Rightarrow>
                    (s\<lparr>INSTRUMENTS := (INSTRUMENTS s)\<lparr>ROWS := rs\<rparr>\<rparr>,
                     if changes = 0 then Invalid_already_checked_out_or_no_such_ID
                     else Item_checked_out))"
      using Some shown by (simp add: checkoutInstrument_def)
    show ?thesis
    proof (cases "item_free itemId (INSTRUMENTS s)")
      case free: True
      then have "length (filter (\<lambda>r. ITEM_ID r = itemId \<and> CHECKED_OUT_TO r = None)
                    (ROWS (INSTRUMENTS s))) \<noteq> 0"
        by (simp add: item_free_def)
      with free False ex show ?thesis
        unfolding co update_checkout_cases by simp
    next
      case nofree: False
      with False ex show ?thesis
        unfolding co update_checkout_cases by simp
    qed
  qed
qed

text \<open>
  Claim C3, amended. \<open>checkoutInstrument\<close> succeeds exactly when the student exists, the
  list of available instruments it shows (of the student's section when the filter is on)
  is not empty, the item exists with an empty \<open>CHECKED_OUT_TO\<close>, and the student holds
  no other instrument. It then sets \<open>CHECKED_OUT_TO\<close> of that item to the student and
  \<open>CHECKED_OUT_DATE\<close> to the current date, and leaves every other row and table as it
  was. In every other case it fails and changes nothing.
\<close>

theorem checkoutInstrument_succeeds_exactly_when:
  "checkoutInstrument today studentId filt itemId s =
     (if studentExists s studentId \<and> shown_instruments s studentId filt \<noteq> []
         \<and> item_free itemId (INSTRUMENTS s) \<and> \<not> holds_other studentId itemId (INSTRUMENTS s)
      then (s\<lparr>INSTRUMENTS := (INSTRUMENTS s)
                \<lparr>ROWS := check_out today studentId itemId (ROWS (INSTRUMENTS s))\<rparr>\<rparr>,
            Item_checked_out)
      else (s, if \<not> studentExists s studentId then Student_ID_does_not_exist
               else if shown_instruments s studentId filt = [] then No_instruments_available
               else if \<not> item_free itemId (INSTRUMENTS s)
               then Invalid_already_checked_out_or_no_such_ID
               else Checkout_failed))"
  by (rule checkoutInstrument_cases)

text \<open>
  The claim as stated fails: in \<open>band\<close> student 101 exists and instrument 2 exists and is
  AVAILABLE, but 101 already holds instrument 1 and the checkout is rejected.
\<close>

theorem checkout_rejected_for_holder_of_another_instrument:
  "studentExists band 101 \<and> item_available 2 (INSTRUMENTS band)
   \<and> checkoutInstrument ''2024-01-05'' 101 2 2 band = (band, Checkout_failed)"
  by code_simp

theorem checkoutInstrument_succeeds_exactly_when_witness:
  "studentExists band 102 \<and> shown_instruments band 102 2 \<noteq> []
   \<and> item_free 2 (INSTRUMENTS band) \<and> \<not> holds_other 102 2 (INSTRUMENTS band)
   \<and> checkoutInstrument ''2024-01-05'' 102 2 2 band =
       (band\<lparr>INSTRUMENTS := (INSTRUMENTS band)
                \<lparr>ROWS := check_out ''2024-01-05'' 102 2 (ROWS (INSTRUMENTS band))\<rparr>\<rparr>,
        Item_checked_out)"
proof -
  have 1: "studentExists band 102" by code_simp
  have 2: "shown_instruments band 102 2 \<noteq> []" by code_simp
  have 3: "item_free 2 (INSTRUMENTS band)" by code_simp
  have 4: "\<not> holds_other 102 2 (INSTRUMENTS band)" by code_simp
  from checkoutInstrument_succeeds_exactly_when[of "''2024-01-05''" 102 2 2 band] 1 2 3 4 show ?thesis by simp
qed

subsection \<open>The cycle of checkout and return\<close>

lemma slot_roundtrip:
  "CHECKED_OUT_TO r = None \<Longrightarrow> CHECKED_OUT_DATE r = None \<Longrightarrow>
   r\<lparr>CHECKED_OUT_TO := Some x, CHECKED_OUT_DATE := Some d,
     CHECKED_OUT_TO := None, CHECKED_OUT_DATE := None\<rparr> = r"
  by (cases r) simp

lemma check_out_ids [simp]:
  "map ITEM_ID (check_out today studentId itemId rs) = map ITEM_ID rs"
  by (induction rs) (simp_all add: check_out_def)

lemma update_return_ids [simp]:
  "map ITEM_ID (fst (update_return itemId rs)) = map ITEM_ID rs"
  by (induction rs) (simp_all add: update_return_def)

lemma update_return_changes:
  "snd (update_return itemId rs) \<noteq> 0 \<longleftrightarrow> itemId \<in> set (map ITEM_ID rs)"
proof -
  have "filter (\<lambda>r. ITEM_ID r = itemId) rs \<noteq> [] \<longleftrightarrow> itemId \<in> set (map ITEM_ID rs)"
    by (induction rs) auto
  then show ?thesis by (simp add: update_return_def)
qed

lemma update_return_check_out:
  assumes "item_available itemId t"
  shows "fst (update_return itemId (check_out today studentId itemId (ROWS t))) = ROWS t"
    and "snd (update_return itemId (check_out today studentId itemId (ROWS t))) \<noteq> 0"
proof -
  have slot: "CHECKED_OUT_TO r = None \<and> CHECKED_OUT_DATE r = None"
    if "r \<in> set (ROWS t)" "ITEM_ID r = itemId" for r
    using assms that by (simp add: item_available_def list_all_iff)
  have "(if ITEM_ID (if ITEM_ID r = itemId \<and> CHECKED_OUT_TO r = None
               then r\<lparr>CHECKED_OUT_TO := Some studentId, CHECKED_OUT_DATE := Some today\<rparr>
               else r) = itemId
         then (if ITEM_ID r = itemId \<and> CHECKED_OUT_TO r = None
               then r\<lparr>CHECKED_OUT_TO := Some studentId, CHECKED_OUT_DATE := Some today\<rparr>
               else r)\<lparr>CHECKED_OUT_TO := None, CHECKED_OUT_DATE := None\<rparr>
         else (if ITEM_ID r = itemId \<and> CHECKED_OUT_TO r = None
               then r\<lparr>CHECKED_OUT_TO := Some studentId, CHECKED_OUT_DATE := Some today\<rparr>
               else r)) = r" if "r \<in> set (ROWS t)" for r
  proof (cases "ITEM_ID r = itemId")
    case True
    with slot[OF that] slot_roundtrip[where r=r and x=studentId and d=today] show ?thesis by simp
  next
    case False
    then show ?thesis by simp
  qed
  then have "map (\<lambda>r. if ITEM_ID r = itemId
               then r\<lparr>CHECKED_OUT_TO := None, CHECKED_OUT_DATE := None\<rparr>
               else r) (check_out today studentId itemId (ROWS t)) = map (\<lambda>r. r) (ROWS t)"
    unfolding check_out_def map_map comp_def by (intro map_cong) simp_all
  then show "fst (update_return itemId (check_out today studentId itemId (ROWS t))) = ROWS t"
    by (simp add: update_return_def)
  from assms have "itemId \<in> set (map ITEM_ID (ROWS t))"
    by (simp add: item_available_def)
  then show "snd (update_return itemId (check_out today studentId itemId (ROWS t))) \<noteq> 0"
    by (simp only: update_return_changes check_out_ids)
qed

lemma available_free: "item_available itemId t \<Longrightarrow> item_free itemId t"
proof -
  assume a: "item_available itemId t"
  then obtain r where "r \<in> set (ROWS t)" "ITEM_ID r = itemId"
    by (auto simp: item_available_def)
  moreover from this a have "CHECKED_OUT_TO r = None"
    by (simp add: item_available_def list_all_iff)
  ultimately have "\<exists>r \<in> set (ROWS t). ITEM_ID r = itemId \<and> CHECKED_OUT_TO r = None" by blast
  then show ?thesis by (simp add: item_free_def filter_empty_conv)
qed

lemma not_holding: 
  assumes "Some studentId \<notin> set (map CHECKED_OUT_TO (ROWS t))"
  shows "\<not> holds_other studentId itemId t"
proof -
  from assms have "\<forall>r \<in> set (ROWS t). CHECKED_OUT_TO r \<noteq> Some studentId"
    by (metis image_eqI set_map)
  then show ?thesis by (simp add: holds_other_def filter_empty_conv)
qed

lemma checkout_of_available:
  assumes "item_available itemId (INSTRUMENTS s)" and "can_take s studentId filt"
  shows "checkoutInstrument today studentId filt itemId s =
     (s\<lparr>INSTRUMENTS := (INSTRUMENTS s)
          \<lparr>ROWS := check_out today studentId itemId (ROWS (INSTRUMENTS s))\<rparr>\<rparr>, Item_checked_out)"
  using available_free[OF assms(1)] assms(2) not_holding[of studentId "INSTRUMENTS s" itemId]
  by (simp add: checkoutInstrument_cases can_take_def)


lemma in_join_types:
  "(i, t) \<in> set (join_types s) \<longleftrightarrow>
     i \<in> set (ROWS (INSTRUMENTS s)) \<and> t \<in> set (INSTRUMENT_TYPES s)
     \<and> TYPE_ID t = I_TYPE_ID (DESCR i)"
  by (auto simp: join_types_def)

lemma sort_key_Nil_iff [simp]: "sort_key f xs = [] \<longleftrightarrow> xs = []"
  by (metis length_sort length_0_conv)

lemma checked_out_after_checkout:
  assumes "instruments_have_types s" and "item_available itemId (INSTRUMENTS s)"
  shows "checked_out_instruments
           (s\<lparr>INSTRUMENTS := (INSTRUMENTS s)
                \<lparr>ROWS := check_out today studentId itemId (ROWS (INSTRUMENTS s))\<rparr>\<rparr>) \<noteq> []"
proof -
  let ?s1 = "s\<lparr>INSTRUMENTS := (INSTRUMENTS s)
                \<lparr>ROWS := check_out today studentId itemId (ROWS (INSTRUMENTS s))\<rparr>\<rparr>"
  from assms(2) obtain r where r: "r \<in> set (ROWS (INSTRUMENTS s))" "ITEM_ID r = itemId"
    by (auto simp: item_available_def)
  with assms(2) have none: "CHECKED_OUT_TO r = None"
    by (simp add: item_available_def list_all_iff)
  let ?r' = "r\<lparr>CHECKED_OUT_TO := Some studentId, CHECKED_OUT_DATE := Some today\<rparr>"
  from r none have "?r' \<in> set (check_out today studentId itemId (ROWS (INSTRUMENTS s)))"
    unfolding check_out_def set_map by (intro image_eqI[where x = r]) simp_all
  then have in1: "?r' \<in> set (ROWS (INSTRUMENTS ?s1))" by simp
  from assms(1) r(1) have "I_TYPE_ID (DESCR r) \<in> set (map TYPE_ID (INSTRUMENT_TYPES s))"
    by (simp add: instruments_have_types_def list_all_iff)
  then obtain t where t: "t \<in> set (INSTRUMENT_TYPES s)" "TYPE_ID t = I_TYPE_ID (DESCR r)"
    by auto
  with in1 have "(?r', t) \<in> set (join_types ?s1)"
    by (simp add: in_join_types)
  then have "(?r', t) \<in> set (filter (\<lambda>(i, t). CHECKED_OUT_TO i \<noteq> None) (join_types ?s1))"
    by simp
  then have "filter (\<lambda>(i, t). CHECKED_OUT_TO i \<noteq> None) (join_types ?s1) \<noteq> []"
    by (metis empty_iff empty_set)
  then show ?thesis by (simp add: checked_out_instruments_def)
qed

lemma return_after_checkout:
  assumes "instruments_have_types s" and "item_available itemId (INSTRUMENTS s)"
  shows "returnInstrument itemId
           (s\<lparr>INSTRUMENTS := (INSTRUMENTS s)
                \<lparr>ROWS := check_out today studentId itemId (ROWS (INSTRUMENTS s))\<rparr>\<rparr>)
         = (s, Item_returned)"
proof -
  obtain rs n where ur: "update_return itemId (check_out today studentId itemId (ROWS (INSTRUMENTS s)))
      = (rs, n)" by (cases "update_return itemId (check_out today studentId itemId (ROWS (INSTRUMENTS s)))")
  with update_return_check_out[OF assms(2), of today studentId]
  have "rs = ROWS (INSTRUMENTS s)" "n \<noteq> 0" by simp_all
  with ur checked_out_after_checkout[OF assms, of today studentId] show ?thesis
    by (simp add: returnInstrument_def)
qed

lemma one_cycle:
  assumes "instruments_have_types s" and "item_available itemId (INSTRUMENTS s)"
    and "can_take s studentId filt"
  shows "fst (returnInstrument itemId (fst (checkoutInstrument today studentId filt itemId s))) = s"
  by (simp add: checkout_of_available[OF assms(2,3)] return_after_checkout[OF assms(1,2)])

lemma cycles_restore:
  assumes "instruments_have_types s" and "item_available itemId (INSTRUMENTS s)"
    and "list_all (\<lambda>(today, studentId, filt). can_take s studentId filt) xs"
  shows "run (cycle_commands itemId xs) s = s"
  using assms(3)
proof (induction xs)
  case Nil
  then show ?case by (simp add: cycle_commands_def)
next
  case (Cons x xs)
  obtain today studentId filt where x: "x = (today, studentId, filt)" by (cases x)
  with Cons.prems have "can_take s studentId filt" by simp
  from one_cycle[OF assms(1,2) this, of today]
  have "run (cycle_commands itemId (x # xs)) s = run (cycle_commands itemId xs) s"
    by (simp add: cycle_commands_def x)
  with Cons show ?case by simp
qed


lemma fold_max_start: "a \<le> fold max xs (a::int)"
proof (induction xs arbitrary: a)
  case (Cons y ys)
  have "a \<le> max y a" by simp
  also have "\<dots> \<le> fold max ys (max y a)" by (rule Cons.IH)
  finally show ?case by simp
qed simp

lemma fold_max_member: "x \<in> set xs \<Longrightarrow> x \<le> fold max xs (a::int)"
proof (induction xs arbitrary: a)
  case (Cons y ys)
  show ?case
  proof (cases "x = y")
    case True
    have "x \<le> max y a" using True by simp
    also have "\<dots> \<le> fold max ys (max y a)" by (rule fold_max_start)
    finally show ?thesis by simp
  next
    case False
    with Cons.prems have "x \<in> set ys" by simp
    from Cons.IH[OF this] show ?thesis by simp
  qed
qed simp

lemma next_rowid_greater:
  "SEQ t < next_rowid t" "r \<in> set (ROWS t) \<Longrightarrow> ITEM_ID r < next_rowid t"
proof -
  show "SEQ t < next_rowid t"
    using fold_max_start[of "SEQ t" "map ITEM_ID (ROWS t)"] by (simp add: next_rowid_def)
  assume "r \<in> set (ROWS t)"
  then have "ITEM_ID r \<in> set (map ITEM_ID (ROWS t))" by simp
  from fold_max_member[OF this, of "SEQ t"] show "ITEM_ID r < next_rowid t"
    by (simp add: next_rowid_def)
qed

lemma next_rowid_fresh: "next_rowid t \<notin> set (map ITEM_ID (ROWS t))"
  using next_rowid_greater(2)[of _ t] by fastforce

lemma insert_item_holder:
  "insert_item (STUDENTS s) d (bind_text_or_null notes) (Some studentId) (Some today) t =
     (if studentExists s studentId \<and> Some studentId \<notin> set (map CHECKED_OUT_TO (ROWS t))
      then Some \<lparr>ROWS = ROWS t @ [new_item t d notes studentId today], SEQ = next_rowid t\<rparr>
      else None)"
  by (simp add: insert_item_def new_item_def studentExists_def)

lemma checkoutUniform_cases:
  "checkoutUniform today studentId coatSize pantSize coatNumber pantNumber notes s =
     (if studentExists s studentId
         \<and> Some studentId \<notin> set (map CHECKED_OUT_TO (ROWS (UNIFORMS s)))
      then (s\<lparr>UNIFORMS :=
               \<lparr>ROWS = ROWS (UNIFORMS s) @
                   [new_item (UNIFORMS s)
                      \<lparr>COAT_SIZE = bind_text_or_null coatSize,
                       PANT_SIZE = bind_text_or_null pantSize,
                       COAT_NUMBER = bind_text_or_null coatNumber,
                       PANT_NUMBER = bind_text_or_null pantNumber\<rparr> notes studentId today],
                SEQ = next_rowid (UNIFORMS s)\<rparr>\<rparr>, Item_checked_out)
      else (s, if \<not> studentExists s studentId then Student_ID_does_not_exist
               else Checkout_failed))"
  by (simp add: checkoutUniform_def insert_item_holder)

lemma checkoutShako_cases:
  "checkoutShako today studentId sz notes s =
     (if studentExists s studentId
         \<and> Some studentId \<notin> set (map CHECKED_OUT_TO (ROWS (SHAKOS s)))
      then (s\<lparr>SHAKOS :=
               \<lparr>ROWS = ROWS (SHAKOS s) @
                   [new_item (SHAKOS s) \<lparr>SIZE = bind_text_or_null sz\<rparr> notes studentId today],
                SEQ = next_rowid (SHAKOS s)\<rparr>\<rparr>, Item_checked_out)
      else (s, if \<not> studentExists s studentId then Student_ID_does_not_exist
               else Checkout_failed))"
  by (simp add: checkoutShako_def insert_item_holder)

lemma checkoutInstrument_ids:
  "map ITEM_ID (ROWS (INSTRUMENTS (fst (checkoutInstrument today studentId filt itemId s))))
   = map ITEM_ID (ROWS (INSTRUMENTS s))"
  by (simp add: checkoutInstrument_cases)

lemma return_ids:
  "map ITEM_ID (ROWS (INSTRUMENTS (fst (returnInstrument itemId s))))
     = map ITEM_ID (ROWS (INSTRUMENTS s))"
  "map ITEM_ID (ROWS (UNIFORMS (fst (returnUniform itemId s)))) = map ITEM_ID (ROWS (UNIFORMS s))"
  "map ITEM_ID (ROWS (SHAKOS (fst (returnShako itemId s)))) = map ITEM_ID (ROWS (SHAKOS s))"
  by (simp_all add: returnInstrument_def returnUniform_def returnShako_def case_prod_unfold)

lemma update_return_slot:
  "list_all (\<lambda>r. ITEM_ID r = itemId \<longrightarrow> CHECKED_OUT_TO r = None \<and> CHECKED_OUT_DATE r = None)
     (fst (update_return itemId rs))"
  by (induction rs) (simp_all add: update_return_def)

lemma returned_is_available:
  "snd (returnInstrument itemId s) = Item_returned
     \<Longrightarrow> item_available itemId (INSTRUMENTS (fst (returnInstrument itemId s)))"
  "snd (returnUniform itemId s) = Item_returned
     \<Longrightarrow> item_available itemId (UNIFORMS (fst (returnUniform itemId s)))"
  "snd (returnShako itemId s) = Item_returned
     \<Longrightarrow> item_available itemId (SHAKOS (fst (returnShako itemId s)))"
proof -
  have *: "item_available itemId (t\<lparr>ROWS := fst (update_return itemId (ROWS t))\<rparr>)"
    if "snd (update_return itemId (ROWS t)) \<noteq> 0" for t :: "'d itable"
  proof -
    from that have "itemId \<in> set (map ITEM_ID (ROWS t))"
      by (simp only: update_return_changes)
    with update_return_slot[of itemId "ROWS t"] show ?thesis
      by (simp add: item_available_def)
  qed
  show "snd (returnInstrument itemId s) = Item_returned
     \<Longrightarrow> item_available itemId (INSTRUMENTS (fst (returnInstrument itemId s)))"
    using *[of "INSTRUMENTS s"]
    by (simp add: returnInstrument_def case_prod_unfold split: if_splits)
  show "snd (returnUniform itemId s) = Item_returned
     \<Longrightarrow> item_available itemId (UNIFORMS (fst (returnUniform itemId s)))"
    using *[of "UNIFORMS s"]
    by (simp add: returnUniform_def case_prod_unfold split: if_splits)
  show "snd (returnShako itemId s) = Item_returned
     \<Longrightarrow> item_available itemId (SHAKOS (fst (returnShako itemId s)))"
    using *[of "SHAKOS s"]
    by (simp add: returnShako_def case_prod_unfold split: if_splits)
qed


lemma check_out_holder:
  assumes "item_available itemId t"
  shows "list_all (\<lambda>r. ITEM_ID r = itemId \<longrightarrow>
                     CHECKED_OUT_TO r = Some studentId \<and> CHECKED_OUT_DATE r = Some today)
           (check_out today studentId itemId (ROWS t))"
proof -
  let ?f = "\<lambda>r. if ITEM_ID r = itemId \<and> CHECKED_OUT_TO r = None
               then r\<lparr>CHECKED_OUT_TO := Some studentId, CHECKED_OUT_DATE := Some today\<rparr>
               else r"
  have "ITEM_ID (?f r) = itemId \<longrightarrow>
          CHECKED_OUT_TO (?f r) = Some studentId \<and> CHECKED_OUT_DATE (?f r) = Some today"
    if "r \<in> set (ROWS t)" for r
  proof (cases "ITEM_ID r = itemId")
    case True
    with assms that have "CHECKED_OUT_TO r = None"
      by (simp add: item_available_def list_all_iff)
    with True show ?thesis by simp
  next
    case False
    then show ?thesis by simp
  qed
  then have "\<forall>x \<in> ?f ` set (ROWS t). ITEM_ID x = itemId \<longrightarrow>
          CHECKED_OUT_TO x = Some studentId \<and> CHECKED_OUT_DATE x = Some today"
    by (intro ballI) (erule imageE, simp only:)
  then show ?thesis
    unfolding check_out_def list_all_iff set_map .
qed

text \<open>
  Claim C5, amended. For an instrument that is AVAILABLE and whose type is in the catalogue
  (the foreign key of \<open>INSTRUMENTS\<close>), and two students who exist, hold no instrument and are
  shown a non-empty list: checkout to the first, return, checkout to the second all
  succeed, the return restores the database exactly, and at the end that same item is
  checked out to the second student, on the second date. Since checkout and return together
  restore the database, the cycle can be repeated with any list of such students.
  \<open>checkoutInstrument\<close> never creates an item, and no return of any kind deletes one: a
  returned item stays in its table, AVAILABLE.

  For uniforms and shakos the cycle is a different one: checkout does not take an existing
  item. Every successful \<open>checkoutUniform\<close> or \<open>checkoutShako\<close> appends a new item, with a
  row id the table does not hold yet, checked out to the student, and leaves the existing
  items as they are.
\<close>

theorem instrument_checkout_return_cycle:
  assumes "instruments_have_types s" and "item_available itemId (INSTRUMENTS s)"
    and "can_take s student1 filt1" and "can_take s student2 filt2"
    and "s1 = fst (checkoutInstrument first_day student1 filt1 itemId s)"
    and "s2 = fst (returnInstrument itemId s1)"
    and "s3 = fst (checkoutInstrument second_day student2 filt2 itemId s2)"
  shows "snd (checkoutInstrument first_day student1 filt1 itemId s) = Item_checked_out
       \<and> snd (returnInstrument itemId s1) = Item_returned
       \<and> snd (checkoutInstrument second_day student2 filt2 itemId s2) = Item_checked_out
       \<and> s2 = s
       \<and> map ITEM_ID (ROWS (INSTRUMENTS s3)) = map ITEM_ID (ROWS (INSTRUMENTS s))
       \<and> list_all (\<lambda>r. ITEM_ID r = itemId \<longrightarrow>
                         CHECKED_OUT_TO r = Some student2 \<and> CHECKED_OUT_DATE r = Some second_day)
            (ROWS (INSTRUMENTS s3))
       \<and> (list_all (\<lambda>(today, studentId, filt). can_take s studentId filt) xs \<longrightarrow>
            run (cycle_commands itemId xs) s = s)
       \<and> map ITEM_ID (ROWS (INSTRUMENTS (fst (checkoutInstrument today studentId filt j s'))))
           = map ITEM_ID (ROWS (INSTRUMENTS s'))
       \<and> map ITEM_ID (ROWS (INSTRUMENTS (fst (returnInstrument j s'))))
           = map ITEM_ID (ROWS (INSTRUMENTS s'))
       \<and> map ITEM_ID (ROWS (UNIFORMS (fst (returnUniform j s')))) = map ITEM_ID (ROWS (UNIFORMS s'))
       \<and> map ITEM_ID (ROWS (SHAKOS (fst (returnShako j s')))) = map ITEM_ID (ROWS (SHAKOS s'))
       \<and> (snd (returnInstrument j s') = Item_returned \<longrightarrow>
            item_available j (INSTRUMENTS (fst (returnInstrument j s'))))
       \<and> (snd (returnUniform j s') = Item_returned \<longrightarrow>
            item_available j (UNIFORMS (fst (returnUniform j s'))))
       \<and> (snd (returnShako j s') = Item_returned \<longrightarrow>
            item_available j (SHAKOS (fst (returnShako j s'))))
       \<and> checkoutUniform today studentId coatSize pantSize coatNumber pantNumber notes s' =
           (if studentExists s' studentId
               \<and> Some studentId \<notin> set (map CHECKED_OUT_TO (ROWS (UNIFORMS s')))
            then (s'\<lparr>UNIFORMS :=
                     \<lparr>ROWS = ROWS (UNIFORMS s') @
                         [new_item (UNIFORMS s')
                            \<lparr>COAT_SIZE = bind_text_or_null coatSize,
                             PANT_SIZE = bind_text_or_null pantSize,
                             COAT_NUMBER = bind_text_or_null coatNumber,
                             PANT_NUMBER = bind_text_or_null pantNumber\<rparr> notes studentId today],
                      SEQ = next_rowid (UNIFORMS s')\<rparr>\<rparr>, Item_checked_out)
            else (s', if \<not> studentExists s' studentId then Student_ID_does_not_exist
                      else Checkout_failed))
       \<and> checkoutShako today studentId sz notes s' =
           (if studentExists s' studentId
               \<and> Some studentId \<notin> set (map CHECKED_OUT_TO (ROWS (SHAKOS s')))
            then (s'\<lparr>SHAKOS :=
                     \<lparr>ROWS = ROWS (SHAKOS s') @
                         [new_item (SHAKOS s') \<lparr>SIZE = bind_text_or_null sz\<rparr> notes studentId today],
                      SEQ = next_rowid (SHAKOS s')\<rparr>\<rparr>, Item_checked_out)
            else (s', if \<not> studentExists s' studentId then Student_ID_does_not_exist
                      else Checkout_failed))
       \<and> next_rowid (UNIFORMS s') \<notin> set (map ITEM_ID (ROWS (UNIFORMS s')))
       \<and> next_rowid (SHAKOS s') \<notin> set (map ITEM_ID (ROWS (SHAKOS s')))"
proof -
  have c1: "checkoutInstrument first_day student1 filt1 itemId s =
     (s\<lparr>INSTRUMENTS := (INSTRUMENTS s)
          \<lparr>ROWS := check_out first_day student1 itemId (ROWS (INSTRUMENTS s))\<rparr>\<rparr>, Item_checked_out)"
    by (rule checkout_of_available[OF assms(2,3)])
  have r: "returnInstrument itemId s1 = (s, Item_returned)"
    unfolding assms(5) c1 fst_conv by (rule return_after_checkout[OF assms(1,2)])
  then have s2: "s2 = s" by (simp add: assms(6))
  have c2: "checkoutInstrument second_day student2 filt2 itemId s2 =
     (s\<lparr>INSTRUMENTS := (INSTRUMENTS s)
          \<lparr>ROWS := check_out second_day student2 itemId (ROWS (INSTRUMENTS s))\<rparr>\<rparr>, Item_checked_out)"
    unfolding s2 by (rule checkout_of_available[OF assms(2,4)])
  have rows3: "ROWS (INSTRUMENTS s3) = check_out second_day student2 itemId (ROWS (INSTRUMENTS s))"
    by (simp add: assms(7) c2)
  have held: "list_all (\<lambda>r. ITEM_ID r = itemId \<longrightarrow>
                         CHECKED_OUT_TO r = Some student2 \<and> CHECKED_OUT_DATE r = Some second_day)
            (ROWS (INSTRUMENTS s3))"
    unfolding rows3 by (rule check_out_holder[OF assms(2)])
  have ids3: "map ITEM_ID (ROWS (INSTRUMENTS s3)) = map ITEM_ID (ROWS (INSTRUMENTS s))"
    unfolding rows3 by (rule check_out_ids)
  have cyc: "list_all (\<lambda>(today, studentId, filt). can_take s studentId filt) xs \<Longrightarrow>
            run (cycle_commands itemId xs) s = s"
    by (rule cycles_restore[OF assms(1,2)])
  have m1: "snd (checkoutInstrument first_day student1 filt1 itemId s) = Item_checked_out"
    by (simp add: c1)
  have m2: "snd (returnInstrument itemId s1) = Item_returned" by (simp add: r)
  have m3: "snd (checkoutInstrument second_day student2 filt2 itemId s2) = Item_checked_out"
    by (simp add: c2)
  note general = checkoutInstrument_ids[of today studentId filt j s'] return_ids[of j s']
    returned_is_available[of j s']
    checkoutUniform_cases[of today studentId coatSize pantSize coatNumber pantNumber "notes" s']
    checkoutShako_cases[of today studentId sz "notes" s']
    next_rowid_fresh[of "UNIFORMS s'"] next_rowid_fresh[of "SHAKOS s'"]
  show ?thesis
    by (intro conjI impI m1 m2 m3 s2 ids3 held cyc general)
qed



text \<open>
  The claim as stated fails for uniforms: after checkout of a uniform to student 102
  (item 2), its return, and a second checkout to 102, item 2 is still AVAILABLE and a new
  item 3 has been created for the student.
\<close>

theorem uniform_checkout_creates_a_new_item:
  "map ITEM_ID (ROWS (UNIFORMS
     (fst (checkoutUniform ''2024-01-08'' 102 ''38'' ''30'' ''9'' ''9'' ''''
       (fst (returnUniform 2
         (fst (checkoutUniform ''2024-01-05'' 102 ''38'' ''30'' ''9'' ''9'' '''' band)))))))) = [1, 2, 3]
   \<and> map CHECKED_OUT_TO (ROWS (UNIFORMS
     (fst (checkoutUniform ''2024-01-08'' 102 ''38'' ''30'' ''9'' ''9'' ''''
       (fst (returnUniform 2
         (fst (checkoutUniform ''2024-01-05'' 102 ''38'' ''30'' ''9'' ''9'' '''' band))))))))
       = [Some 101, None, Some 102]"
  by code_simp

theorem instrument_checkout_return_cycle_witness:
  "instruments_have_types band2 \<and> item_available 2 (INSTRUMENTS band2)
   \<and> can_take band2 102 2 \<and> can_take band2 103 2
   \<and> snd (checkoutInstrument ''2024-01-09'' 102 2 2 band2) = Item_checked_out
   \<and> returnInstrument 2 (fst (checkoutInstrument ''2024-01-09'' 102 2 2 band2))
       = (band2, Item_returned)
   \<and> snd (checkoutInstrument ''2024-01-10'' 103 2 2 band2) = Item_checked_out
   \<and> list_all (\<lambda>r. ITEM_ID r = 2 \<longrightarrow>
                     CHECKED_OUT_TO r = Some 103 \<and> CHECKED_OUT_DATE r = Some ''2024-01-10'')
        (ROWS (INSTRUMENTS (fst (checkoutInstrument ''2024-01-10'' 103 2 2 band2))))
   \<and> run (cycle_commands 2 [(''2024-01-09'', 102, 2), (''2024-01-10'', 103, 2)]) band2 = band2"
proof -
  have 1: "instruments_have_types band2" by code_simp
  have 2: "item_available 2 (INSTRUMENTS band2)" by code_simp
  have 3: "can_take band2 102 2" by code_simp
  have 4: "can_take band2 103 2" by code_simp
  have 5: "list_all (\<lambda>(today, studentId, filt). can_take band2 studentId filt)
             [(''2024-01-09'', 102, 2), (''2024-01-10'', 103, 2)]"
    using 3 4 by simp
  note c = instrument_checkout_return_cycle[OF 1 2 3 4 refl refl refl]
  have a: "snd (checkoutInstrument ''2024-01-09'' 102 2 2 band2) = Item_checked_out"
    by (rule c[THEN conjunct1])
  have b: "snd (returnInstrument 2 (fst (checkoutInstrument ''2024-01-09'' 102 2 2 band2)))
      = Item_returned"
    by (rule c[THEN conjunct2, THEN conjunct1])
  have restored: "fst (returnInstrument 2 (fst (checkoutInstrument ''2024-01-09'' 102 2 2 band2))) = band2"
    by (rule c[THEN conjunct2, THEN conjunct2, THEN conjunct2, THEN conjunct1])
  have d: "snd (checkoutInstrument ''2024-01-10'' 103 2 2
             (fst (returnInstrument 2 (fst (checkoutInstrument ''2024-01-09'' 102 2 2 band2)))))
      = Item_checked_out"
    by (rule c[THEN conjunct2, THEN conjunct2, THEN conjunct1])
  have e: "list_all (\<lambda>r. ITEM_ID r = 2 \<longrightarrow>
                     CHECKED_OUT_TO r = Some 103 \<and> CHECKED_OUT_DATE r = Some ''2024-01-10'')
        (ROWS (INSTRUMENTS (fst (checkoutInstrument ''2024-01-10'' 103 2 2
             (fst (returnInstrument 2 (fst (checkoutInstrument ''2024-01-09'' 102 2 2 band2))))))))"
    by (rule c[THEN conjunct2, THEN conjunct2, THEN conjunct2, THEN conjunct2, THEN conjunct2,
          THEN conjunct1])
  have f: "run (cycle_commands 2 [(''2024-01-09'', 102, 2), (''2024-01-10'', 103, 2)]) band2 = band2"
    by (rule c[THEN conjunct2, THEN conjunct2, THEN conjunct2, THEN conjunct2, THEN conjunct2,
          THEN conjunct2, THEN conjunct1, rule_format, OF 5])
  have r: "returnInstrument 2 (fst (checkoutInstrument ''2024-01-09'' 102 2 2 band2))
       = (band2, Item_returned)"
    using restored b by (simp add: prod_eq_iff)
  from d e have "snd (checkoutInstrument ''2024-01-10'' 103 2 2 band2) = Item_checked_out"
    "list_all (\<lambda>r. ITEM_ID r = 2 \<longrightarrow>
                     CHECKED_OUT_TO r = Some 103 \<and> CHECKED_OUT_DATE r = Some ''2024-01-10'')
        (ROWS (INSTRUMENTS (fst (checkoutInstrument ''2024-01-10'' 103 2 2 band2))))"
    unfolding restored by this+
  with 1 2 3 4 a r f show ?thesis by (intro conjI)
qed

subsection \<open>One holder for each item, one item of a kind for each holder\<close>

lemma holders_simps [simp]:
  "holders [] = []"
  "holders (r # rs) = (if CHECKED_OUT_TO r = None then holders rs else CHECKED_OUT_TO r # holders rs)"
  "holders (xs @ ys) = holders xs @ holders ys"
  by (simp_all add: holders_def)

lemma set_holders: "set (holders rs) = set (map CHECKED_OUT_TO rs) - {None}"
  by (auto simp: holders_def)

lemma kind_ok_more_students:
  assumes "kind_ok studs t" and "set (map STUDENT_ID studs) \<subseteq> set (map STUDENT_ID studs')"
  shows "kind_ok studs' t"
proof -
  have "(case h of None \<Rightarrow> True | Some i \<Rightarrow> i \<in> set (map STUDENT_ID studs'))"
    if "(case h of None \<Rightarrow> True | Some i \<Rightarrow> i \<in> set (map STUDENT_ID studs))" for h
    using that assms(2) by (cases h) auto
  with assms(1) show ?thesis
    unfolding kind_ok_def single_holder_def list_all_iff by blast
qed

lemma kind_ok_insert:
  assumes "kind_ok studs t" and "insert_item studs d n h dt t = Some t'"
  shows "kind_ok studs t'"
proof -
  let ?new = "\<lparr>ITEM_ID = next_rowid t, DESCR = d, CONDITION_NOTES = n,
               CHECKED_OUT_TO = h, CHECKED_OUT_DATE = dt\<rparr>"
  from assms(2) have ok: "case h of None \<Rightarrow> True
       | Some i \<Rightarrow> Some i \<notin> set (map CHECKED_OUT_TO (ROWS t)) \<and> i \<in> set (map STUDENT_ID studs)"
    and t': "ROWS t' = ROWS t @ [?new]"
    by (auto simp: insert_item_def split: if_splits option.splits)
  have pk: "item_ids_distinct t'"
    using assms(1) next_rowid_fresh[of t] by (simp add: kind_ok_def item_ids_distinct_def t')
  have fk: "list_all (\<lambda>r. case CHECKED_OUT_TO r of
                       None \<Rightarrow> True
                     | Some studentId \<Rightarrow> studentId \<in> set (map STUDENT_ID studs)) (ROWS t')"
    using assms(1) ok by (cases h) (simp_all add: kind_ok_def single_holder_def t')
  have "h \<notin> set (holders (ROWS t))" if "h \<noteq> None"
    using ok that by (cases h) (simp_all add: set_holders)
  then have un: "distinct (holders (ROWS t'))"
    using assms(1) by (simp add: kind_ok_def single_holder_def t')
  from pk fk un show ?thesis by (simp add: kind_ok_def single_holder_def)
qed

lemma holders_return:
  "distinct (holders rs) \<Longrightarrow>
   distinct (holders (fst (update_return itemId rs)))
   \<and> set (holders (fst (update_return itemId rs))) \<subseteq> set (holders rs)"
proof (induction rs)
  case Nil
  then show ?case by (simp add: update_return_def)
next
  case (Cons r rs)
  have step: "fst (update_return itemId (r # rs)) =
      (if ITEM_ID r = itemId then r\<lparr>CHECKED_OUT_TO := None, CHECKED_OUT_DATE := None\<rparr> else r)
      # fst (update_return itemId rs)"
    by (simp add: update_return_def)
  from Cons.prems have d: "distinct (holders rs)"
    by (simp split: if_splits)
  note ih = Cons.IH[OF d]
  show ?case
  proof (cases "ITEM_ID r = itemId \<or> CHECKED_OUT_TO r = None")
    case True
    then have "holders (fst (update_return itemId (r # rs))) = holders (fst (update_return itemId rs))"
      unfolding step by auto
    with ih show ?thesis by (auto split: if_splits)
  next
    case False
    then have h: "holders (fst (update_return itemId (r # rs)))
        = CHECKED_OUT_TO r # holders (fst (update_return itemId rs))"
      "holders (r # rs) = CHECKED_OUT_TO r # holders rs"
      unfolding step by simp_all
    from Cons.prems h(2) have "CHECKED_OUT_TO r \<notin> set (holders rs)" by simp
    with ih h show ?thesis by auto
  qed
qed

lemma kind_ok_return:
  assumes "kind_ok studs t"
  shows "kind_ok studs (t\<lparr>ROWS := fst (update_return itemId (ROWS t))\<rparr>)"
proof -
  have pk: "item_ids_distinct (t\<lparr>ROWS := fst (update_return itemId (ROWS t))\<rparr>)"
    using assms by (simp add: kind_ok_def item_ids_distinct_def)
  have "case CHECKED_OUT_TO r' of None \<Rightarrow> True
                     | Some studentId \<Rightarrow> studentId \<in> set (map STUDENT_ID studs)"
    if "r' \<in> set (fst (update_return itemId (ROWS t)))" for r'
  proof -
    from that obtain r where r: "r \<in> set (ROWS t)"
      "r' = (if ITEM_ID r = itemId then r\<lparr>CHECKED_OUT_TO := None, CHECKED_OUT_DATE := None\<rparr> else r)"
      by (auto simp: update_return_def)
    from assms r(1) have "case CHECKED_OUT_TO r of None \<Rightarrow> True
                     | Some studentId \<Rightarrow> studentId \<in> set (map STUDENT_ID studs)"
      by (simp add: kind_ok_def single_holder_def list_all_iff)
    with r(2) show ?thesis by (cases "ITEM_ID r = itemId") simp_all
  qed
  then have fk: "list_all (\<lambda>r. case CHECKED_OUT_TO r of
                       None \<Rightarrow> True
                     | Some studentId \<Rightarrow> studentId \<in> set (map STUDENT_ID studs))
        (fst (update_return itemId (ROWS t)))"
    unfolding list_all_iff by blast
  from assms have "distinct (holders (ROWS t))" by (simp add: kind_ok_def single_holder_def)
  from holders_return[OF this, of itemId] pk fk show ?thesis
    by (simp add: kind_ok_def single_holder_def)
qed

lemma check_out_other_ids:
  assumes "\<forall>r \<in> set rs. ITEM_ID r \<noteq> itemId"
  shows "check_out today studentId itemId rs = rs"
  using assms by (induction rs) (simp_all add: check_out_def)

lemma check_out_Cons:
  "check_out today studentId itemId (r # rs) =
     (if ITEM_ID r = itemId \<and> CHECKED_OUT_TO r = None
      then r\<lparr>CHECKED_OUT_TO := Some studentId, CHECKED_OUT_DATE := Some today\<rparr> else r)
     # check_out today studentId itemId rs"
  "check_out today studentId itemId (xs @ ys) =
     check_out today studentId itemId xs @ check_out today studentId itemId ys"
  by (simp_all add: check_out_def)

lemma kind_ok_checkout:
  assumes "kind_ok studs t"
    and "update_checkout studs today studentId itemId (ROWS t) = Some (rs, n)"
  shows "kind_ok studs (t\<lparr>ROWS := rs\<rparr>)"
proof (cases "filter (\<lambda>r. ITEM_ID r = itemId \<and> CHECKED_OUT_TO r = None) (ROWS t) = []")
  case True
  with assms(2) have "rs = ROWS t" by (simp add: update_checkout_def)
  with assms(1) show ?thesis by simp
next
  case False
  with assms(2) have others: "filter (\<lambda>r. ITEM_ID r \<noteq> itemId \<and> CHECKED_OUT_TO r = Some studentId) (ROWS t) = []"
    and stud: "studentId \<in> set (map STUDENT_ID studs)"
    and rs: "rs = check_out today studentId itemId (ROWS t)"
    by (simp_all add: update_checkout_def check_out_def Let_def split: if_splits)
  from False obtain r0 where r0: "r0 \<in> set (ROWS t)" "ITEM_ID r0 = itemId" "CHECKED_OUT_TO r0 = None"
    by (auto simp: filter_empty_conv)
  from r0(1) obtain xs ys where split: "ROWS t = xs @ r0 # ys"
    by (auto dest: split_list)
  from assms(1) have pk: "distinct (map ITEM_ID (ROWS t))"
    and fk: "list_all (\<lambda>r. case CHECKED_OUT_TO r of
                       None \<Rightarrow> True
                     | Some i \<Rightarrow> i \<in> set (map STUDENT_ID studs)) (ROWS t)"
    and un: "distinct (holders (ROWS t))"
    by (simp_all add: kind_ok_def item_ids_distinct_def single_holder_def)
  have other_ids: "ITEM_ID r \<noteq> itemId" if "r \<in> set xs \<or> r \<in> set ys" for r
  proof -
    from pk have "itemId \<notin> ITEM_ID ` set xs" "itemId \<notin> ITEM_ID ` set ys"
      unfolding split using r0(2) by auto
    with that show ?thesis by (metis imageI)
  qed
  then have same: "check_out today studentId itemId xs = xs" "check_out today studentId itemId ys = ys"
    by (simp_all add: check_out_other_ids)
  let ?r0' = "r0\<lparr>CHECKED_OUT_TO := Some studentId, CHECKED_OUT_DATE := Some today\<rparr>"
  have rs': "rs = xs @ ?r0' # ys"
    unfolding rs split check_out_Cons same using r0(2,3) by simp
  have free: "CHECKED_OUT_TO r \<noteq> Some studentId" if "r \<in> set xs \<or> r \<in> set ys" for r
  proof
    assume "CHECKED_OUT_TO r = Some studentId"
    with other_ids[OF that] that have
      "r \<in> set (filter (\<lambda>r. ITEM_ID r \<noteq> itemId \<and> CHECKED_OUT_TO r = Some studentId) (ROWS t))"
      unfolding split by auto
    with others show False by simp
  qed
  then have "Some studentId \<notin> CHECKED_OUT_TO ` set xs" "Some studentId \<notin> CHECKED_OUT_TO ` set ys"
    by (metis imageE)+
  then have notin: "Some studentId \<notin> set (holders xs)" "Some studentId \<notin> set (holders ys)"
    by (simp_all add: set_holders)
  have pk': "item_ids_distinct (t\<lparr>ROWS := rs\<rparr>)"
    using pk by (simp add: item_ids_distinct_def rs)
  have fk': "list_all (\<lambda>r. case CHECKED_OUT_TO r of
                       None \<Rightarrow> True
                     | Some i \<Rightarrow> i \<in> set (map STUDENT_ID studs)) rs"
    using fk stud unfolding rs' split by simp
  have un': "distinct (holders rs)"
    using un notin r0(3) unfolding rs' split by simp
  from pk' fk' un' show ?thesis by (simp add: kind_ok_def single_holder_def)
qed

lemma INSTRUMENTS_unchanged [simp]:
  "INSTRUMENTS (fst (addStudent today second i f l c sec sh so s)) = INSTRUMENTS s"
  "INSTRUMENTS (fst (setSectionLeader sec i s)) = INSTRUMENTS s"
  "INSTRUMENTS (fst (checkoutUniform today sid cs ps cn pn n s)) = INSTRUMENTS s"
  "INSTRUMENTS (fst (returnUniform iid s)) = INSTRUMENTS s"
  "INSTRUMENTS (fst (checkoutShako today sid sz n s)) = INSTRUMENTS s"
  "INSTRUMENTS (fst (returnShako iid s)) = INSTRUMENTS s"
  "INSTRUMENTS (fst (updateStudentCompliance today i h g d s)) = INSTRUMENTS s"
  by (simp_all add: addStudent_cases setSectionLeader_def checkoutUniform_cases returnUniform_def
      checkoutShako_cases returnShako_def updateStudentCompliance_def case_prod_unfold
      split: option.splits)

lemma UNIFORMS_unchanged [simp]:
  "UNIFORMS (fst (addStudent today second i f l c sec sh so s)) = UNIFORMS s"
  "UNIFORMS (fst (setSectionLeader sec i s)) = UNIFORMS s"
  "UNIFORMS (fst (addInstrumentToInventory ty ser n s)) = UNIFORMS s"
  "UNIFORMS (fst (checkoutInstrument today sid filt iid s)) = UNIFORMS s"
  "UNIFORMS (fst (returnInstrument iid s)) = UNIFORMS s"
  "UNIFORMS (fst (checkoutShako today sid sz n s)) = UNIFORMS s"
  "UNIFORMS (fst (returnShako iid s)) = UNIFORMS s"
  "UNIFORMS (fst (updateStudentCompliance today i h g d s)) = UNIFORMS s"
  by (simp_all add: addStudent_cases setSectionLeader_def addInstrumentToInventory_def
      checkoutInstrument_cases returnInstrument_def checkoutShako_cases returnShako_def
      updateStudentCompliance_def case_prod_unfold split: option.splits)

lemma SHAKOS_unchanged [simp]:
  "SHAKOS (fst (addStudent today second i f l c sec sh so s)) = SHAKOS s"
  "SHAKOS (fst (setSectionLeader sec i s)) = SHAKOS s"
  "SHAKOS (fst (addInstrumentToInventory ty ser n s)) = SHAKOS s"
  "SHAKOS (fst (checkoutInstrument today sid filt iid s)) = SHAKOS s"
  "SHAKOS (fst (returnInstrument iid s)) = SHAKOS s"
  "SHAKOS (fst (checkoutUniform today sid cs ps cn pn n s)) = SHAKOS s"
  "SHAKOS (fst (returnUniform iid s)) = SHAKOS s"
  "SHAKOS (fst (updateStudentCompliance today i h g d s)) = SHAKOS s"
  by (simp_all add: addStudent_cases setSectionLeader_def addInstrumentToInventory_def
      checkoutInstrument_cases returnInstrument_def checkoutUniform_cases returnUniform_def
      updateStudentCompliance_def case_prod_unfold split: option.splits)

lemma addInstrumentToInventory_kind_ok:
  assumes "kind_ok (STUDENTS s) (INSTRUMENTS s)"
  shows "kind_ok (STUDENTS s) (INSTRUMENTS (fst (addInstrumentToInventory ty ser n s)))"
proof (cases "insert_instrument (INSTRUMENT_TYPES s) (STUDENTS s)
             \<lparr>I_TYPE_ID = ty, SERIAL = bind_text_or_null ser\<rparr>
             (bind_text_or_null n) (INSTRUMENTS s)")
  case None
  with assms show ?thesis by (simp add: addInstrumentToInventory_def)
next
  case (Some t)
  then have "insert_item (STUDENTS s) \<lparr>I_TYPE_ID = ty, SERIAL = bind_text_or_null ser\<rparr>
      (bind_text_or_null n) None None (INSTRUMENTS s) = Some t"
    by (simp add: insert_instrument_def split: if_splits)
  from kind_ok_insert[OF assms this] Some show ?thesis
    by (simp add: addInstrumentToInventory_def)
qed

lemma checkoutInstrument_kind_ok:
  assumes "kind_ok (STUDENTS s) (INSTRUMENTS s)"
  shows "kind_ok (STUDENTS s) (INSTRUMENTS (fst (checkoutInstrument today sid filt iid s)))"
proof (cases "update_checkout (STUDENTS s) today sid iid (ROWS (INSTRUMENTS s))")
  case None
  with assms show ?thesis
    by (simp add: checkoutInstrument_def split: option.splits)
next
  case (Some p)
  obtain rs k where p: "p = (rs, k)" by (cases p)
  from kind_ok_checkout[OF assms Some[unfolded p]] assms Some p show ?thesis
    by (simp add: checkoutInstrument_def split: option.splits)
qed

lemma return_kind_ok:
  "kind_ok (STUDENTS s) (INSTRUMENTS s)
     \<Longrightarrow> kind_ok (STUDENTS s) (INSTRUMENTS (fst (returnInstrument iid s)))"
  "kind_ok (STUDENTS s) (UNIFORMS s)
     \<Longrightarrow> kind_ok (STUDENTS s) (UNIFORMS (fst (returnUniform iid s)))"
  "kind_ok (STUDENTS s) (SHAKOS s)
     \<Longrightarrow> kind_ok (STUDENTS s) (SHAKOS (fst (returnShako iid s)))"
  using kind_ok_return[of "STUDENTS s" "INSTRUMENTS s" iid]
    kind_ok_return[of "STUDENTS s" "UNIFORMS s" iid]
    kind_ok_return[of "STUDENTS s" "SHAKOS s" iid]
  by (simp_all add: returnInstrument_def returnUniform_def returnShako_def case_prod_unfold)

lemma checkoutUniform_kind_ok:
  assumes "kind_ok (STUDENTS s) (UNIFORMS s)"
  shows "kind_ok (STUDENTS s) (UNIFORMS (fst (checkoutUniform today sid cs ps cn pn n s)))"
proof (cases "insert_item (STUDENTS s)
                   \<lparr>COAT_SIZE = bind_text_or_null cs, PANT_SIZE = bind_text_or_null ps,
                    COAT_NUMBER = bind_text_or_null cn,
                    PANT_NUMBER = bind_text_or_null pn\<rparr>
                   (bind_text_or_null n) (Some sid) (Some today) (UNIFORMS s)")
  case None
  with assms show ?thesis by (simp add: checkoutUniform_def)
next
  case (Some t)
  from kind_ok_insert[OF assms Some] assms Some show ?thesis
    by (simp add: checkoutUniform_def)
qed

lemma checkoutShako_kind_ok:
  assumes "kind_ok (STUDENTS s) (SHAKOS s)"
  shows "kind_ok (STUDENTS s) (SHAKOS (fst (checkoutShako today sid sz n s)))"
proof (cases "insert_item (STUDENTS s) \<lparr>SIZE = bind_text_or_null sz\<rparr>
                   (bind_text_or_null n) (Some sid) (Some today) (SHAKOS s)")
  case None
  with assms show ?thesis by (simp add: checkoutShako_def)
next
  case (Some t)
  from kind_ok_insert[OF assms Some] assms Some show ?thesis
    by (simp add: checkoutShako_def)
qed

lemma addStudent_more_students:
  "set (map STUDENT_ID (STUDENTS s))
     \<subseteq> set (map STUDENT_ID (STUDENTS (fst (addStudent today second i f l c sec sh so s))))"
  by (auto simp: addStudent_tables)

lemma exec_kinds_ok:
  assumes "kinds_ok s"
  shows "kinds_ok (exec today c s)"
proof (cases c)
  case (AddStudent second i f l cl sec sh so)
  from assms show ?thesis
    unfolding AddStudent exec.simps kinds_ok_def INSTRUMENTS_unchanged UNIFORMS_unchanged
      SHAKOS_unchanged
    by (blast intro: kind_ok_more_students[OF _ addStudent_more_students])
next
  case (CheckoutInstrument sid filt iid)
  from assms checkoutInstrument_kind_ok[of s today sid filt iid] show ?thesis
    by (simp add: CheckoutInstrument kinds_ok_def)
next
  case (ReturnInstrument iid)
  from assms return_kind_ok(1)[of s iid] show ?thesis
    by (simp add: ReturnInstrument kinds_ok_def)
next
  case (AddInstrumentToInventory ty ser n)
  from assms addInstrumentToInventory_kind_ok[of s ty ser n] show ?thesis
    by (simp add: AddInstrumentToInventory kinds_ok_def)
next
  case (CheckoutUniform sid cs ps cn pn n)
  from assms checkoutUniform_kind_ok[of s today sid cs ps cn pn n] show ?thesis
    by (simp add: CheckoutUniform kinds_ok_def)
next
  case (ReturnUniform iid)
  from assms return_kind_ok(2)[of s iid] show ?thesis
    by (simp add: ReturnUniform kinds_ok_def)
next
  case (CheckoutShako sid sz n)
  from assms checkoutShako_kind_ok[of s today sid sz n] show ?thesis
    by (simp add: CheckoutShako kinds_ok_def)
next
  case (ReturnShako iid)
  from assms return_kind_ok(3)[of s iid] show ?thesis
    by (simp add: ReturnShako kinds_ok_def)
qed (use assms in \<open>simp_all add: kinds_ok_def\<close>)

lemma run_kinds_ok: "kinds_ok s \<Longrightarrow> kinds_ok (run cs s)"
  by (induction cs arbitrary: s) (auto simp: exec_kinds_ok)

lemma ensureTables_kinds_ok: "kinds_ok ensureTables"
  by (simp add: kinds_ok_def kind_ok_def item_ids_distinct_def single_holder_def ensureTables_def)

text \<open>
  Claim C1. In every state a session reaches from the new database, and for each of the three
  kinds of item, every \<open>CHECKED_OUT_TO\<close> that is not \<open>NULL\<close> is the id of a student in \<open>STUDENTS\<close>
  and no student id stands in \<open>CHECKED_OUT_TO\<close> of two items of the same kind; every command of
  the menu (adding a student, adding an instrument, the three checkouts, the three returns, and
  all the others) keeps this, together with the primary keys of the three tables, from any state
  that has it.
\<close>

theorem single_holder_per_kind:
  "single_holder (STUDENTS (run cs ensureTables)) (INSTRUMENTS (run cs ensureTables))
   \<and> single_holder (STUDENTS (run cs ensureTables)) (UNIFORMS (run cs ensureTables))
   \<and> single_holder (STUDENTS (run cs ensureTables)) (SHAKOS (run cs ensureTables))
   \<and> (kinds_ok s \<longrightarrow> kinds_ok (exec today c s))"
  using run_kinds_ok[OF ensureTables_kinds_ok, of cs] exec_kinds_ok[of s today c]
  by (simp add: kinds_ok_def kind_ok_def)

theorem single_holder_per_kind_witness:
  "kinds_ok band2 \<and> kinds_ok (exec ''2024-01-09'' (CheckoutInstrument 103 2 2) band2)
   \<and> map CHECKED_OUT_TO (ROWS (INSTRUMENTS (exec ''2024-01-09'' (CheckoutInstrument 103 2 2) band2)))
       = [Some 101, Some 103]"
proof -
  have 1: "kinds_ok band2" by code_simp
  have 2: "map CHECKED_OUT_TO (ROWS (INSTRUMENTS (exec ''2024-01-09'' (CheckoutInstrument 103 2 2) band2)))
       = [Some 101, Some 103]" by code_simp
  from single_holder_per_kind[of "[]" band2 "''2024-01-09''" "CheckoutInstrument 103 2 2"] 1 2
  show ?thesis by blast
qed

subsection \<open>Adding an instrument to the inventory\<close>

lemma addInstrumentToInventory_cases:
  "addInstrumentToInventory typeId serial notes s =
     (if typeId \<in> set (map TYPE_ID (INSTRUMENT_TYPES s))
         \<and> (serial = [] \<or> Some serial \<notin> set (serials (INSTRUMENTS s)))
      then (s\<lparr>INSTRUMENTS :=
               \<lparr>ROWS = ROWS (INSTRUMENTS s) @ [new_instrument (INSTRUMENTS s) typeId serial notes],
                SEQ = next_rowid (INSTRUMENTS s)\<rparr>\<rparr>, Instrument_added)
      else (s, Add_failed))"
  by (simp add: addInstrumentToInventory_def insert_instrument_def insert_item_def
      new_instrument_def serials_def bind_text_or_null_def)

lemma fold_max_above: "\<forall>x\<in>set xs. x \<le> a \<Longrightarrow> fold max xs (a::int) = a"
  by (induction xs) (simp_all add: max_absorb2)

lemma next_rowid_insert:
  assumes "ITEM_ID r = next_rowid t"
  shows "next_rowid \<lparr>ROWS = ROWS t @ [r], SEQ = next_rowid t\<rparr> = next_rowid t + 1"
proof -
  have "\<forall>x\<in>set (map ITEM_ID (ROWS t)). x \<le> next_rowid t"
    using next_rowid_greater(2)[of _ t] by fastforce
  from fold_max_above[OF this] assms show ?thesis
    by (simp add: next_rowid_def[of "\<lparr>ROWS = ROWS t @ [r], SEQ = next_rowid t\<rparr>"])
qed

lemma next_rowid_same_ids:
  "map ITEM_ID rs = map ITEM_ID (ROWS t) \<Longrightarrow> next_rowid (t\<lparr>ROWS := rs\<rparr>) = next_rowid t"
  by (simp add: next_rowid_def)

lemma exec_next_rowid_INSTRUMENTS:
  "next_rowid (INSTRUMENTS s) \<le> next_rowid (INSTRUMENTS (exec today c s))"
proof (cases c)
  case (AddInstrumentToInventory ty ser n)
  have "ITEM_ID (new_instrument (INSTRUMENTS s) ty ser n) = next_rowid (INSTRUMENTS s)"
    by (simp add: new_instrument_def)
  from next_rowid_insert[OF this] show ?thesis
    by (simp add: AddInstrumentToInventory addInstrumentToInventory_cases)
next
  case (CheckoutInstrument sid filt iid)
  show ?thesis
    by (simp add: CheckoutInstrument checkoutInstrument_cases next_rowid_same_ids)
next
  case (ReturnInstrument iid)
  show ?thesis
    by (simp add: ReturnInstrument returnInstrument_def case_prod_unfold next_rowid_same_ids)
qed simp_all

lemma exec_next_rowid_UNIFORMS:
  "next_rowid (UNIFORMS s) \<le> next_rowid (UNIFORMS (exec today c s))"
proof (cases c)
  case (CheckoutUniform sid cs ps cn pn n)
  have "ITEM_ID (new_item (UNIFORMS s) d n sid today) = next_rowid (UNIFORMS s)" for d
    by (simp add: new_item_def)
  from next_rowid_insert[OF this] show ?thesis
    by (simp add: CheckoutUniform checkoutUniform_cases)
next
  case (ReturnUniform iid)
  show ?thesis
    by (simp add: ReturnUniform returnUniform_def case_prod_unfold next_rowid_same_ids)
qed simp_all

lemma exec_next_rowid_SHAKOS:
  "next_rowid (SHAKOS s) \<le> next_rowid (SHAKOS (exec today c s))"
proof (cases c)
  case (CheckoutShako sid sz n)
  have "ITEM_ID (new_item (SHAKOS s) d n sid today) = next_rowid (SHAKOS s)" for d
    by (simp add: new_item_def)
  from next_rowid_insert[OF this] show ?thesis
    by (simp add: CheckoutShako checkoutShako_cases)
next
  case (ReturnShako iid)
  show ?thesis
    by (simp add: ReturnShako returnShako_def case_prod_unfold next_rowid_same_ids)
qed simp_all

lemma run_next_rowid:
  "next_rowid (INSTRUMENTS s) \<le> next_rowid (INSTRUMENTS (run cs s))"
  "next_rowid (UNIFORMS s) \<le> next_rowid (UNIFORMS (run cs s))"
  "next_rowid (SHAKOS s) \<le> next_rowid (SHAKOS (run cs s))"
proof -
  show "next_rowid (INSTRUMENTS s) \<le> next_rowid (INSTRUMENTS (run cs s))"
  proof (induction cs arbitrary: s)
    case (Cons a cs)
    obtain today c where a: "a = (today, c)" by (cases a)
    from exec_next_rowid_INSTRUMENTS[of s today c] Cons[of "exec today c s"] show ?case
      by (simp add: a)
  qed simp
  show "next_rowid (UNIFORMS s) \<le> next_rowid (UNIFORMS (run cs s))"
  proof (induction cs arbitrary: s)
    case (Cons a cs)
    obtain today c where a: "a = (today, c)" by (cases a)
    from exec_next_rowid_UNIFORMS[of s today c] Cons[of "exec today c s"] show ?case
      by (simp add: a)
  qed simp
  show "next_rowid (SHAKOS s) \<le> next_rowid (SHAKOS (run cs s))"
  proof (induction cs arbitrary: s)
    case (Cons a cs)
    obtain today c where a: "a = (today, c)" by (cases a)
    from exec_next_rowid_SHAKOS[of s today c] Cons[of "exec today c s"] show ?case
      by (simp add: a)
  qed simp
qed

text \<open>
  Claim C7, as the code has it. \<open>addInstrumentToInventory\<close> succeeds exactly when the type id is
  in the catalogue and the serial is left empty or is not yet in \<open>INSTRUMENTS\<close>; otherwise it
  reports the failure and changes nothing. When it succeeds it appends one row, checked out to
  nobody, whose id is the next row id of the table: greater than the id of every row of the
  table and than the largest id given before (\<open>SEQ\<close>), and smaller than the next row id of
  every later state, so no later insertion gets it again. In all three item tables the next row
  id never goes down over a session; uniforms and shakos get their rows, and their ids, from
  the checkouts.
\<close>

theorem addInstrumentToInventory_allocates:
  "(snd (addInstrumentToInventory typeId serial notes s) = Instrument_added
      \<longleftrightarrow> typeId \<in> set (map TYPE_ID (INSTRUMENT_TYPES s))
          \<and> (serial = [] \<or> Some serial \<notin> set (serials (INSTRUMENTS s))))
   \<and> (snd (addInstrumentToInventory typeId serial notes s) \<noteq> Instrument_added
        \<longrightarrow> addInstrumentToInventory typeId serial notes s = (s, Add_failed))
   \<and> (snd (addInstrumentToInventory typeId serial notes s) = Instrument_added
        \<longrightarrow> fst (addInstrumentToInventory typeId serial notes s)
              = s\<lparr>INSTRUMENTS :=
                   \<lparr>ROWS = ROWS (INSTRUMENTS s)
                             @ [new_instrument (INSTRUMENTS s) typeId serial notes],
                    SEQ = next_rowid (INSTRUMENTS s)\<rparr>\<rparr>
            \<and> (\<forall>r \<in> set (ROWS (INSTRUMENTS s)). ITEM_ID r < next_rowid (INSTRUMENTS s))
            \<and> SEQ (INSTRUMENTS s) < next_rowid (INSTRUMENTS s)
            \<and> next_rowid (INSTRUMENTS s)
                < next_rowid (INSTRUMENTS (run cs (fst (addInstrumentToInventory typeId serial notes s)))))
   \<and> next_rowid (INSTRUMENTS s) \<le> next_rowid (INSTRUMENTS (run cs s))
   \<and> next_rowid (UNIFORMS s) \<le> next_rowid (UNIFORMS (run cs s))
   \<and> next_rowid (SHAKOS s) \<le> next_rowid (SHAKOS (run cs s))"
proof -
  let ?r = "addInstrumentToInventory typeId serial notes s"
  have 1: "snd ?r = Instrument_added
      \<longleftrightarrow> typeId \<in> set (map TYPE_ID (INSTRUMENT_TYPES s))
          \<and> (serial = [] \<or> Some serial \<notin> set (serials (INSTRUMENTS s)))"
    by (simp add: addInstrumentToInventory_cases)
  have 2: "snd ?r \<noteq> Instrument_added \<longrightarrow> ?r = (s, Add_failed)"
    by (simp add: addInstrumentToInventory_cases)
  have 3: "snd ?r = Instrument_added
        \<longrightarrow> fst ?r = s\<lparr>INSTRUMENTS :=
                   \<lparr>ROWS = ROWS (INSTRUMENTS s)
                             @ [new_instrument (INSTRUMENTS s) typeId serial notes],
                    SEQ = next_rowid (INSTRUMENTS s)\<rparr>\<rparr>"
    by (simp add: addInstrumentToInventory_cases)
  have 4: "\<forall>r \<in> set (ROWS (INSTRUMENTS s)). ITEM_ID r < next_rowid (INSTRUMENTS s)"
    using next_rowid_greater(2)[of _ "INSTRUMENTS s"] by blast
  have 5: "SEQ (INSTRUMENTS s) < next_rowid (INSTRUMENTS s)"
    by (rule next_rowid_greater(1))
  have 6: "next_rowid (INSTRUMENTS s) < next_rowid (INSTRUMENTS (run cs (fst ?r)))"
    if "snd ?r = Instrument_added"
  proof -
    have "ITEM_ID (new_instrument (INSTRUMENTS s) typeId serial notes) = next_rowid (INSTRUMENTS s)"
      by (simp add: new_instrument_def)
    from next_rowid_insert[OF this] 3 that
    have "next_rowid (INSTRUMENTS (fst ?r)) = next_rowid (INSTRUMENTS s) + 1" by simp
    with run_next_rowid(1)[of "fst ?r" cs] show ?thesis by simp
  qed
  from 1 2 3 4 5 6 run_next_rowid[of s cs] show ?thesis by blast
qed

text \<open>
  Against claim C7 as stated: the database \<open>band\<close> holds a trumpet with the serial \<open>T1\<close>;
  adding an instrument of a type of the catalogue with that serial again fails and leaves the
  database as it was (\<open>SERIAL TEXT UNIQUE\<close>).
\<close>

theorem duplicate_serial_is_rejected:
  "Some ''T1'' \<in> set (serials (INSTRUMENTS band))
   \<and> 4 \<in> set (map TYPE_ID (INSTRUMENT_TYPES band))
   \<and> addInstrumentToInventory 4 ''T1'' ''second trumpet'' band = (band, Add_failed)"
proof -
  have 1: "Some ''T1'' \<in> set (serials (INSTRUMENTS band))" by code_simp
  have 2: "4 \<in> set (map TYPE_ID (INSTRUMENT_TYPES band))" by code_simp
  from 1 2 show ?thesis by (simp add: addInstrumentToInventory_cases)
qed

theorem addInstrumentToInventory_allocates_witness:
  "snd (addInstrumentToInventory 4 ''T2'' '''' band) = Instrument_added
   \<and> map ITEM_ID (ROWS (INSTRUMENTS band)) = [1, 2]
   \<and> next_rowid (INSTRUMENTS band) = 3
   \<and> next_rowid (INSTRUMENTS band)
       < next_rowid (INSTRUMENTS (run [(''2024-01-09'', ReturnInstrument 1),
                                        (''2024-01-09'', AddInstrumentToInventory 2 ''C2'' '''')]
                                   (fst (addInstrumentToInventory 4 ''T2'' '''' band))))
   \<and> snd (addInstrumentToInventory 99 ''T3'' '''' band) \<noteq> Instrument_added
   \<and> addInstrumentToInventory 99 ''T3'' '''' band = (band, Add_failed)"
proof -
  have 1: "snd (addInstrumentToInventory 4 ''T2'' '''' band) = Instrument_added" by code_simp
  have 2: "map ITEM_ID (ROWS (INSTRUMENTS band)) = [1, 2]" by code_simp
  have 3: "next_rowid (INSTRUMENTS band) = 3" by code_simp
  have 4: "snd (addInstrumentToInventory 99 ''T3'' '''' band) \<noteq> Instrument_added" by code_simp
  from addInstrumentToInventory_allocates[of 4 "''T2''" "''''" band
      "[(''2024-01-09'', ReturnInstrument 1), (''2024-01-09'', AddInstrumentToInventory 2 ''C2'' '''')]"]
    addInstrumentToInventory_allocates[of 99 "''T3''" "''''" band "[]"] 1 2 3 4
  show ?thesis by blast
qed

subsection \<open>The order of the assignments views\<close>

lemma insort_key_available:
  assumes "P x" and "\<forall>a\<in>set as. P a" and "\<forall>b\<in>set bs. \<not> P b"
  shows "insort_key (\<lambda>x. (- sql_bool (P x), k x)) x (as @ bs) = insort_key k x as @ bs"
  using assms
proof (induction as)
  case Nil
  then show ?case by (cases bs) (simp_all add: sql_bool_def less_eq_prod_def)
next
  case (Cons a as)
  then show ?case by (simp add: sql_bool_def less_eq_prod_def)
qed

lemma insort_key_checked_out:
  assumes "\<not> P x" and "\<forall>a\<in>set as. P a" and "\<forall>b\<in>set bs. \<not> P b"
  shows "insort_key (\<lambda>x. (- sql_bool (P x), k x)) x (as @ bs) = as @ insort_key k x bs"
  using assms
proof (induction as)
  case Nil
  from Nil(1,3) show ?case
    by (induction bs) (simp_all add: sql_bool_def less_eq_prod_def)
next
  case (Cons a as)
  then show ?case by (simp add: sql_bool_def less_eq_prod_def)
qed

lemma sort_key_available_first:
  "sort_key (\<lambda>x. (- sql_bool (P x), k x)) xs
     = sort_key k (filter P xs) @ sort_key k (filter (\<lambda>x. \<not> P x) xs)"
proof (induction xs)
  case (Cons x xs)
  have a: "\<forall>a\<in>set (sort_key k (filter P xs)). P a" by simp
  have b: "\<forall>b\<in>set (sort_key k (filter (\<lambda>x. \<not> P x) xs)). \<not> P b" by simp
  show ?case
  proof (cases "P x")
    case True
    from insort_key_available[OF True a b] Cons.IH True show ?thesis by simp
  next
    case False
    from insort_key_checked_out[OF False a b] Cons.IH False show ?thesis by simp
  qed
qed simp

lemma assignments_rows_available_first:
  "assignments_rows t = available_first ITEM_ID (ROWS t)"
  by (simp add: assignments_rows_def available_first_def sort_key_available_first)

lemma line_id_and_holder:
  "(A_ID (assignment_line r cols), A_STUDENT (assignment_line r cols)) = id_and_holder r"
  by (simp add: assignment_line_def id_and_holder_def coalesce_def)

lemma filter_unique_type:
  assumes "distinct (map TYPE_ID ts)" and "x \<in> set (map TYPE_ID ts)"
  shows "\<exists>t. filter (\<lambda>t. TYPE_ID t = x) ts = [t] \<and> find (\<lambda>t. TYPE_ID t = x) ts = Some t"
  using assms
proof (induction ts)
  case (Cons t ts)
  show ?case
  proof (cases "TYPE_ID t = x")
    case True
    with Cons.prems(1) have "x \<notin> TYPE_ID ` set ts" by simp
    then have "\<forall>u\<in>set ts. TYPE_ID u \<noteq> x" by blast
    then have "filter (\<lambda>t. TYPE_ID t = x) ts = []" by (simp add: filter_empty_conv)
    with True show ?thesis by simp
  next
    case False
    with Cons show ?thesis by simp
  qed
qed simp

lemma join_types_catalogue:
  assumes "catalogue_ok s"
  shows "join_types s = map (\<lambda>i. (i, instrument_type_of s i)) (ROWS (INSTRUMENTS s))"
proof -
  have "map (\<lambda>t. (i, t)) (filter (\<lambda>t. TYPE_ID t = I_TYPE_ID (DESCR i)) (INSTRUMENT_TYPES s))
          = [(i, instrument_type_of s i)]"
    if "i \<in> set (ROWS (INSTRUMENTS s))" for i
  proof -
    from assms that have "I_TYPE_ID (DESCR i) \<in> set (map TYPE_ID (INSTRUMENT_TYPES s))"
      by (simp add: catalogue_ok_def instruments_have_types_def list_all_iff)
    moreover from assms have "distinct (map TYPE_ID (INSTRUMENT_TYPES s))"
      by (simp add: catalogue_ok_def)
    ultimately obtain t where
      "filter (\<lambda>t. TYPE_ID t = I_TYPE_ID (DESCR i)) (INSTRUMENT_TYPES s) = [t]"
      "find (\<lambda>t. TYPE_ID t = I_TYPE_ID (DESCR i)) (INSTRUMENT_TYPES s) = Some t"
      using filter_unique_type by blast
    then show ?thesis by (simp add: instrument_type_of_def)
  qed
  then have m: "map (\<lambda>i. map (\<lambda>t. (i, t))
                 (filter (\<lambda>t. TYPE_ID t = I_TYPE_ID (DESCR i)) (INSTRUMENT_TYPES s)))
               (ROWS (INSTRUMENTS s))
             = map (\<lambda>i. [(i, instrument_type_of s i)]) (ROWS (INSTRUMENTS s))"
    by simp
  have "concat (map (\<lambda>i. [(i, instrument_type_of s i)]) (ROWS (INSTRUMENTS s)))
          = map (\<lambda>i. (i, instrument_type_of s i)) (ROWS (INSTRUMENTS s))"
    by (induction "ROWS (INSTRUMENTS s)") simp_all
  then show ?thesis unfolding join_types_def m .
qed

lemma viewInstrumentAssignments_rows_available_first:
  assumes "catalogue_ok s"
  shows "viewInstrumentAssignments_rows s
           = map (\<lambda>i. (i, instrument_type_of s i))
               (available_first (instrument_order s) (ROWS (INSTRUMENTS s)))"
proof -
  have "viewInstrumentAssignments_rows s
          = sort_key (\<lambda>x. (- sql_bool (CHECKED_OUT_TO (fst x) = None),
                            T_SECTION (snd x), TYPE_NAME (snd x), ITEM_ID (fst x)))
              (join_types s)"
    by (simp add: viewInstrumentAssignments_rows_def case_prod_unfold)
  also have "\<dots> = sort_key (\<lambda>x. (T_SECTION (snd x), TYPE_NAME (snd x), ITEM_ID (fst x)))
                      (filter (\<lambda>x. CHECKED_OUT_TO (fst x) = None) (join_types s))
                  @ sort_key (\<lambda>x. (T_SECTION (snd x), TYPE_NAME (snd x), ITEM_ID (fst x)))
                      (filter (\<lambda>x. \<not> CHECKED_OUT_TO (fst x) = None) (join_types s))"
    by (rule sort_key_available_first)
  also have "\<dots> = map (\<lambda>i. (i, instrument_type_of s i))
                      (available_first (instrument_order s) (ROWS (INSTRUMENTS s)))"
    by (simp add: join_types_catalogue[OF assms] filter_map sort_key_map comp_def
        available_first_def instrument_order_def[abs_def])
  finally show ?thesis .
qed

lemma check_out_descr [simp]:
  "map DESCR (check_out today studentId itemId rs) = map DESCR rs"
  by (induction rs) (simp_all add: check_out_def)

lemma update_return_descr [simp]:
  "map DESCR (fst (update_return itemId rs)) = map DESCR rs"
  by (induction rs) (simp_all add: update_return_def)

lemma have_types_descr:
  "instruments_have_types s
     \<longleftrightarrow> list_all (\<lambda>d. I_TYPE_ID d \<in> set (map TYPE_ID (INSTRUMENT_TYPES s)))
           (map DESCR (ROWS (INSTRUMENTS s)))"
  by (simp add: instruments_have_types_def list_all_iff)

lemma INSTRUMENT_TYPES_unchanged [simp]:
  "INSTRUMENT_TYPES (exec today c s) = INSTRUMENT_TYPES s"
  by (cases c)
    (simp_all add: addStudent_cases setSectionLeader_def addInstrumentToInventory_cases
      checkoutInstrument_cases returnInstrument_def checkoutUniform_cases returnUniform_def
      checkoutShako_cases returnShako_def updateStudentCompliance_def case_prod_unfold
      split: option.splits)

lemma exec_have_types:
  assumes "instruments_have_types s"
  shows "instruments_have_types (exec today c s)"
proof -
  from assms have "list_all (\<lambda>d. I_TYPE_ID d \<in> set (map TYPE_ID (INSTRUMENT_TYPES s)))
           (map DESCR (ROWS (INSTRUMENTS (exec today c s))))"
    unfolding have_types_descr
    by (cases c)
      (simp_all add: addInstrumentToInventory_cases new_instrument_def checkoutInstrument_cases
        returnInstrument_def case_prod_unfold)
  then show ?thesis unfolding have_types_descr INSTRUMENT_TYPES_unchanged .
qed

lemma run_catalogue_ok: "catalogue_ok s \<Longrightarrow> catalogue_ok (run cs s)"
proof (induction cs arbitrary: s)
  case (Cons a cs)
  obtain today c where a: "a = (today, c)" by (cases a)
  from Cons.prems have "catalogue_ok (exec today c s)"
    by (simp add: catalogue_ok_def exec_have_types)
  from Cons.IH[OF this] show ?case by (simp add: a)
qed simp

lemma ensureTables_catalogue_ok: "catalogue_ok ensureTables"
  by (simp add: catalogue_ok_def instruments_have_types_def ensureTables_def)

text \<open>
  Claim C8, as the code has it. Each of the three assignments views lists the available items
  first and the checked-out items after them (\<open>ORDER BY (CHECKED_OUT_TO IS NULL) DESC\<close>), each
  group in the secondary order of the kind: section of the type, name of the type, item id for
  instruments; item id for uniforms and shakos. The views of uniforms and shakos have one line
  for every row of the table, and so has the view of instruments in every state a session
  reaches from the new database, where every instrument has exactly one type in the catalogue.
\<close>

theorem assignments_list_available_items_first:
  "(catalogue_ok s \<longrightarrow>
      map (\<lambda>l. (A_ID l, A_STUDENT l)) (viewInstrumentAssignments s)
        = map id_and_holder (available_first (instrument_order s) (ROWS (INSTRUMENTS s))))
   \<and> map (\<lambda>l. (A_ID l, A_STUDENT l)) (viewUniformAssignments s)
        = map id_and_holder (available_first ITEM_ID (ROWS (UNIFORMS s)))
   \<and> map (\<lambda>l. (A_ID l, A_STUDENT l)) (viewShakoAssignments s)
        = map id_and_holder (available_first ITEM_ID (ROWS (SHAKOS s)))
   \<and> catalogue_ok (run cs ensureTables)
   \<and> length (viewInstrumentAssignments (run cs ensureTables))
        = length (ROWS (INSTRUMENTS (run cs ensureTables)))
   \<and> length (viewUniformAssignments s) = length (ROWS (UNIFORMS s))
   \<and> length (viewShakoAssignments s) = length (ROWS (SHAKOS s))"
proof -
  have i: "map (\<lambda>l. (A_ID l, A_STUDENT l)) (viewInstrumentAssignments s)
        = map id_and_holder (available_first (instrument_order s) (ROWS (INSTRUMENTS s)))"
    if "catalogue_ok s" for s
    by (simp add: viewInstrumentAssignments_def
        viewInstrumentAssignments_rows_available_first[OF that] comp_def line_id_and_holder)
  have u: "map (\<lambda>l. (A_ID l, A_STUDENT l)) (viewUniformAssignments s)
        = map id_and_holder (available_first ITEM_ID (ROWS (UNIFORMS s)))"
    by (simp add: viewUniformAssignments_def assignments_rows_available_first comp_def
        line_id_and_holder)
  have k: "map (\<lambda>l. (A_ID l, A_STUDENT l)) (viewShakoAssignments s)
        = map id_and_holder (available_first ITEM_ID (ROWS (SHAKOS s)))"
    by (simp add: viewShakoAssignments_def assignments_rows_available_first comp_def
        line_id_and_holder)
  have c: "catalogue_ok (run cs ensureTables)"
    by (rule run_catalogue_ok[OF ensureTables_catalogue_ok])
  have li: "length (viewInstrumentAssignments (run cs ensureTables))
        = length (ROWS (INSTRUMENTS (run cs ensureTables)))"
    by (simp add: viewInstrumentAssignments_def viewInstrumentAssignments_rows_def
        join_types_catalogue[OF c])
  have lu: "length (viewUniformAssignments s) = length (ROWS (UNIFORMS s))"
    by (simp add: viewUniformAssignments_def assignments_rows_def)
  have lk: "length (viewShakoAssignments s) = length (ROWS (SHAKOS s))"
    by (simp add: viewShakoAssignments_def assignments_rows_def)
  from i[of s] u k c li lu lk show ?thesis by blast
qed

text \<open>
  Against claim C8 as stated: in \<open>band\<close> instrument 1 is checked out to student 101 and
  instrument 2 is available, and the view lists instrument 2 first; in \<open>band2\<close> uniform 1 is
  checked out and uniform 2 has been returned, and the view lists uniform 2 first. With two
  available instruments the trumpet (section BRASS) is listed before the clarinet (section
  WOODWIND): the section of the type comes before its name.
\<close>

theorem available_items_are_listed_first:
  "map (\<lambda>l. (A_ID l, A_STUDENT l)) (viewInstrumentAssignments band) = [(2, 0), (1, 101)]
   \<and> map (\<lambda>l. (A_ID l, A_STUDENT l)) (viewUniformAssignments band2) = [(2, 0), (1, 101)]
   \<and> map (\<lambda>l. (A_ID l, A_COLUMNS l, A_STUDENT l))
         (viewInstrumentAssignments
            (run [(''2024-01-02'', AddInstrumentToInventory 2 ''C1'' ''ok''),
                  (''2024-01-02'', AddInstrumentToInventory 4 ''T1'' '''')] ensureTables))
       = [(2, [''TRUMPET'', ''T1''], 0), (1, [''CLARINET'', ''C1''], 0)]"
  by code_simp

theorem assignments_list_available_items_first_witness:
  "catalogue_ok band2
   \<and> map id_and_holder (available_first (instrument_order band2) (ROWS (INSTRUMENTS band2)))
       = [(2, 0), (1, 101)]
   \<and> map (\<lambda>l. (A_ID l, A_STUDENT l)) (viewInstrumentAssignments band2)
       = map id_and_holder (available_first (instrument_order band2) (ROWS (INSTRUMENTS band2)))"
proof -
  have 1: "catalogue_ok band2" by code_simp
  have 2: "map id_and_holder (available_first (instrument_order band2) (ROWS (INSTRUMENTS band2)))
       = [(2, 0), (1, 101)]" by code_simp
  from assignments_list_available_items_first[of band2 "[]"] 1 2 show ?thesis by blast
qed

end
